theory Spec2Isabelle
  imports Main "HOL-Library.Word" "HOL-Library.Sublist"
begin

unbundle bit_operations_syntax

section \<open>Frame codec (pipe/protocol.go)\<close>

text \<open>
  Go's \<^verbatim>\<open>[]byte\<close> is a list of 8-bit words and \<^verbatim>\<open>uint32\<close> a 32-bit word.
  The read side of a connection is the finite sequence of bytes that arrive before
  end-of-file; the write side is the log of the buffers handed to \<^verbatim>\<open>conn.Write\<close>,
  one entry per call.
\<close>

type_synonym byte = "8 word"
type_synonym bytes = "byte list"

text \<open>\<^verbatim>\<open>binary.BigEndian.PutUint32\<close> and \<^verbatim>\<open>binary.BigEndian.Uint32\<close>.\<close>

definition PutUint32 :: "32 word \<Rightarrow> bytes" where
  "PutUint32 v = [ucast (drop_bit 24 v), ucast (drop_bit 16 v), ucast (drop_bit 8 v), ucast v]"

fun Uint32 :: "bytes \<Rightarrow> 32 word" where
  "Uint32 (b0 # b1 # b2 # b3 # _) =
     push_bit 24 (ucast b0) OR push_bit 16 (ucast b1) OR push_bit 8 (ucast b2) OR ucast b3"
| "Uint32 _ = 0"

text \<open>
  \<^verbatim>\<open>io.ReadFull(conn, buf)\<close> with \<^verbatim>\<open>len(buf) = n\<close>: either the next \<open>n\<close> bytes and the
  rest of the stream, or failure when the stream ends first.
\<close>

definition ReadFull :: "nat \<Rightarrow> bytes \<Rightarrow> (bytes \<times> bytes) option" where
  "ReadFull n s = (if length s < n then None else Some (take n s, drop n s))"

text \<open>The four error returns of \<^verbatim>\<open>ReadMessage\<close>, in source order.\<close>

datatype read_error =
    ReadingLengthPrefix
  | ZeroLengthMessage
  | MessageTooLarge nat
  | ReadingPayload nat

definition maxMessageSize :: nat where
  "maxMessageSize = 10 * 1024 * 1024"

definition ReadMessage :: "bytes \<Rightarrow> read_error + (bytes \<times> bytes)" where
  "ReadMessage conn =
     (case ReadFull 4 conn of
        None \<Rightarrow> Inl ReadingLengthPrefix
      | Some (lenBuf, conn1) \<Rightarrow>
          let length = Uint32 lenBuf in
          if length = 0 then Inl ZeroLengthMessage
          else if unat length > maxMessageSize then Inl (MessageTooLarge (unat length))
          else (case ReadFull (unat length) conn1 of
                  None \<Rightarrow> Inl (ReadingPayload (unat length))
                | Some (payload, conn2) \<Rightarrow> Inr (payload, conn2)))"

text \<open>
  A connection: the bytes still to arrive on its read side, the log of buffers
  accepted by \<^verbatim>\<open>conn.Write\<close> so far and the number of further calls the peer will
  still accept (a call on a connection whose peer has gone away returns an error and
  transmits nothing).
\<close>

record conn =
  incoming :: bytes
  written :: "bytes list"
  accepts :: nat

definition conn_Write :: "conn \<Rightarrow> bytes \<Rightarrow> string option \<times> conn" where
  "conn_Write c buf =
     (if accepts c = 0 then (Some ''write: broken pipe'', c)
      else (None, c\<lparr>written := written c @ [buf], accepts := accepts c - 1\<rparr>))"

text \<open>
  \<^verbatim>\<open>WriteMessage\<close> of pipe/protocol.go: header and payload are copied into one buffer,
  which is handed to a single \<^verbatim>\<open>conn.Write\<close>. \<^verbatim>\<open>uint32(len(data))\<close> truncates.
\<close>

definition frame :: "bytes \<Rightarrow> bytes" where
  "frame data = PutUint32 (word_of_nat (length data)) @ data"

definition WriteMessage :: "conn \<Rightarrow> bytes \<Rightarrow> string option \<times> conn" where
  "WriteMessage c data = conn_Write c (frame data)"

text \<open>
  The second copy of the codec in the repository (src/unnamed/part_000) writes the
  header and the payload with two separate \<^verbatim>\<open>conn.Write\<close> calls, returning early when
  the first one fails.
\<close>

definition WriteMessage_part_000 :: "conn \<Rightarrow> bytes \<Rightarrow> string option \<times> conn" where
  "WriteMessage_part_000 c data =
     (case conn_Write c (PutUint32 (word_of_nat (length data))) of
        (Some err, c1) \<Rightarrow> (Some (''writing length prefix: '' @ err), c1)
      | (None, c1) \<Rightarrow>
          (case conn_Write c1 data of
             (Some err, c2) \<Rightarrow> (Some (''writing payload: '' @ err), c2)
           | (None, c2) \<Rightarrow> (None, c2)))"

text \<open>The byte stream the peer reads is the concatenation of the accepted writes.\<close>

definition stream_of :: "conn \<Rightarrow> bytes" where
  "stream_of c = concat (written c)"

definition fresh_conn :: conn where
  "fresh_conn = \<lparr>incoming = [], written = [], accepts = 1000\<rparr>"

text \<open>The length announced by the first four bytes of a stream.\<close>

definition declared :: "bytes \<Rightarrow> nat" where
  "declared s = unat (Uint32 (take 4 s))"

section \<open>Strings and library functions used by the supervisor\<close>

text \<open>
  The frame codec above computes with byte values. The supervisor and the dispatcher
  only compare, copy and concatenate bytes, so there both Go's \<^verbatim>\<open>string\<close> and
  \<^verbatim>\<open>[]byte\<close> are lists of \<^typ>\<open>char\<close> (an 8-bit value in HOL), and the conversions
  \<^verbatim>\<open>[]byte(s)\<close> and \<^verbatim>\<open>string(b)\<close> are the identity.
\<close>

text \<open>\<^verbatim>\<open>%d\<close> of \<^verbatim>\<open>fmt.Sprintf\<close>: decimal digits, with a minus sign for negative values.\<close>

definition digit_char :: "nat \<Rightarrow> char" where
  "digit_char d = ''0123456789'' ! d"

fun digits :: "nat \<Rightarrow> string" where
  "digits n = (if n < 10 then [digit_char n]
               else digits (n div 10) @ [digit_char (n mod 10)])"

declare digits.simps [simp del]

definition fmt_d :: "int \<Rightarrow> string" where
  "fmt_d i = (if i < 0 then CHR ''-'' # digits (nat (- i)) else digits (nat i))"

text \<open>Reading a digit string back, used to show that \<open>digits\<close> is injective.\<close>

definition undigits :: "string \<Rightarrow> nat" where
  "undigits s = foldl (\<lambda>a c. 10 * a + (of_char c - 48)) 0 s"

text \<open>
  \<^verbatim>\<open>utf8.DecodeRune\<close>, width only: the number of bytes of the first UTF-8 sequence of a
  non-empty input, 1 for an invalid or truncated sequence.
\<close>

definition is_cont :: "nat \<Rightarrow> nat \<Rightarrow> char \<Rightarrow> bool" where
  "is_cont lo hi c = (lo \<le> (of_char c :: nat) \<and> (of_char c :: nat) \<le> hi)"

fun rune_width :: "string \<Rightarrow> nat" where
  "rune_width [] = 0"
| "rune_width (c # cs) =
     (let b = (of_char c :: nat) in
      if b < 0x80 then 1
      else if 0xC2 \<le> b \<and> b \<le> 0xDF then
        (case cs of c1 # _ \<Rightarrow> if is_cont 0x80 0xBF c1 then 2 else 1 | _ \<Rightarrow> 1)
      else if 0xE0 \<le> b \<and> b \<le> 0xEF then
        (case cs of c1 # c2 # _ \<Rightarrow>
           if is_cont (if b = 0xE0 then 0xA0 else 0x80) (if b = 0xED then 0x9F else 0xBF) c1
              \<and> is_cont 0x80 0xBF c2 then 3 else 1
         | _ \<Rightarrow> 1)
      else if 0xF0 \<le> b \<and> b \<le> 0xF4 then
        (case cs of c1 # c2 # c3 # _ \<Rightarrow>
           if is_cont (if b = 0xF0 then 0x90 else 0x80) (if b = 0xF4 then 0x8F else 0xBF) c1
              \<and> is_cont 0x80 0xBF c2 \<and> is_cont 0x80 0xBF c3 then 4 else 1
         | _ \<Rightarrow> 1)
      else 1)"

text \<open>
  \<^verbatim>\<open>bytes.ReplaceAll(s, old, new)\<close>: every non-overlapping occurrence of \<open>old\<close>, found
  left to right, is replaced by \<open>new\<close>. An empty \<open>old\<close> matches at the start and after
  every UTF-8 sequence.
\<close>

function replace_runes :: "string \<Rightarrow> string \<Rightarrow> string" where
  "replace_runes s new =
     (if s = [] then []
      else take (rune_width s) s @ new @ replace_runes (drop (rune_width s) s) new)"
  by pat_completeness auto
termination
proof (relation "measure (\<lambda>(s, new). length s)")
  show "wf (measure (\<lambda>(s, new). length s))" by simp
next
  fix s new :: string
  assume "s \<noteq> []"
  then obtain c cs where s: "s = c # cs" by (cases s) auto
  have "0 < rune_width (c # cs)"
    by (auto simp add: Let_def split: list.splits)
  then show "((drop (rune_width s) s, new), (s, new)) \<in> measure (\<lambda>(s, new). length s)"
    using s by simp
qed

declare replace_runes.simps [simp del]

function replace_from :: "string \<Rightarrow> string \<Rightarrow> string \<Rightarrow> string" where
  "replace_from s old new =
     (if old = [] \<or> s = [] then s
      else if prefix old s then new @ replace_from (drop (length old) s) old new
      else hd s # replace_from (tl s) old new)"
  by pat_completeness auto
termination
  by (relation "measure (\<lambda>(s, old, new). length s)") (auto simp add: prefix_def)

declare replace_from.simps [simp del]

definition ReplaceAll :: "string \<Rightarrow> string \<Rightarrow> string \<Rightarrow> string" where
  "ReplaceAll s old new =
     (if old = [] then new @ replace_runes s new else replace_from s old new)"

text \<open>\<^verbatim>\<open>bytes.Contains\<close> and \<^verbatim>\<open>strings.HasPrefix\<close>.\<close>

definition Contains :: "string \<Rightarrow> string \<Rightarrow> bool" where
  "Contains b subslice = sublist subslice b"

definition HasPrefix :: "string \<Rightarrow> string \<Rightarrow> bool" where
  "HasPrefix s p = prefix p s"

text \<open>
  \<^verbatim>\<open>utf8.DecodeRuneInString\<close>: the first code point of the input and the number of bytes
  it takes. An invalid or truncated sequence gives \<^verbatim>\<open>RuneError\<close> with width 1, the empty
  input \<^verbatim>\<open>RuneError\<close> with width 0. A rune is a Go \<^verbatim>\<open>int32\<close>; the masks and shifts of the
  library are written with \<open>mod\<close> and multiplication.
\<close>

definition RuneError :: int where
  "RuneError = 0xFFFD"

fun DecodeRune :: "string \<Rightarrow> int \<times> nat" where
  "DecodeRune [] = (RuneError, 0)"
| "DecodeRune (c # cs) =
     (let s0 = (of_char c :: int) in
      if s0 < 0x80 then (s0, 1)
      else if s0 < 0xC2 \<or> 0xF4 < s0 then (RuneError, 1)
      else
        (let sz = (if s0 < 0xE0 then 2 else if s0 < 0xF0 then 3 else 4) :: nat;
             lo = (if s0 = 0xE0 then 0xA0 else if s0 = 0xF0 then 0x90 else 0x80) :: int;
             hi = (if s0 = 0xED then 0x9F else if s0 = 0xF4 then 0x8F else 0xBF) :: int;
             b = map of_char cs :: int list
         in if length (c # cs) < sz then (RuneError, 1)
            else if b ! 0 < lo \<or> hi < b ! 0 then (RuneError, 1)
            else if sz \<le> 2 then (s0 mod 32 * 64 + b ! 0 mod 64, 2)
            else if b ! 1 < 0x80 \<or> 0xBF < b ! 1 then (RuneError, 1)
            else if sz \<le> 3 then (s0 mod 16 * 4096 + b ! 0 mod 64 * 64 + b ! 1 mod 64, 3)
            else if b ! 2 < 0x80 \<or> 0xBF < b ! 2 then (RuneError, 1)
            else (s0 mod 8 * 262144 + b ! 0 mod 64 * 4096 + b ! 1 mod 64 * 64 + b ! 2 mod 64, 4)))"

text \<open>
  \<^verbatim>\<open>utf8.AppendRune\<close>, which \<^verbatim>\<open>Builder.WriteRune\<close> calls: the UTF-8 encoding of a rune, that
  of \<^verbatim>\<open>RuneError\<close> for a surrogate or a value outside the range of Unicode.
\<close>

definition EncodeRune :: "int \<Rightarrow> string" where
  "EncodeRune r =
     (if 0 \<le> r \<and> r \<le> 0x7F then [char_of r]
      else if 0 \<le> r \<and> r \<le> 0x7FF then [char_of (0xC0 + r div 64), char_of (0x80 + r mod 64)]
      else if r < 0 \<or> 0x10FFFF < r \<or> (0xD800 \<le> r \<and> r \<le> 0xDFFF) then [CHR 0xEF, CHR 0xBF, CHR 0xBD]
      else if r \<le> 0xFFFF then
        [char_of (0xE0 + r div 4096), char_of (0x80 + r div 64 mod 64), char_of (0x80 + r mod 64)]
      else
        [char_of (0xF0 + r div 262144), char_of (0x80 + r div 4096 mod 64),
         char_of (0x80 + r div 64 mod 64), char_of (0x80 + r mod 64)])"

text \<open>
  \<^verbatim>\<open>strings.Map(mapping, s)\<close>. The first loop keeps the input up to the first rune that
  the mapping changes or that is an invalid byte (\<open>Map_keeps\<close> is its test for going
  on); from there on (\<open>Map_rest\<close>, the second loop) every rune is decoded, mapped and
  encoded again, and a negative result of the mapping is dropped.
\<close>

function Map_rest :: "(int \<Rightarrow> int) \<Rightarrow> string \<Rightarrow> string" where
  "Map_rest mapping s =
     (if s = [] then []
      else (let r = mapping (fst (DecodeRune s))
            in (if 0 \<le> r then EncodeRune r else [])
               @ Map_rest mapping (drop (snd (DecodeRune s)) s)))"
  by pat_completeness auto
termination
proof (relation "measure (\<lambda>(mapping, s). length s)")
  show "wf (measure (\<lambda>(mapping, s). length s))" by simp
next
  fix mapping :: "int \<Rightarrow> int" and s :: string
  assume "s \<noteq> []"
  then have "0 < snd (DecodeRune s)"
    by (cases s) (simp_all add: Let_def)
  then show "((mapping, drop (snd (DecodeRune s)) s), (mapping, s))
             \<in> measure (\<lambda>(mapping, s). length s)"
    using \<open>s \<noteq> []\<close> by simp
qed

declare Map_rest.simps [simp del]

definition Map_keeps :: "(int \<Rightarrow> int) \<Rightarrow> string \<Rightarrow> bool" where
  "Map_keeps mapping s =
     (let c = fst (DecodeRune s); width = snd (DecodeRune s); r = mapping c
      in r = c \<and> (c \<noteq> RuneError \<or> width \<noteq> 1))"

function Map_string :: "(int \<Rightarrow> int) \<Rightarrow> string \<Rightarrow> string" where
  "Map_string mapping s =
     (if s = [] then []
      else if Map_keeps mapping s
        then take (snd (DecodeRune s)) s @ Map_string mapping (drop (snd (DecodeRune s)) s)
      else (let r = mapping (fst (DecodeRune s))
            in (if 0 \<le> r then EncodeRune r else [])
               @ Map_rest mapping (drop (snd (DecodeRune s)) s)))"
  by pat_completeness auto
termination
proof (relation "measure (\<lambda>(mapping, s). length s)")
  show "wf (measure (\<lambda>(mapping, s). length s))" by simp
next
  fix mapping :: "int \<Rightarrow> int" and s :: string
  assume "s \<noteq> []"
  then have "0 < snd (DecodeRune s)"
    by (cases s) (simp_all add: Let_def)
  then show "((mapping, drop (snd (DecodeRune s)) s), (mapping, s))
             \<in> measure (\<lambda>(mapping, s). length s)"
    using \<open>s \<noteq> []\<close> by simp
qed

declare Map_string.simps [simp del]

text \<open>
  \<^verbatim>\<open>unicode.ToUpper\<close>: the letters \<open>a\<close> to \<open>z\<close> are mapped directly, other ASCII runes are
  unchanged, and a rune above ASCII is looked up in the case tables of the Unicode
  version the Go release carries (\<^verbatim>\<open>unicode.To(unicode.UpperCase, r)\<close>). The tables are
  the argument \<open>upperCase\<close>.
\<close>

definition unicode_ToUpper :: "(int \<Rightarrow> int) \<Rightarrow> int \<Rightarrow> int" where
  "unicode_ToUpper upperCase r =
     (if r \<le> 0x7F then (if 0x61 \<le> r \<and> r \<le> 0x7A then r - 0x20 else r) else upperCase r)"

text \<open>
  \<^verbatim>\<open>strings.ToUpper\<close> and \<^verbatim>\<open>strings.TrimPrefix\<close>. \<open>ToUpper\<close> maps the bytes of an input that is
  all ASCII one by one, and any other input rune by rune with \<^verbatim>\<open>strings.Map\<close>.
\<close>

definition upper_char :: "char \<Rightarrow> char" where
  "upper_char c =
     (case map_of (zip ''abcdefghijklmnopqrstuvwxyz'' ''ABCDEFGHIJKLMNOPQRSTUVWXYZ'') c of
        Some u \<Rightarrow> u
      | None \<Rightarrow> c)"

definition ToUpper :: "(int \<Rightarrow> int) \<Rightarrow> string \<Rightarrow> string" where
  "ToUpper upperCase s =
     (if list_all (\<lambda>c. (of_char c :: int) < 0x80) s then map upper_char s
      else Map_string (unicode_ToUpper upperCase) s)"

definition TrimPrefix :: "string \<Rightarrow> string \<Rightarrow> string" where
  "TrimPrefix s p = (if prefix p s then drop (length p) s else s)"

section \<open>Events (process/events.go)\<close>

text \<open>
  One constructor per Go struct, with the fields in declaration order. The current
  revision of the file (third part of src/process/spawn.go) is the one embedded.
\<close>

datatype event =
    StdoutEvent (Type: string) (ProcessID: string) (Data: string)
  | StderrEvent (Type: string) (ProcessID: string) (Data: string)
  | ExitEvent (Type: string) (ProcessID: string) (ExitCode: int) (Signal: string)
      (OOMKillCount: int)
  | APIReachableEvent (Type: string) (Reachability: string) (WillTryRecover: bool)
  | ErrorEvent (Type: string) (ProcessID: string) (Message: string) (Fatal: bool)

definition NewStdoutEvent :: "string \<Rightarrow> string \<Rightarrow> event" where
  "NewStdoutEvent processID data = StdoutEvent ''stdout'' processID data"

definition NewStderrEvent :: "string \<Rightarrow> string \<Rightarrow> event" where
  "NewStderrEvent processID data = StderrEvent ''stderr'' processID data"

definition NewExitEvent :: "string \<Rightarrow> int \<Rightarrow> event" where
  "NewExitEvent processID code = ExitEvent ''exit'' processID code [] 0"

definition NewExitEventWithSignal :: "string \<Rightarrow> int \<Rightarrow> string \<Rightarrow> event" where
  "NewExitEventWithSignal processID code signal = ExitEvent ''exit'' processID code signal 0"

definition NewAPIReachableEvent :: "bool \<Rightarrow> event" where
  "NewAPIReachableEvent reachable =
     APIReachableEvent ''apiReachability'' (if reachable then ''reachable'' else ''unreachable'') False"

definition NewErrorEvent :: "string \<Rightarrow> string \<Rightarrow> bool \<Rightarrow> event" where
  "NewErrorEvent processID message fatal = ErrorEvent ''error'' processID message fatal"

section \<open>The skill-prefix pattern of writeStdin\<close>

text \<open>
  The marker \<^verbatim>\<open>"content":"/\<close> and the character class \<^verbatim>\<open>[a-zA-Z0-9_-]\<close> of the regular
  expression \<^verbatim>\<open>"content":"/[a-zA-Z0-9_-]+:\<close>.
\<close>

definition skillMarker :: string where
  \<open>skillMarker = ''"content":"/''\<close>

definition isPrefixChar :: "char \<Rightarrow> bool" where
  "isPrefixChar c =
     (c \<in> set ''abcdefghijklmnopqrstuvwxyzABCDEFGHIJKLMNOPQRSTUVWXYZ0123456789_-'')"

text \<open>
  The words of the regular expression, following its text: the marker, one or more
  class characters, a colon.
\<close>

definition skill_re_word :: "string \<Rightarrow> bool" where
  "skill_re_word w =
     (\<exists>run. run \<noteq> [] \<and> (\<forall>c \<in> set run. isPrefixChar c) \<and> w = skillMarker @ run @ '':'')"

text \<open>
  Matching at the head of the input, as Go's \<^verbatim>\<open>regexp\<close> does for this pattern: the
  greedy class repetition takes the longest run of class characters, and since a colon
  is no class character no shorter run can be followed by one. The result is the
  length of the match.
\<close>

definition match_here :: "string \<Rightarrow> nat option" where
  "match_here s =
     (if prefix skillMarker s then
        (let rest = drop (length skillMarker) s;
             run = takeWhile isPrefixChar rest;
             after = drop (length run) rest
         in if run \<noteq> [] \<and> prefix '':'' after
            then Some (length skillMarker + length run + 1) else None)
      else None)"

text \<open>\<^verbatim>\<open>re.Match(data)\<close>: some position of the input starts a match.\<close>

fun re_Match :: "string \<Rightarrow> bool" where
  "re_Match [] = False"
| "re_Match (c # cs) = (match_here (c # cs) \<noteq> None \<or> re_Match cs)"

text \<open>
  \<^verbatim>\<open>re.ReplaceAll(data, repl)\<close>: leftmost matches, not overlapping, each replaced by
  \<open>repl\<close> (the replacement in the source has no \<^verbatim>\<open>$\<close>, so it is inserted literally).
\<close>

function re_ReplaceAll :: "string \<Rightarrow> string \<Rightarrow> string" where
  "re_ReplaceAll s repl =
     (if s = [] then []
      else (case match_here s of
              Some n \<Rightarrow> repl @ re_ReplaceAll (drop n s) repl
            | None \<Rightarrow> hd s # re_ReplaceAll (tl s) repl))"
  by pat_completeness auto
termination
  by (relation "measure (\<lambda>(s, repl). length s)")
     (auto simp add: match_here_def Let_def split: if_splits)

declare re_ReplaceAll.simps [simp del]

text \<open>Lines 385-393 of native/process.go.\<close>

definition stripSkillPrefix :: "string \<Rightarrow> string" where
  "stripSkillPrefix data =
     (if Contains data skillMarker then
        (if re_Match data then re_ReplaceAll data skillMarker else data)
      else data)"

section \<open>The line scanner of streamOutput\<close>

text \<open>
  \<^verbatim>\<open>bufio.Scanner\<close> with the default split function \<^verbatim>\<open>ScanLines\<close> and
  \<^verbatim>\<open>scanner.Buffer(buf, max)\<close>, over a stream given by the bytes that arrive before
  end-of-file. A line ends at a newline; one carriage return before it is dropped; a
  last line without newline is delivered if it is not empty. A line whose bytes before
  the newline number \<open>maxTok\<close> or more does not fit the buffer: scanning stops there with
  \<^verbatim>\<open>ErrTooLong\<close>. The result is the list of tokens and \<^verbatim>\<open>scanner.Err()\<close>.
\<close>

definition newline :: char where
  "newline = CHR 0x0A"

definition dropCR :: "string \<Rightarrow> string" where
  "dropCR data = (if data \<noteq> [] \<and> last data = CHR 0x0D then butlast data else data)"

definition ErrTooLong :: string where
  "ErrTooLong = ''bufio.Scanner: token too long''"

function scanLines :: "nat \<Rightarrow> string \<Rightarrow> string list \<times> string option" where
  "scanLines maxTok r =
     (if r = [] then ([], None)
      else
        (let tok = takeWhile (\<lambda>c. c \<noteq> newline) r;
             rest = dropWhile (\<lambda>c. c \<noteq> newline) r
         in if maxTok \<le> length tok then ([], Some ErrTooLong)
            else if rest = [] then ([dropCR tok], None)
            else (case scanLines maxTok (tl rest) of (toks, err) \<Rightarrow> (dropCR tok # toks, err))))"
  by pat_completeness auto
termination
proof (relation "measure (\<lambda>(m, r). length r)")
  show "wf (measure (\<lambda>(m, r). length r))" by simp
next
  fix m :: nat and r :: string and tok rest
  assume "rest = dropWhile (\<lambda>c. c \<noteq> newline) r" "rest \<noteq> []"
  then have "length (tl rest) < length rest" "length rest \<le> length r"
    by (simp_all add: length_dropWhile_le)
  then show "((m, tl rest), (m, r)) \<in> measure (\<lambda>(m, r). length r)"
    by simp
qed

declare scanLines.simps [simp del]

section \<open>The process supervisor (native/process.go)\<close>

subsection \<open>Data\<close>

record pathRemap =
  from_bytes :: string
  to_bytes :: string

text \<open>
  The fields of \<^verbatim>\<open>exec.Cmd\<close> that the supervisor sets or reads. \<open>Env\<close> is \<open>None\<close> for a
  nil slice, \<open>Process\<close> is the pid once the command has been started.
\<close>

record Cmd =
  Path :: string
  Args :: "string list"
  Dir :: string
  Env :: "string list option"
  Setpgid :: bool
  Process :: "nat option"

definition Command :: "string \<Rightarrow> string list \<Rightarrow> Cmd" where
  "Command name arg =
     \<lparr>Path = name, Args = name # arg, Dir = [], Env = None, Setpgid = False, Process = None\<rparr>"

text \<open>
  \<^verbatim>\<open>localProcess\<close>. The field \<open>id\<close> is called \<open>lp_id\<close>; \<open>done_closed\<close> tells whether the
  channel \<open>done\<close> has been closed (the completion latch). \<open>vmPrefix\<close> and \<open>realPrefix\<close> are
  only ever assigned non-empty values, so a nil slice is the empty list. The stdin pipe
  and its mutex carry no data of their own: what is written to the pipe is part of
  the result of \<open>writeStdin\<close>.
\<close>

record localProcess =
  lp_id :: string
  cmd :: Cmd
  done_closed :: bool
  vmPrefix :: string
  realPrefix :: string
  reverseMap :: bool
  mountRemap :: "pathRemap list"

text \<open>
  \<^verbatim>\<open>processTracker\<close>. The map holds pointers: \<open>processes\<close> sends an id to the address of
  a record in \<open>heap\<close>, and records are never freed. \<open>nextID\<close> is a Go \<^verbatim>\<open>int\<close>, 64 bits
  on the platforms the service is built for. The fields \<open>emit\<close> and \<open>debug\<close> are not
  state: emitted events are returned by the functions below, and \<open>debug\<close> only adds log
  lines.
\<close>

record processTracker =
  processes :: "string \<rightharpoonup> nat"
  heap :: "localProcess list"
  nextID :: int

definition newProcessTracker :: processTracker where
  "newProcessTracker = \<lparr>processes = Map.empty, heap = [], nextID = 0\<rparr>"

text \<open>\<^verbatim>\<open>lp, ok := pt.processes[id]\<close>.\<close>

definition lookup :: "processTracker \<Rightarrow> string \<Rightarrow> localProcess option" where
  "lookup pt processID =
     (case processes pt processID of
        None \<Rightarrow> None
      | Some a \<Rightarrow> if a < length (heap pt) then Some (heap pt ! a) else None)"

text \<open>\<^verbatim>\<open>pt.nextID++\<close> on a 64-bit signed integer.\<close>

definition incr :: "int \<Rightarrow> int" where
  "incr n = (if n = 2 ^ 63 - 1 then - (2 ^ 63) else n + 1)"

text \<open>
  What the supervisor asks of the operating system and of Go's standard library, as
  far as the answers are not determined by the arguments: file existence, executable
  lookup, path functions that consult the working directory, the environment, pipe and
  process creation, the process group of a pid. \<open>Start\<close> is \<^verbatim>\<open>c.Start()\<close> for the command
  as it is configured at the call, giving the pid of the child. \<open>UpperCase\<close> stands for
  the case tables of the Unicode version the Go release carries: the upper-case mapping
  \<^verbatim>\<open>unicode.To(unicode.UpperCase, r)\<close> of a rune above ASCII.
\<close>

record host =
  Stat :: "string \<Rightarrow> bool"
  LookPath :: "string \<Rightarrow> string option"
  shell_which :: "string \<Rightarrow> string option"
  TrimSpace :: "string \<Rightarrow> string"
  Base :: "string \<Rightarrow> string"
  Clean :: "string \<Rightarrow> string"
  Join :: "string list \<Rightarrow> string"
  Getenv :: "string \<Rightarrow> string"
  Abs :: "string \<Rightarrow> string + string"
  os_Environ :: "string list"
  StdinPipe :: "string option"
  StdoutPipe :: "string option"
  StderrPipe :: "string option"
  Start :: "Cmd \<Rightarrow> string + nat"
  Getpgid :: "nat \<Rightarrow> string + int"
  UpperCase :: "int \<Rightarrow> int"

subsection \<open>spawn\<close>

text \<open>Lines 66-101: the path of the executable.\<close>

definition resolveCmd :: "host \<Rightarrow> string \<Rightarrow> string" where
  "resolveCmd h c =
     (if Stat h c then c
      else (case LookPath h (Base h c) of
              Some resolved \<Rightarrow> resolved
            | None \<Rightarrow>
               (let base = Base h c in
                case shell_which h base of
                  Some out \<Rightarrow> Clean h (TrimSpace h out)
                | None \<Rightarrow>
                   (case List.find (Stat h)
                           [Join h [Getenv h ''HOME'', ''.local'', ''bin'', base],
                            ''/usr/local/bin/'' @ base,
                            ''/usr/bin/'' @ base] of
                      Some candidate \<Rightarrow> candidate
                    | None \<Rightarrow> c))))"

text \<open>Lines 103-106: the command with its arguments and working directory.\<close>

definition spawnCmd :: "host \<Rightarrow> string \<Rightarrow> string list \<Rightarrow> string \<Rightarrow> Cmd" where
  "spawnCmd h cmd0 args cwd =
     (let c = Command (resolveCmd h cmd0) args in if cwd \<noteq> [] then c\<lparr>Dir := cwd\<rparr> else c)"

text \<open>
  Lines 122-129: the loop runs over the indices from the last to the first and deletes
  an entry that starts with one of the two prefixes. \<open>stripLoop n env\<close> is the loop
  with \<open>n\<close> indices still to visit, so the next index is \<open>n - 1\<close>.
\<close>

definition stripPrefixes :: "string list" where
  "stripPrefixes = [''CLAUDECODE='', ''CLAUDE_CODE_ENTRYPOINT='']"

fun stripLoop :: "nat \<Rightarrow> string list \<Rightarrow> string list" where
  "stripLoop 0 env = env"
| "stripLoop (Suc i) env =
     stripLoop i (if list_ex (HasPrefix (env ! i)) stripPrefixes
                  then take i env @ drop (Suc i) env else env)"

text \<open>
  \<^verbatim>\<open>exec.Cmd.Environ\<close> (os/exec, Go 1.19 and later, on Linux). When \<open>Env\<close> is nil the
  environment is that of the calling process, with an entry \<^verbatim>\<open>PWD=\<close> for the absolute path
  of \<open>Dir\<close> appended when \<open>Dir\<close> is set and that path can be determined. The list is then
  cleaned by \<^verbatim>\<open>dedupEnv\<close>: going from the last entry to the first, an entry that holds a
  NUL byte is dropped, an entry without an equals sign is kept unless it is empty, and
  of the entries with one key only the last is kept. The key of an entry ends before
  its first equals sign, or before its second one when the entry starts with an equals
  sign.
\<close>

definition envKey :: "string \<Rightarrow> string option" where
  "envKey kv =
     (if CHR ''='' \<notin> set kv then None
      else (let i = length (takeWhile (\<lambda>c. c \<noteq> CHR ''='') kv) in
            if i = 0 then
              (if CHR ''='' \<in> set (tl kv)
               then Some (take (length (takeWhile (\<lambda>c. c \<noteq> CHR ''='') (tl kv)) + 1) kv)
               else Some [])
            else Some (take i kv)))"

text \<open>
  The loop of \<^verbatim>\<open>dedupEnv\<close> over the entries from the last to the first, with the keys
  seen so far; the result is in the order of the visits.
\<close>

fun dedupLoop :: "string list \<Rightarrow> string list \<Rightarrow> string list" where
  "dedupLoop [] saw = []"
| "dedupLoop (kv # env) saw =
     (if CHR 0x00 \<in> set kv then dedupLoop env saw
      else (case envKey kv of
              None \<Rightarrow> if kv \<noteq> [] then kv # dedupLoop env saw else dedupLoop env saw
            | Some k \<Rightarrow> if k \<in> set saw then dedupLoop env saw
                        else kv # dedupLoop env (k # saw)))"

definition dedupEnv :: "string list \<Rightarrow> string list" where
  "dedupEnv env = rev (dedupLoop (rev env) [])"

definition Environ :: "host \<Rightarrow> Cmd \<Rightarrow> string list" where
  "Environ h c =
     dedupEnv
       (case Env c of
          Some env \<Rightarrow> env
        | None \<Rightarrow>
            os_Environ h
            @ (if Dir c \<noteq> [] then
                 (case Abs h (Dir c) of Inr pwd \<Rightarrow> [''PWD='' @ pwd] | Inl err \<Rightarrow> [])
               else []))"

text \<open>
  Lines 107-129: the environment of the command. \<open>env\<close> is the caller's map as the list
  of its entries in the order of the \<^verbatim>\<open>range\<close> loop.
\<close>

definition spawnEnv :: "host \<Rightarrow> Cmd \<Rightarrow> (string \<times> string) list \<Rightarrow> string list" where
  "spawnEnv h c env =
     (let env1 = (if length env > 0
                  then Some (Environ h c @ map (\<lambda>(k, v). k @ ''='' @ v) env)
                  else Env c);
          env2 = (case env1 of None \<Rightarrow> os_Environ h | Some e \<Rightarrow> e)
      in stripLoop (length env2) env2)"

text \<open>
  The value a started process finds for a variable. The environment is handed over as
  the list of \<^verbatim>\<open>name=value\<close> entries, and of several entries for one name the last one
  is used (\<^verbatim>\<open>exec.Cmd.Env\<close>).
\<close>

definition getenv :: "string list \<Rightarrow> string \<Rightarrow> string option" where
  "getenv env name =
     (let es = filter (\<lambda>e. prefix (name @ ''='') e) env
      in if es = [] then None else Some (drop (length name + 1) (last es)))"

text \<open>
  The goroutines \<open>spawn\<close> starts before it returns (lines 189-235): a reader of the
  child's stdout pipe and one of its stderr pipe, each a call of \<open>streamOutput\<close> with the
  id and the name of the stream, and the goroutine that waits for the readers and for
  the exit of the child, reports the exit under the id and closes \<open>done\<close> of the record
  \<open>lp\<close>, given here by its address.
\<close>

datatype pipe = stdout_pipe | stderr_pipe

datatype goroutine = go_streamOutput string pipe string | go_exit string nat

text \<open>
  \<open>spawn\<close> returns its two results, the events it has emitted itself, the tracker and
  the goroutines it has started.
\<close>

definition spawn ::
  "host \<Rightarrow> processTracker \<Rightarrow> string \<Rightarrow> string \<Rightarrow> string list \<Rightarrow> (string \<times> string) list \<Rightarrow>
   string \<Rightarrow> string \<Rightarrow> string \<Rightarrow> pathRemap list \<Rightarrow>
   (string + string) \<times> event list \<times> processTracker \<times> goroutine list" where
  "spawn h pt id0 cmd0 args env cwd vmPrefix0 realPrefix0 mountRemap0 =
     (let pt1 = (if id0 = [] then pt\<lparr>nextID := incr (nextID pt)\<rparr> else pt);
          pid_id = (if id0 = [] then ''proc-'' @ fmt_d (nextID pt1) else id0);
          c1 = spawnCmd h cmd0 args cwd;
          c2 = c1\<lparr>Env := Some (spawnEnv h c1 env), Setpgid := True\<rparr>
      in case StdinPipe h of
           Some err \<Rightarrow> (Inl (''creating stdin pipe: '' @ err), [], pt1, [])
         | None \<Rightarrow>
          (case StdoutPipe h of
             Some err \<Rightarrow> (Inl (''creating stdout pipe: '' @ err), [], pt1, [])
           | None \<Rightarrow>
            (case StderrPipe h of
               Some err \<Rightarrow> (Inl (''creating stderr pipe: '' @ err), [], pt1, [])
             | None \<Rightarrow>
              (case Start h c2 of
                 Inl err \<Rightarrow>
                   (Inl (''starting process: '' @ err),
                    [NewErrorEvent pid_id (''failed to start process: '' @ err) True], pt1, [])
               | Inr pid \<Rightarrow>
                   (let lp0 = \<lparr>lp_id = pid_id, cmd = c2\<lparr>Process := Some pid\<rparr>,
                               done_closed = False, vmPrefix = [], realPrefix = [],
                               reverseMap = False, mountRemap = mountRemap0\<rparr>;
                        lp = (if vmPrefix0 \<noteq> [] \<and> realPrefix0 \<noteq> []
                              then lp0\<lparr>vmPrefix := vmPrefix0, realPrefix := realPrefix0,
                                        reverseMap := Stat h vmPrefix0\<rparr>
                              else lp0)
                    in (Inr pid_id, [],
                        pt1\<lparr>processes := (processes pt1)(pid_id \<mapsto> length (heap pt1)),
                             heap := heap pt1 @ [lp]\<rparr>,
                        [go_streamOutput pid_id stdout_pipe ''stdout'',
                         go_streamOutput pid_id stderr_pipe ''stderr'',
                         go_exit pid_id (length (heap pt1))]))))))"

subsection \<open>The goroutines started by spawn\<close>

text \<open>
  \<open>streamOutput\<close> for a stream whose content up to end-of-file is \<open>r\<close>: the events it
  emits, in order. The scanner's limit is the second argument of \<^verbatim>\<open>scanner.Buffer\<close>.
\<close>

definition maxLine :: nat where
  "maxLine = 10 * 1024 * 1024"

text \<open>Lines 254-257: the reverse remapping of a line, for the record found under the id.\<close>

definition reverseRemap :: "localProcess option \<Rightarrow> string \<Rightarrow> string" where
  "reverseRemap lp line =
     (case lp of
        None \<Rightarrow> line
      | Some p \<Rightarrow> if reverseMap p then ReplaceAll line (realPrefix p) (vmPrefix p) else line)"

definition streamOutput :: "processTracker \<Rightarrow> string \<Rightarrow> string \<Rightarrow> string \<Rightarrow> event list" where
  "streamOutput pt pid_id r stream =
     (let lp = lookup pt pid_id in
      case scanLines maxLine r of (toks, err) \<Rightarrow>
        map (\<lambda>text. NewStdoutEvent pid_id (reverseRemap lp (text @ [newline]))) toks
        @ (case err of
             None \<Rightarrow> []
           | Some e \<Rightarrow> [NewErrorEvent pid_id (stream @ '' scanner error: '' @ e) False]))"

text \<open>Signals are \<^verbatim>\<open>syscall.Signal\<close> values, with the numbers of Linux.\<close>

type_synonym Signal = int

definition SIGHUP :: Signal where "SIGHUP = 1"
definition SIGINT :: Signal where "SIGINT = 2"
definition SIGQUIT :: Signal where "SIGQUIT = 3"
definition SIGABRT :: Signal where "SIGABRT = 6"
definition SIGKILL :: Signal where "SIGKILL = 9"
definition SIGUSR1 :: Signal where "SIGUSR1 = 10"
definition SIGSEGV :: Signal where "SIGSEGV = 11"
definition SIGUSR2 :: Signal where "SIGUSR2 = 12"
definition SIGPIPE :: Signal where "SIGPIPE = 13"
definition SIGTERM :: Signal where "SIGTERM = 15"

definition signalName :: "Signal \<Rightarrow> string" where
  "signalName sig =
     (if sig = SIGTERM then ''SIGTERM''
      else if sig = SIGKILL then ''SIGKILL''
      else if sig = SIGINT then ''SIGINT''
      else if sig = SIGQUIT then ''SIGQUIT''
      else if sig = SIGHUP then ''SIGHUP''
      else if sig = SIGUSR1 then ''SIGUSR1''
      else if sig = SIGUSR2 then ''SIGUSR2''
      else if sig = SIGPIPE then ''SIGPIPE''
      else if sig = SIGABRT then ''SIGABRT''
      else if sig = SIGSEGV then ''SIGSEGV''
      else ''SIG'' @ fmt_d sig)"

text \<open>
  The result of \<^verbatim>\<open>c.Wait()\<close>: no error, an \<^verbatim>\<open>*exec.ExitError\<close> with its exit code and,
  when the wait status says the child was signalled, the signal, or another error.
\<close>

datatype wait_result = WaitOk | WaitExitError int "Signal option" | WaitError

text \<open>
  The third goroutine, after both readers have finished: it emits the exit event and
  closes \<open>done\<close> of the record it was started for, the one at address \<open>a\<close>.
\<close>

definition waitExit ::
  "processTracker \<Rightarrow> string \<Rightarrow> nat \<Rightarrow> wait_result \<Rightarrow> event list \<times> processTracker" where
  "waitExit pt pid_id a w =
     (let code = (case w of WaitOk \<Rightarrow> 0 | WaitExitError c _ \<Rightarrow> c | WaitError \<Rightarrow> - 1);
          sig = (case w of WaitExitError _ (Some s) \<Rightarrow> signalName s | _ \<Rightarrow> [])
      in ((if sig \<noteq> [] then [NewExitEventWithSignal pid_id code sig]
           else [NewExitEvent pid_id code]),
          pt\<lparr>heap := (heap pt)[a := (heap pt ! a)\<lparr>done_closed := True\<rparr>]\<rparr>))"

text \<open>
  What a child does as far as the goroutines see it: the bytes it writes to its stdout
  and to its stderr before each is closed, and the result of waiting for it. A
  goroutine started by \<open>spawn\<close> runs from a tracker state, that of the moment it looks
  at the tracker, and gives the events it emits and the tracker it leaves.
\<close>

record child =
  child_stdout :: string
  child_stderr :: string
  child_wait :: wait_result

definition written_to :: "child \<Rightarrow> pipe \<Rightarrow> string" where
  "written_to ch p = (case p of stdout_pipe \<Rightarrow> child_stdout ch | stderr_pipe \<Rightarrow> child_stderr ch)"

definition run_goroutine ::
  "processTracker \<Rightarrow> child \<Rightarrow> goroutine \<Rightarrow> event list \<times> processTracker" where
  "run_goroutine pt ch g =
     (case g of
        go_streamOutput pid_id p stream \<Rightarrow> (streamOutput pt pid_id (written_to ch p) stream, pt)
      | go_exit pid_id a \<Rightarrow> waitExit pt pid_id a (child_wait ch))"

subsection \<open>kill\<close>

text \<open>\<open>mapSignal\<close>, with the host for the case tables that \<^verbatim>\<open>strings.ToUpper\<close> consults.\<close>

definition mapSignal :: "host \<Rightarrow> string \<Rightarrow> Signal" where
  "mapSignal h name =
     (let n = ToUpper (UpperCase h) (TrimPrefix (ToUpper (UpperCase h) name) ''SIG'') in
      if n = ''KILL'' then SIGKILL
      else if n = ''INT'' then SIGINT
      else if n = ''QUIT'' then SIGQUIT
      else if n = ''HUP'' then SIGHUP
      else if n = ''USR1'' then SIGUSR1
      else if n = ''USR2'' then SIGUSR2
      else SIGTERM)"

text \<open>
  The two ways \<open>kill\<close> delivers a signal: \<^verbatim>\<open>syscall.Kill(pid, sig)\<close>, where a negative
  first argument addresses a process group, and \<^verbatim>\<open>Process.Signal(sig)\<close> on one process.
\<close>

datatype delivery = syscall_Kill int Signal | Process_Signal nat Signal

definition kill :: "host \<Rightarrow> processTracker \<Rightarrow> string \<Rightarrow> string \<Rightarrow> string option \<times> delivery list" where
  "kill h pt processID signal =
     (case lookup pt processID of
        None \<Rightarrow> (Some (''process '' @ processID @ '' not found''), [])
      | Some lp \<Rightarrow>
         (case Process (cmd lp) of
            None \<Rightarrow> (None, [])
          | Some pid \<Rightarrow>
             (let sig = mapSignal h signal in
              case Getpgid h pid of
                Inr pgid \<Rightarrow> (None, [syscall_Kill (- pgid) sig])
              | Inl err \<Rightarrow> (None, [Process_Signal pid sig]))))"

text \<open>\<open>killAll\<close>; \<open>ids\<close> are the keys of the map in the order of the \<^verbatim>\<open>range\<close> loop.\<close>

definition killAll :: "host \<Rightarrow> processTracker \<Rightarrow> string list \<Rightarrow> delivery list" where
  "killAll h pt ids = concat (map (\<lambda>i. snd (kill h pt i [])) ids)"

subsection \<open>writeStdin and isRunning\<close>

text \<open>
  The branch taken by the final \<^verbatim>\<open>select\<close> of \<open>writeStdin\<close>: the writer goroutine has
  delivered the result of \<^verbatim>\<open>lp.stdin.Write\<close> (an error or none), \<open>done\<close> was closed while the
  write was pending, or the 10-second timer fired first.
\<close>

datatype select_case = WriteResult "string option" | DoneClosed | TimerFired

text \<open>What the writer goroutine does with the record's mutex and stdin pipe.\<close>

datatype stdin_op = mu_Lock | stdin_Write string | mu_Unlock

text \<open>
  Time is counted in nanoseconds, the unit of \<^verbatim>\<open>time.Duration\<close>. The select waits for
  the result of the writer, for \<open>done\<close> and for a timer of \<^verbatim>\<open>10 * time.Second\<close>. Given the
  instants after the start of the select at which the write returns (with its result)
  and at which \<open>done\<close> is closed, if they ever do, \<open>select_ready\<close> lists the cases that
  are ready at the earliest of these instants and of the timeout. The select takes one
  of them; Go chooses at random among several that are ready together.
\<close>

definition Second :: nat where
  "Second = 1000000000"

definition stdinTimeout :: nat where
  "stdinTimeout = 10 * Second"

definition select_ready :: "(nat \<times> string option) option \<Rightarrow> nat option \<Rightarrow> select_case list" where
  "select_ready w d =
     (let t = min (case w of None \<Rightarrow> stdinTimeout | Some (tw, err) \<Rightarrow> min tw stdinTimeout)
                  (case d of None \<Rightarrow> stdinTimeout | Some td \<Rightarrow> td)
      in (case w of None \<Rightarrow> [] | Some (tw, err) \<Rightarrow> if tw = t then [WriteResult err] else [])
         @ (case d of None \<Rightarrow> [] | Some td \<Rightarrow> if td = t then [DoneClosed] else [])
         @ (if t = stdinTimeout then [TimerFired] else []))"

text \<open>Lines 368-393: the two path remappings and the skill-prefix stripping.\<close>

definition remapStdin :: "localProcess \<Rightarrow> string \<Rightarrow> string" where
  "remapStdin lp data =
     (let data1 = (if vmPrefix lp \<noteq> [] then ReplaceAll data (vmPrefix lp) (realPrefix lp) else data);
          data2 = foldl (\<lambda>d rm. ReplaceAll d (from_bytes rm) (to_bytes rm)) data1 (mountRemap lp)
      in stripSkillPrefix data2)"

text \<open>
  \<open>writeStdin\<close> returns the error and the operations of the writer goroutine it has
  started (none when it returns before starting one).
\<close>

definition writeStdin ::
  "processTracker \<Rightarrow> string \<Rightarrow> string \<Rightarrow> select_case \<Rightarrow> string option \<times> stdin_op list" where
  "writeStdin pt processID data sel =
     (case lookup pt processID of
        None \<Rightarrow> (Some (''process '' @ processID @ '' not found''), [])
      | Some lp \<Rightarrow>
         (let data' = remapStdin lp data in
          if done_closed lp then (Some (''process '' @ processID @ '' has exited''), [])
          else
            (let writer = [mu_Lock, stdin_Write data', mu_Unlock] in
             case sel of
               WriteResult err \<Rightarrow> (err, writer)
             | DoneClosed \<Rightarrow> (Some (''process '' @ processID @ '' exited during write''), writer)
             | TimerFired \<Rightarrow> (Some (''stdin write timeout for process '' @ processID), writer))))"

definition isRunning :: "processTracker \<Rightarrow> string \<Rightarrow> bool \<times> string option" where
  "isRunning pt processID =
     (case lookup pt processID of
        None \<Rightarrow> (False, None)
      | Some lp \<Rightarrow> if done_closed lp then (False, None) else (True, None))"

subsection \<open>Sequences of supervisor operations\<close>

text \<open>
  Within one daemon lifetime the tracker is changed by calls of \<open>spawn\<close> and by the exit
  goroutines. A call of \<open>spawn\<close> is given by its arguments and by the answers of the
  host at that time.
\<close>

record spawnCall =
  call_host :: host
  call_id :: string
  call_cmd :: string
  call_args :: "string list"
  call_env :: "(string \<times> string) list"
  call_cwd :: string
  call_vmPrefix :: string
  call_realPrefix :: string
  call_mountRemap :: "pathRemap list"

definition doSpawn ::
  "processTracker \<Rightarrow> spawnCall \<Rightarrow>
   (string + string) \<times> event list \<times> processTracker \<times> goroutine list" where
  "doSpawn pt c =
     spawn (call_host c) pt (call_id c) (call_cmd c) (call_args c) (call_env c) (call_cwd c)
       (call_vmPrefix c) (call_realPrefix c) (call_mountRemap c)"

datatype tracker_op = OpSpawn spawnCall | OpExit string nat wait_result

text \<open>
  Running a sequence of operations from a tracker state: the result of every \<open>spawn\<close>
  (\<open>None\<close> for an exit step) and the final state.
\<close>

fun run :: "processTracker \<Rightarrow> tracker_op list \<Rightarrow> (string + string) option list \<times> processTracker" where
  "run pt [] = ([], pt)"
| "run pt (OpSpawn c # ops) =
     (case doSpawn pt c of (r, evs, pt1, gs) \<Rightarrow>
        (case run pt1 ops of (rs, pt2) \<Rightarrow> (Some r # rs, pt2)))"
| "run pt (OpExit i a w # ops) =
     (case waitExit pt i a w of (evs, pt1) \<Rightarrow>
        (case run pt1 ops of (rs, pt2) \<Rightarrow> (None # rs, pt2)))"

section \<open>The RPC dispatcher (pipe/protocol.go, pipe/server.go, pipe/handlers.go)\<close>

subsection \<open>Messages\<close>

text \<open>
  JSON values, for what Go holds in an \<^verbatim>\<open>interface{}\<close> that is marshalled. A nil
  interface is \<open>None\<close> of the option type.
\<close>

datatype json =
    JNull
  | JBool bool
  | JNumber int
  | JString string
  | JArray "json list"
  | JObject "(string \<times> json) list"

record Request =
  Method :: string
  Params :: "bytes option"
  ID :: "json option"

record Response =
  Success :: bool
  Result :: "json option"
  Error :: string

text \<open>
  The members \<^verbatim>\<open>json.Marshal\<close> writes for a \<open>Response\<close>, by the tags of the struct:
  \<open>success\<close> always, \<open>result\<close> unless the interface is nil, \<open>error\<close> unless the string is
  empty (\<^verbatim>\<open>omitempty\<close>).
\<close>

definition Response_json :: "Response \<Rightarrow> json" where
  "Response_json r =
     JObject ([(''success'', JBool (Success r))]
              @ (case Result r of None \<Rightarrow> [] | Some v \<Rightarrow> [(''result'', v)])
              @ (if Error r = [] then [] else [(''error'', JString (Error r))]))"

text \<open>The parameter structs. Fields are prefixed where two structs share a name.\<close>

record configureParams =
  Memory :: int
  CPUs :: int

record vmNameParams =
  Name :: string

record additionalMount =
  mount_Path :: string
  mount_Mode :: string

record spawnParams =
  sp_Name :: string
  sp_ID :: string
  sp_Cmd :: string
  sp_Args :: "string list"
  sp_Env :: "(string \<times> string) list"
  sp_Cwd :: string
  sp_AdditionalMounts :: "(string \<times> additionalMount) list"

record processIDParams =
  pi_ProcessID :: string

record writeStdinParams =
  ws_ProcessID :: string
  ws_Data :: string

record mountPathParams =
  mp_Name :: string
  HostPath :: string
  GuestPath :: string

record readFileParams =
  rf_Name :: string
  rf_Path :: string

record oauthTokenParams =
  oa_Name :: string
  Token :: string

record debugLoggingParams =
  Enabled :: bool

text \<open>
  \<^verbatim>\<open>encoding/json\<close>, which is not part of the repository: \<^verbatim>\<open>json.Unmarshal(data, &v)\<close>
  for each struct it is called with, giving the error (if any) and the struct as the
  call leaves it, starting from the zero value; and the text \<^verbatim>\<open>json.Marshal\<close> produces
  for a value.
\<close>

record json_lib =
  Unmarshal_Request :: "bytes \<Rightarrow> string option \<times> Request"
  Unmarshal_configureParams :: "bytes \<Rightarrow> string option \<times> configureParams"
  Unmarshal_vmNameParams :: "bytes \<Rightarrow> string option \<times> vmNameParams"
  Unmarshal_spawnParams :: "bytes \<Rightarrow> string option \<times> spawnParams"
  Unmarshal_processIDParams :: "bytes \<Rightarrow> string option \<times> processIDParams"
  Unmarshal_writeStdinParams :: "bytes \<Rightarrow> string option \<times> writeStdinParams"
  Unmarshal_mountPathParams :: "bytes \<Rightarrow> string option \<times> mountPathParams"
  Unmarshal_readFileParams :: "bytes \<Rightarrow> string option \<times> readFileParams"
  Unmarshal_oauthTokenParams :: "bytes \<Rightarrow> string option \<times> oauthTokenParams"
  Unmarshal_debugLoggingParams :: "bytes \<Rightarrow> string option \<times> debugLoggingParams"
  Marshal :: "json \<Rightarrow> bytes"

text \<open>A nil \<^verbatim>\<open>json.RawMessage\<close> is passed to \<^verbatim>\<open>json.Unmarshal\<close> as an empty slice.\<close>

definition raw :: "bytes option \<Rightarrow> bytes" where
  "raw p = (case p of None \<Rightarrow> [] | Some b \<Rightarrow> b)"

subsection \<open>The backend interface\<close>

text \<open>
  \<^verbatim>\<open>VMBackend\<close> of pipe/server.go, over a backend state \<open>'s\<close>. A Go \<^verbatim>\<open>error\<close> is
  \<open>None\<close> for nil and otherwise the text of \<^verbatim>\<open>err.Error()\<close>; the callback handed to
  \<open>SubscribeEvents\<close> is not an argument here, and the function it returns is the
  cancellation.
\<close>

record 's VMBackend =
  Configure :: "int \<Rightarrow> int \<Rightarrow> 's \<Rightarrow> string option \<times> 's"
  CreateVM :: "string \<Rightarrow> 's \<Rightarrow> string option \<times> 's"
  StartVM :: "string \<Rightarrow> 's \<Rightarrow> string option \<times> 's"
  StopVM :: "string \<Rightarrow> 's \<Rightarrow> string option \<times> 's"
  IsRunning :: "string \<Rightarrow> 's \<Rightarrow> (bool \<times> string option) \<times> 's"
  IsGuestConnected :: "string \<Rightarrow> 's \<Rightarrow> (bool \<times> string option) \<times> 's"
  Spawn :: "string \<Rightarrow> string \<Rightarrow> string \<Rightarrow> string list \<Rightarrow> (string \<times> string) list \<Rightarrow> string \<Rightarrow>
            (string \<times> string) list \<Rightarrow> 's \<Rightarrow> (string \<times> string option) \<times> 's"
  Kill :: "string \<Rightarrow> 's \<Rightarrow> string option \<times> 's"
  WriteStdin :: "string \<Rightarrow> string \<Rightarrow> 's \<Rightarrow> string option \<times> 's"
  IsProcessRunning :: "string \<Rightarrow> 's \<Rightarrow> (bool \<times> string option) \<times> 's"
  MountPath :: "string \<Rightarrow> string \<Rightarrow> string \<Rightarrow> 's \<Rightarrow> string option \<times> 's"
  ReadFile :: "string \<Rightarrow> string \<Rightarrow> 's \<Rightarrow> (string \<times> string option) \<times> 's"
  InstallSdk :: "string \<Rightarrow> 's \<Rightarrow> string option \<times> 's"
  AddApprovedOauthToken :: "string \<Rightarrow> string \<Rightarrow> 's \<Rightarrow> string option \<times> 's"
  SetDebugLogging :: "bool \<Rightarrow> 's \<Rightarrow> 's"
  SubscribeEvents :: "string \<Rightarrow> 's \<Rightarrow> (('s \<Rightarrow> 's) \<times> string option) \<times> 's"
  GetDownloadStatus :: "'s \<Rightarrow> string"

subsection \<open>Replies\<close>

text \<open>
  \<open>WriteResponse\<close> and \<open>WriteError\<close> of pipe/protocol.go. Marshalling a \<open>Response\<close> does
  not fail. \<open>WriteError\<close> receives the request id and a numeric code and uses neither.
\<close>

definition WriteResponse :: "json_lib \<Rightarrow> conn \<Rightarrow> json option \<Rightarrow> string option \<times> conn" where
  "WriteResponse lib c result =
     (let resp = \<lparr>Success = True, Result = result, Error = []\<rparr>
      in WriteMessage c (Marshal lib (Response_json resp)))"

definition WriteError ::
  "json_lib \<Rightarrow> conn \<Rightarrow> json option \<Rightarrow> int \<Rightarrow> string \<Rightarrow> string option \<times> conn" where
  "WriteError lib c reqid code message =
     (let resp = \<lparr>Success = False, Result = None, Error = message\<rparr>
      in WriteMessage c (Marshal lib (Response_json resp)))"

text \<open>
  The common shape of a handler whose backend operation returns only an error: the
  handlers ignore what \<open>WriteError\<close> and \<open>WriteResponse\<close> return.
\<close>

definition replyError :: "json_lib \<Rightarrow> conn \<Rightarrow> Request \<Rightarrow> int \<Rightarrow> string \<Rightarrow> conn" where
  "replyError lib c req code message = snd (WriteError lib c (ID req) code message)"

definition replyResult :: "json_lib \<Rightarrow> conn \<Rightarrow> json option \<Rightarrow> conn" where
  "replyResult lib c result = snd (WriteResponse lib c result)"

subsection \<open>The handlers\<close>

text \<open>
  Every handler takes the connection, the decoded request and the backend state and
  returns the connection after its reply and the new backend state.
\<close>

definition handleConfigure :: "json_lib \<Rightarrow> 's VMBackend \<Rightarrow> conn \<Rightarrow> Request \<Rightarrow> 's \<Rightarrow> conn \<times> 's" where
  "handleConfigure lib b c req s =
     (case Unmarshal_configureParams lib (raw (Params req)) of
        (Some err, p) \<Rightarrow> (replyError lib c req (- 32602) (''Invalid params: '' @ err), s)
      | (None, p) \<Rightarrow>
         (case Configure b (Memory p) (CPUs p) s of
            (Some err, s1) \<Rightarrow> (replyError lib c req (- 32000) err, s1)
          | (None, s1) \<Rightarrow> (replyResult lib c None, s1)))"

definition handleCreateVM :: "json_lib \<Rightarrow> 's VMBackend \<Rightarrow> conn \<Rightarrow> Request \<Rightarrow> 's \<Rightarrow> conn \<times> 's" where
  "handleCreateVM lib b c req s =
     (case Unmarshal_vmNameParams lib (raw (Params req)) of
        (Some err, p) \<Rightarrow> (replyError lib c req (- 32602) (''Invalid params: '' @ err), s)
      | (None, p) \<Rightarrow>
         (case CreateVM b (Name p) s of
            (Some err, s1) \<Rightarrow> (replyError lib c req (- 32000) err, s1)
          | (None, s1) \<Rightarrow> (replyResult lib c None, s1)))"

definition handleStartVM :: "json_lib \<Rightarrow> 's VMBackend \<Rightarrow> conn \<Rightarrow> Request \<Rightarrow> 's \<Rightarrow> conn \<times> 's" where
  "handleStartVM lib b c req s =
     (case Unmarshal_vmNameParams lib (raw (Params req)) of
        (Some err, p) \<Rightarrow> (replyError lib c req (- 32602) (''Invalid params: '' @ err), s)
      | (None, p) \<Rightarrow>
         (case StartVM b (Name p) s of
            (Some err, s1) \<Rightarrow> (replyError lib c req (- 32000) err, s1)
          | (None, s1) \<Rightarrow> (replyResult lib c None, s1)))"

definition handleStopVM :: "json_lib \<Rightarrow> 's VMBackend \<Rightarrow> conn \<Rightarrow> Request \<Rightarrow> 's \<Rightarrow> conn \<times> 's" where
  "handleStopVM lib b c req s =
     (case Unmarshal_vmNameParams lib (raw (Params req)) of
        (Some err, p) \<Rightarrow> (replyError lib c req (- 32602) (''Invalid params: '' @ err), s)
      | (None, p) \<Rightarrow>
         (case StopVM b (Name p) s of
            (Some err, s1) \<Rightarrow> (replyError lib c req (- 32000) err, s1)
          | (None, s1) \<Rightarrow> (replyResult lib c None, s1)))"

definition handleInstallSdk :: "json_lib \<Rightarrow> 's VMBackend \<Rightarrow> conn \<Rightarrow> Request \<Rightarrow> 's \<Rightarrow> conn \<times> 's" where
  "handleInstallSdk lib b c req s =
     (case Unmarshal_vmNameParams lib (raw (Params req)) of
        (Some err, p) \<Rightarrow> (replyError lib c req (- 32602) (''Invalid params: '' @ err), s)
      | (None, p) \<Rightarrow>
         (case InstallSdk b (Name p) s of
            (Some err, s1) \<Rightarrow> (replyError lib c req (- 32000) err, s1)
          | (None, s1) \<Rightarrow> (replyResult lib c None, s1)))"

text \<open>
  \<open>handleIsRunning\<close>, \<open>handleIsGuestConnected\<close> and \<open>handleSubscribeEvents\<close> decode only
  when \<open>params\<close> is present and drop the error of \<^verbatim>\<open>json.Unmarshal\<close>: they go on with
  the struct as the call left it.
\<close>

definition optionalName :: "json_lib \<Rightarrow> Request \<Rightarrow> vmNameParams" where
  "optionalName lib req =
     (if Params req \<noteq> None then snd (Unmarshal_vmNameParams lib (raw (Params req)))
      else \<lparr>Name = []\<rparr>)"

definition handleIsRunning :: "json_lib \<Rightarrow> 's VMBackend \<Rightarrow> conn \<Rightarrow> Request \<Rightarrow> 's \<Rightarrow> conn \<times> 's" where
  "handleIsRunning lib b c req s =
     (let p = optionalName lib req in
      case IsRunning b (Name p) s of
        ((running, Some err), s1) \<Rightarrow> (replyError lib c req (- 32000) err, s1)
      | ((running, None), s1) \<Rightarrow>
          (replyResult lib c (Some (JObject [(''running'', JBool running)])), s1))"

definition handleIsGuestConnected ::
  "json_lib \<Rightarrow> 's VMBackend \<Rightarrow> conn \<Rightarrow> Request \<Rightarrow> 's \<Rightarrow> conn \<times> 's" where
  "handleIsGuestConnected lib b c req s =
     (let p = optionalName lib req in
      case IsGuestConnected b (Name p) s of
        ((connected, Some err), s1) \<Rightarrow> (replyError lib c req (- 32000) err, s1)
      | ((connected, None), s1) \<Rightarrow>
          (replyResult lib c (Some (JObject [(''connected'', JBool connected)])), s1))"

definition handleSpawn :: "json_lib \<Rightarrow> 's VMBackend \<Rightarrow> conn \<Rightarrow> Request \<Rightarrow> 's \<Rightarrow> conn \<times> 's" where
  "handleSpawn lib b c req s =
     (case Unmarshal_spawnParams lib (raw (Params req)) of
        (Some err, p) \<Rightarrow> (replyError lib c req (- 32602) (''Invalid params: '' @ err), s)
      | (None, p) \<Rightarrow>
         (let mounts = map (\<lambda>(mountName, mount). (mountName, mount_Path mount))
                         (sp_AdditionalMounts p)
          in case Spawn b (sp_Name p) (sp_ID p) (sp_Cmd p) (sp_Args p) (sp_Env p) (sp_Cwd p)
                    mounts s of
               ((processID, Some err), s1) \<Rightarrow> (replyError lib c req (- 32000) err, s1)
             | ((processID, None), s1) \<Rightarrow>
                 (replyResult lib c (Some (JObject [(''id'', JString processID)])), s1)))"

definition handleKill :: "json_lib \<Rightarrow> 's VMBackend \<Rightarrow> conn \<Rightarrow> Request \<Rightarrow> 's \<Rightarrow> conn \<times> 's" where
  "handleKill lib b c req s =
     (case Unmarshal_processIDParams lib (raw (Params req)) of
        (Some err, p) \<Rightarrow> (replyError lib c req (- 32602) (''Invalid params: '' @ err), s)
      | (None, p) \<Rightarrow>
         (case Kill b (pi_ProcessID p) s of
            (Some err, s1) \<Rightarrow> (replyError lib c req (- 32000) err, s1)
          | (None, s1) \<Rightarrow> (replyResult lib c None, s1)))"

definition handleWriteStdin :: "json_lib \<Rightarrow> 's VMBackend \<Rightarrow> conn \<Rightarrow> Request \<Rightarrow> 's \<Rightarrow> conn \<times> 's" where
  "handleWriteStdin lib b c req s =
     (case Unmarshal_writeStdinParams lib (raw (Params req)) of
        (Some err, p) \<Rightarrow> (replyError lib c req (- 32602) (''Invalid params: '' @ err), s)
      | (None, p) \<Rightarrow>
         (case WriteStdin b (ws_ProcessID p) (ws_Data p) s of
            (Some err, s1) \<Rightarrow> (replyError lib c req (- 32000) err, s1)
          | (None, s1) \<Rightarrow> (replyResult lib c None, s1)))"

definition handleIsProcessRunning ::
  "json_lib \<Rightarrow> 's VMBackend \<Rightarrow> conn \<Rightarrow> Request \<Rightarrow> 's \<Rightarrow> conn \<times> 's" where
  "handleIsProcessRunning lib b c req s =
     (case Unmarshal_processIDParams lib (raw (Params req)) of
        (Some err, p) \<Rightarrow> (replyError lib c req (- 32602) (''Invalid params: '' @ err), s)
      | (None, p) \<Rightarrow>
         (case IsProcessRunning b (pi_ProcessID p) s of
            ((running, Some err), s1) \<Rightarrow> (replyError lib c req (- 32000) err, s1)
          | ((running, None), s1) \<Rightarrow>
              (replyResult lib c (Some (JObject [(''running'', JBool running)])), s1)))"

definition handleMountPath :: "json_lib \<Rightarrow> 's VMBackend \<Rightarrow> conn \<Rightarrow> Request \<Rightarrow> 's \<Rightarrow> conn \<times> 's" where
  "handleMountPath lib b c req s =
     (case Unmarshal_mountPathParams lib (raw (Params req)) of
        (Some err, p) \<Rightarrow> (replyError lib c req (- 32602) (''Invalid params: '' @ err), s)
      | (None, p) \<Rightarrow>
         (case MountPath b (mp_Name p) (HostPath p) (GuestPath p) s of
            (Some err, s1) \<Rightarrow> (replyError lib c req (- 32000) err, s1)
          | (None, s1) \<Rightarrow> (replyResult lib c None, s1)))"

definition handleReadFile :: "json_lib \<Rightarrow> 's VMBackend \<Rightarrow> conn \<Rightarrow> Request \<Rightarrow> 's \<Rightarrow> conn \<times> 's" where
  "handleReadFile lib b c req s =
     (case Unmarshal_readFileParams lib (raw (Params req)) of
        (Some err, p) \<Rightarrow> (replyError lib c req (- 32602) (''Invalid params: '' @ err), s)
      | (None, p) \<Rightarrow>
         (case ReadFile b (rf_Name p) (rf_Path p) s of
            ((data, Some err), s1) \<Rightarrow> (replyError lib c req (- 32000) err, s1)
          | ((data, None), s1) \<Rightarrow>
              (replyResult lib c (Some (JObject [(''data'', JString data)])), s1)))"

definition handleAddApprovedOauthToken ::
  "json_lib \<Rightarrow> 's VMBackend \<Rightarrow> conn \<Rightarrow> Request \<Rightarrow> 's \<Rightarrow> conn \<times> 's" where
  "handleAddApprovedOauthToken lib b c req s =
     (case Unmarshal_oauthTokenParams lib (raw (Params req)) of
        (Some err, p) \<Rightarrow> (replyError lib c req (- 32602) (''Invalid params: '' @ err), s)
      | (None, p) \<Rightarrow>
         (case AddApprovedOauthToken b (oa_Name p) (Token p) s of
            (Some err, s1) \<Rightarrow> (replyError lib c req (- 32000) err, s1)
          | (None, s1) \<Rightarrow> (replyResult lib c None, s1)))"

definition handleSetDebugLogging ::
  "json_lib \<Rightarrow> 's VMBackend \<Rightarrow> conn \<Rightarrow> Request \<Rightarrow> 's \<Rightarrow> conn \<times> 's" where
  "handleSetDebugLogging lib b c req s =
     (case Unmarshal_debugLoggingParams lib (raw (Params req)) of
        (Some err, p) \<Rightarrow> (replyError lib c req (- 32602) (''Invalid params: '' @ err), s)
      | (None, p) \<Rightarrow> (replyResult lib c None, SetDebugLogging b (Enabled p) s))"

text \<open>
  The read loop of \<open>handleSubscribeEvents\<close>: frames are read and dropped until a read
  fails. What is left of the stream after a failed read: nothing when the stream ended,
  the bytes after the header when the header announced an illegal length.
\<close>

function readUntilError :: "bytes \<Rightarrow> bytes" where
  "readUntilError s =
     (case ReadMessage s of
        Inr (payload, rest) \<Rightarrow> readUntilError rest
      | Inl ReadingLengthPrefix \<Rightarrow> []
      | Inl (ReadingPayload n) \<Rightarrow> []
      | Inl ZeroLengthMessage \<Rightarrow> drop 4 s
      | Inl (MessageTooLarge n) \<Rightarrow> drop 4 s)"
  by pat_completeness auto
termination
  by (relation "measure length")
     (auto simp add: ReadMessage_def ReadFull_def Let_def split: if_splits option.splits)

declare readUntilError.simps [simp del]

text \<open>
  \<open>handleSubscribeEvents\<close>. The events themselves are written to the connection by the
  callback, concurrently with this handler; here are the acknowledgement, the read
  loop and the cancellation that follows it.
\<close>

definition handleSubscribeEvents ::
  "json_lib \<Rightarrow> 's VMBackend \<Rightarrow> conn \<Rightarrow> Request \<Rightarrow> 's \<Rightarrow> conn \<times> 's" where
  "handleSubscribeEvents lib b c req s =
     (let p = optionalName lib req in
      case SubscribeEvents b (Name p) s of
        ((cancel, Some err), s1) \<Rightarrow> (replyError lib c req (- 32000) err, s1)
      | ((cancel, None), s1) \<Rightarrow>
          (let c1 = replyResult lib c (Some (JObject [(''subscribed'', JBool True)]))
           in (c1\<lparr>incoming := readUntilError (incoming c1)\<rparr>, cancel s1)))"

definition handleGetDownloadStatus ::
  "json_lib \<Rightarrow> 's VMBackend \<Rightarrow> conn \<Rightarrow> Request \<Rightarrow> 's \<Rightarrow> conn \<times> 's" where
  "handleGetDownloadStatus lib b c req s =
     (replyResult lib c (Some (JObject [(''status'', JString (GetDownloadStatus b s))])), s)"

subsection \<open>Handle\<close>

definition Handle :: "json_lib \<Rightarrow> 's VMBackend \<Rightarrow> conn \<Rightarrow> bytes \<Rightarrow> 's \<Rightarrow> conn \<times> 's" where
  "Handle lib b c payload s =
     (case Unmarshal_Request lib payload of
        (Some err, req) \<Rightarrow> (snd (WriteError lib c None (- 32700) ''Parse error''), s)
      | (None, req) \<Rightarrow>
         (if Method req = ''configure'' then handleConfigure lib b c req s
          else if Method req = ''createVM'' then handleCreateVM lib b c req s
          else if Method req = ''startVM'' then handleStartVM lib b c req s
          else if Method req = ''stopVM'' then handleStopVM lib b c req s
          else if Method req = ''isRunning'' then handleIsRunning lib b c req s
          else if Method req = ''isGuestConnected'' then handleIsGuestConnected lib b c req s
          else if Method req = ''spawn'' then handleSpawn lib b c req s
          else if Method req = ''kill'' then handleKill lib b c req s
          else if Method req = ''writeStdin'' then handleWriteStdin lib b c req s
          else if Method req = ''isProcessRunning'' then handleIsProcessRunning lib b c req s
          else if Method req = ''mountPath'' then handleMountPath lib b c req s
          else if Method req = ''readFile'' then handleReadFile lib b c req s
          else if Method req = ''installSdk'' then handleInstallSdk lib b c req s
          else if Method req = ''addApprovedOauthToken'' then
            handleAddApprovedOauthToken lib b c req s
          else if Method req = ''setDebugLogging'' then handleSetDebugLogging lib b c req s
          else if Method req = ''subscribeEvents'' then handleSubscribeEvents lib b c req s
          else if Method req = ''getDownloadStatus'' then handleGetDownloadStatus lib b c req s
          else (replyError lib c req (- 32601) (''Method not found: '' @ Method req), s)))"

text \<open>The names of the seventeen operations, in the order of the switch.\<close>

definition methods :: "string list" where
  "methods =
     [''configure'', ''createVM'', ''startVM'', ''stopVM'', ''isRunning'', ''isGuestConnected'',
      ''spawn'', ''kill'', ''writeStdin'', ''isProcessRunning'', ''mountPath'', ''readFile'',
      ''installSdk'', ''addApprovedOauthToken'', ''setDebugLogging'', ''subscribeEvents'',
      ''getDownloadStatus'']"

text \<open>
  The connection after one reply frame carrying the given response has been written
  to it.
\<close>

definition sent :: "json_lib \<Rightarrow> conn \<Rightarrow> Response \<Rightarrow> conn" where
  "sent lib c resp = snd (WriteMessage c (Marshal lib (Response_json resp)))"

subsection \<open>The specification's table of operations\<close>

text \<open>
  Following the specification (section 4.2): the error, if any, of decoding \<open>params\<close>
  into the parameter shape the table gives for the method. \<open>getDownloadStatus\<close> has no
  parameters.
\<close>

definition paramsError :: "json_lib \<Rightarrow> Request \<Rightarrow> string option" where
  "paramsError lib req =
     (let m = Method req; p = raw (Params req) in
      if m = ''configure'' then fst (Unmarshal_configureParams lib p)
      else if m \<in> set [''createVM'', ''startVM'', ''stopVM'', ''isRunning'', ''isGuestConnected'',
                       ''installSdk'', ''subscribeEvents'']
        then fst (Unmarshal_vmNameParams lib p)
      else if m = ''spawn'' then fst (Unmarshal_spawnParams lib p)
      else if m \<in> set [''kill'', ''isProcessRunning''] then fst (Unmarshal_processIDParams lib p)
      else if m = ''writeStdin'' then fst (Unmarshal_writeStdinParams lib p)
      else if m = ''mountPath'' then fst (Unmarshal_mountPathParams lib p)
      else if m = ''readFile'' then fst (Unmarshal_readFileParams lib p)
      else if m = ''addApprovedOauthToken'' then fst (Unmarshal_oauthTokenParams lib p)
      else if m = ''setDebugLogging'' then fst (Unmarshal_debugLoggingParams lib p)
      else None)"

text \<open>
  The operations whose handlers check the error of decoding \<open>params\<close>: all but
  \<open>isRunning\<close>, \<open>isGuestConnected\<close>, \<open>subscribeEvents\<close> and \<open>getDownloadStatus\<close>.
\<close>

definition strictMethods :: "string list" where
  "strictMethods =
     [''configure'', ''createVM'', ''startVM'', ''stopVM'', ''spawn'', ''kill'', ''writeStdin'',
      ''isProcessRunning'', ''mountPath'', ''readFile'', ''installSdk'', ''addApprovedOauthToken'',
      ''setDebugLogging'']"

text \<open>
  Following the specification: the operations whose result on success is null, and the
  result shapes of the others.
\<close>

definition nullResultMethods :: "string list" where
  "nullResultMethods =
     [''configure'', ''createVM'', ''startVM'', ''stopVM'', ''kill'', ''writeStdin'', ''mountPath'',
      ''installSdk'', ''addApprovedOauthToken'', ''setDebugLogging'']"

fun resultShape :: "string \<Rightarrow> json \<Rightarrow> bool" where
  "resultShape m (JObject [(k, JBool v)]) =
     (m \<in> set [''isRunning'', ''isProcessRunning''] \<and> k = ''running''
      \<or> m = ''isGuestConnected'' \<and> k = ''connected''
      \<or> m = ''subscribeEvents'' \<and> k = ''subscribed'' \<and> v)"
| "resultShape m (JObject [(k, JString v)]) =
     (m = ''spawn'' \<and> k = ''id'' \<or> m = ''readFile'' \<and> k = ''data''
      \<or> m = ''getDownloadStatus'' \<and> k = ''status'')"
| "resultShape m v = False"

text \<open>
  The handler has answered with exactly one frame, carrying the given response; the
  read side of the connection may have advanced.
\<close>

definition replied :: "json_lib \<Rightarrow> conn \<Rightarrow> conn \<Rightarrow> Response \<Rightarrow> bool" where
  "replied lib c c' resp = (c' = (sent lib c resp)\<lparr>incoming := incoming c'\<rparr>)"

subsection \<open>The native backend's Kill\<close>

text \<open>
  Modelled from the spec: the method \<open>Kill\<close> of the native backend, whose file
  (native/backend.go) is not among the sources. The interface hands it the process id
  only, and by the specification's kill semantics \<open>SIGTERM\<close> is used when the signal is
  absent or empty, so the supervisor's \<open>kill\<close> is called with the empty signal name. The
  backend state is the tracker with the log of the signals delivered so far.
\<close>

definition native_Kill ::
  "host \<Rightarrow> string \<Rightarrow> processTracker \<times> delivery list \<Rightarrow>
   string option \<times> (processTracker \<times> delivery list)" where
  "native_Kill h processID s =
     (case kill h (fst s) processID [] of (err, ds) \<Rightarrow> (err, (fst s, snd s @ ds)))"

fun delivered_signal :: "delivery \<Rightarrow> Signal" where
  "delivered_signal (syscall_Kill p sig) = sig"
| "delivered_signal (Process_Signal p sig) = sig"

text \<open>
  The wire shape of a successful reply for a method: the single member \<open>success\<close> for
  the operations with a null result, the members \<open>success\<close> and \<open>result\<close> with a value of
  the declared shape for the others.
\<close>

definition successShape :: "string \<Rightarrow> Response \<Rightarrow> bool" where
  "successShape m resp =
     (if m \<in> set nullResultMethods then Response_json resp = JObject [(''success'', JBool True)]
      else (case Result resp of
              None \<Rightarrow> False
            | Some v \<Rightarrow>
                resultShape m v
                \<and> Response_json resp = JObject [(''success'', JBool True), (''result'', v)]))"

section \<open>Concrete inputs\<close>

text \<open>
  A host on which every path exists and is absolute, no lookup is needed, pipes can be
  created and every command that has an environment and asks for a process group of
  its own starts with pid 4242 in that group; a
  supervisor environment that contains one of the two variables to be stripped; and a
  tracker holding one running process with path remapping in both directions. Of the
  case tables the host has the entries of three letters: U+017F (long s) with upper
  case \<open>S\<close>, U+0131 (dotless i) with upper case \<open>I\<close>, U+00E9 with upper case U+00C9.
\<close>

definition demo_environ :: "string list" where
  "demo_environ = [''PATH=/usr/bin'', ''CLAUDECODE=1'', ''HOME=/home/u'', ''PWD=/'']"

definition demo_host :: host where
  "demo_host =
     \<lparr>Stat = (\<lambda>p. True), LookPath = (\<lambda>f. None), shell_which = (\<lambda>f. None),
      TrimSpace = (\<lambda>s. s), Base = (\<lambda>s. s), Clean = (\<lambda>s. s), Join = concat,
      Getenv = (\<lambda>k. ''/home/u''), Abs = Inr, os_Environ = demo_environ,
      StdinPipe = None, StdoutPipe = None, StderrPipe = None,
      Start = (\<lambda>c. if Setpgid c \<and> Env c \<noteq> None then Inr 4242 else Inl ''not configured''),
      Getpgid = (\<lambda>p. Inr (int p)),
      UpperCase = (\<lambda>r. if r = 0x17F then 0x53 else if r = 0x131 then 0x49
                         else if r = 0xE9 then 0xC9 else r)\<rparr>"

definition demo_lp :: localProcess where
  "demo_lp =
     \<lparr>lp_id = ''p'', cmd = (Command ''/bin/cat'' [])\<lparr>Process := Some 4242\<rparr>,
      done_closed = False, vmPrefix = ''/sessions/s'', realPrefix = ''/home/u/s'',
      reverseMap = True,
      mountRemap = [\<lparr>from_bytes = ''/home/u/s/mnt/w'', to_bytes = ''/work''\<rparr>]\<rparr>"

definition demo_tracker :: processTracker where
  "demo_tracker = \<lparr>processes = [''p'' \<mapsto> 0], heap = [demo_lp], nextID = 0\<rparr>"

text \<open>
  Three calls of \<open>spawn\<close> on the host above, each starting a process with a pid of
  its own: with the caller-supplied id \<open>proc-1\<close>, with an empty id, and with an empty id
  again.
\<close>

definition demo_call :: "string \<Rightarrow> string \<Rightarrow> nat \<Rightarrow> spawnCall" where
  "demo_call i c p =
     \<lparr>call_host = demo_host\<lparr>Start := (\<lambda>c. Inr p)\<rparr>, call_id = i, call_cmd = c, call_args = [],
      call_env = [], call_cwd = [], call_vmPrefix = [], call_realPrefix = [],
      call_mountRemap = []\<rparr>"

definition demo_ops :: "tracker_op list" where
  "demo_ops =
     [OpSpawn (demo_call ''proc-1'' ''/bin/a'' 4243), OpSpawn (demo_call [] ''/bin/b'' 4244),
      OpSpawn (demo_call [] ''/bin/c'' 4245)]"

text \<open>
  Two calls of \<open>spawn\<close> with the same caller-supplied id \<open>job\<close>, and a child that writes
  one line to stdout, a line and an unfinished line to stderr, and exits with code 0.
\<close>

definition demo_ops_twice :: "tracker_op list" where
  "demo_ops_twice =
     [OpSpawn (demo_call ''job'' ''/bin/a'' 4243), OpSpawn (demo_call ''job'' ''/bin/b'' 4244)]"

definition demo_child :: child where
  "demo_child =
     \<lparr>child_stdout = ''out'' @ [newline], child_stderr = ''e1'' @ [newline] @ ''e2'',
      child_wait = WaitOk\<rparr>"

text \<open>
  A spawn with both path prefixes, so that output is remapped in reverse; a child that
  writes to stderr a line ending in a carriage return, an empty line and a last line
  without newline; and a child that writes to stdout the line \<open>ok\<close>, then a line of
  10 MiB, then the line \<open>after\<close>.
\<close>

definition demo_spawned ::
  "(string + string) \<times> event list \<times> processTracker \<times> goroutine list" where
  "demo_spawned =
     spawn demo_host newProcessTracker [] ''/bin/cat'' [] [] [] ''/sessions/s'' ''/home/u/s'' []"

definition demo_child_cr :: child where
  "demo_child_cr =
     \<lparr>child_stdout = [],
      child_stderr = ''cd /home/u/s/x'' @ [CHR 0x0D, newline] @ [newline] @ ''last'',
      child_wait = WaitOk\<rparr>"

definition demo_child_long :: child where
  "demo_child_long =
     \<lparr>child_stdout = ''ok'' @ [newline] @ replicate maxLine CHR ''a'' @ [newline]
                      @ ''after'' @ [newline],
      child_stderr = [], child_wait = WaitOk\<rparr>"

text \<open>
  Requests and the answers of \<^verbatim>\<open>encoding/json\<close> for them. The first request is
  \<^verbatim>\<open>{"method":"isRunning","params":"x"}\<close>: it decodes as a request, and its params, a
  JSON string, do not decode into a struct. The others are
  \<^verbatim>\<open>{"method":"configure","params":{"memory":4096,"cpus":2},"id":7}\<close>,
  \<^verbatim>\<open>{"method":"kill","params":"x"}\<close>, \<^verbatim>\<open>{"method":"kill","params":{"id":"p"}}\<close> and
  \<^verbatim>\<open>{"method":"frobnicate"}\<close>. Every other input
  is answered with a syntax error here. \<open>render\<close> writes a JSON value whose strings need
  no escaping.
\<close>

definition to_bytes_of :: "string \<Rightarrow> bytes" where
  "to_bytes_of s = map of_char s"

definition demo_isRunning :: bytes where
  \<open>demo_isRunning = to_bytes_of ''{"method":"isRunning","params":"x"}''\<close>

definition demo_configure :: bytes where
  \<open>demo_configure = to_bytes_of ''{"method":"configure","params":{"memory":4096,"cpus":2},"id":7}''\<close>

definition demo_kill :: bytes where
  \<open>demo_kill = to_bytes_of ''{"method":"kill","params":"x"}''\<close>

definition demo_kill_p :: bytes where
  \<open>demo_kill_p = to_bytes_of ''{"method":"kill","params":{"id":"p"}}''\<close>

definition demo_frobnicate :: bytes where
  \<open>demo_frobnicate = to_bytes_of ''{"method":"frobnicate"}''\<close>

fun join_commas :: "string list \<Rightarrow> string" where
  "join_commas [] = []"
| "join_commas [x] = x"
| "join_commas (x # y # ys) = x @ '','' @ join_commas (y # ys)"

fun render :: "json \<Rightarrow> string" where
  "render JNull = ''null''"
| "render (JBool v) = (if v then ''true'' else ''false'')"
| "render (JNumber n) = fmt_d n"
| \<open>render (JString s) = ''"'' @ s @ ''"''\<close>
| "render (JArray vs) = ''['' @ join_commas (map render vs) @ '']''"
| \<open>render (JObject ms) =
     ''{'' @ join_commas (map (\<lambda>m. ''"'' @ fst m @ ''":'' @ render (snd m)) ms) @ ''}''\<close>

definition demo_json :: json_lib where
  \<open>demo_json =
     \<lparr>Unmarshal_Request = (\<lambda>payload.
        if payload = demo_isRunning
          then (None, \<lparr>Method = ''isRunning'', Params = Some (to_bytes_of ''"x"''), ID = None\<rparr>)
        else if payload = demo_configure
          then (None, \<lparr>Method = ''configure'',
                       Params = Some (to_bytes_of ''{"memory":4096,"cpus":2}''),
                       ID = Some (JNumber 7)\<rparr>)
        else if payload = demo_kill
          then (None, \<lparr>Method = ''kill'', Params = Some (to_bytes_of ''"x"''), ID = None\<rparr>)
        else if payload = demo_kill_p
          then (None, \<lparr>Method = ''kill'', Params = Some (to_bytes_of ''{"id":"p"}''), ID = None\<rparr>)
        else if payload = demo_frobnicate
          then (None, \<lparr>Method = ''frobnicate'', Params = None, ID = None\<rparr>)
        else (Some ''invalid character'', \<lparr>Method = [], Params = None, ID = None\<rparr>)),
      Unmarshal_configureParams = (\<lambda>p.
        if p = to_bytes_of ''{"memory":4096,"cpus":2}'' then (None, \<lparr>Memory = 4096, CPUs = 2\<rparr>)
        else (Some ''unexpected end of JSON input'', \<lparr>Memory = 0, CPUs = 0\<rparr>)),
      Unmarshal_vmNameParams = (\<lambda>p.
        if p = to_bytes_of ''"x"''
          then (Some ''json: cannot unmarshal string into Go value of type pipe.vmNameParams'',
                \<lparr>Name = []\<rparr>)
        else (Some ''unexpected end of JSON input'', \<lparr>Name = []\<rparr>)),
      Unmarshal_spawnParams = (\<lambda>p. (Some ''unexpected end of JSON input'',
        \<lparr>sp_Name = [], sp_ID = [], sp_Cmd = [], sp_Args = [], sp_Env = [], sp_Cwd = [],
         sp_AdditionalMounts = []\<rparr>)),
      Unmarshal_processIDParams = (\<lambda>p.
        if p = to_bytes_of ''{"id":"p"}'' then (None, \<lparr>pi_ProcessID = ''p''\<rparr>)
        else if p = to_bytes_of ''"x"''
          then (Some ''json: cannot unmarshal string into Go value of type pipe.processIDParams'',
                \<lparr>pi_ProcessID = []\<rparr>)
        else (Some ''unexpected end of JSON input'', \<lparr>pi_ProcessID = []\<rparr>)),
      Unmarshal_writeStdinParams = (\<lambda>p. (Some ''unexpected end of JSON input'',
        \<lparr>ws_ProcessID = [], ws_Data = []\<rparr>)),
      Unmarshal_mountPathParams = (\<lambda>p. (Some ''unexpected end of JSON input'',
        \<lparr>mp_Name = [], HostPath = [], GuestPath = []\<rparr>)),
      Unmarshal_readFileParams = (\<lambda>p. (Some ''unexpected end of JSON input'',
        \<lparr>rf_Name = [], rf_Path = []\<rparr>)),
      Unmarshal_oauthTokenParams = (\<lambda>p. (Some ''unexpected end of JSON input'',
        \<lparr>oa_Name = [], Token = []\<rparr>)),
      Unmarshal_debugLoggingParams = (\<lambda>p. (Some ''unexpected end of JSON input'',
        \<lparr>Enabled = False\<rparr>)),
      Marshal = (\<lambda>v. to_bytes_of (render v))\<rparr>\<close>

text \<open>
  A backend that leaves its state alone and on which every operation succeeds: nothing
  is running, and spawn answers with the id it was given. And a host on which the
  process group of a pid cannot be found, as for a process that has been reaped.
\<close>

definition demo_host_gone :: host where
  "demo_host_gone = demo_host\<lparr>Getpgid := (\<lambda>p. Inl ''no such process'')\<rparr>"

definition demo_backend :: "'s VMBackend" where
  "demo_backend =
     \<lparr>Configure = (\<lambda>m n s. (None, s)), CreateVM = (\<lambda>n s. (None, s)),
      StartVM = (\<lambda>n s. (None, s)), StopVM = (\<lambda>n s. (None, s)),
      IsRunning = (\<lambda>n s. ((False, None), s)), IsGuestConnected = (\<lambda>n s. ((False, None), s)),
      Spawn = (\<lambda>n i c a e d m s. ((i, None), s)), Kill = (\<lambda>i s. (None, s)),
      WriteStdin = (\<lambda>i d s. (None, s)), IsProcessRunning = (\<lambda>i s. ((False, None), s)),
      MountPath = (\<lambda>n h g s. (None, s)), ReadFile = (\<lambda>n p s. (([], None), s)),
      InstallSdk = (\<lambda>n s. (None, s)), AddApprovedOauthToken = (\<lambda>n t s. (None, s)),
      SetDebugLogging = (\<lambda>e s. s), SubscribeEvents = (\<lambda>n s. (((\<lambda>s. s), None), s)),
      GetDownloadStatus = (\<lambda>s. ''NotDownloaded'')\<rparr>"

section \<open>Properties of the frame codec\<close>

lemma Uint32_PutUint32: "Uint32 (PutUint32 v) = v"
proof -
  have "push_bit 24 (ucast (ucast (drop_bit 24 v) :: byte) :: 32 word)
        OR push_bit 16 (ucast (ucast (drop_bit 16 v) :: byte))
        OR push_bit 8 (ucast (ucast (drop_bit 8 v) :: byte))
        OR ucast (ucast v :: byte) = v"
  proof (rule bit_word_eqI)
    fix n :: nat
    assume n: "n < LENGTH(32)"
    consider "n < 8" | "8 \<le> n" "n < 16" | "16 \<le> n" "n < 24" | "24 \<le> n" "n < 32"
      using n by fastforce
    then show "bit (push_bit 24 (ucast (ucast (drop_bit 24 v) :: byte) :: 32 word)
        OR push_bit 16 (ucast (ucast (drop_bit 16 v) :: byte))
        OR push_bit 8 (ucast (ucast (drop_bit 8 v) :: byte))
        OR ucast (ucast v :: byte)) n = bit v n"
      by cases (auto simp add: bit_simps)
  qed
  then show ?thesis by (simp add: PutUint32_def)
qed

lemma unat_length_frame: "n \<le> maxMessageSize \<Longrightarrow> unat (word_of_nat n :: 32 word) = n"
  by (simp add: maxMessageSize_def unat_of_nat)

lemma ReadFull_append: "ReadFull (length xs) (xs @ ys) = Some (xs, ys)"
  by (simp add: ReadFull_def)

lemma length_PutUint32: "length (PutUint32 v) = 4"
  by (simp add: PutUint32_def)

lemma ReadFull_header: "ReadFull 4 (PutUint32 v @ s) = Some (PutUint32 v, s)"
  using ReadFull_append [of "PutUint32 v" s] by (simp add: length_PutUint32)

lemma ReadMessage_frame:
  assumes "1 \<le> length s" "length s \<le> maxMessageSize"
  shows "ReadMessage (frame s @ rest) = Inr (s, rest)"
proof -
  have u: "unat (word_of_nat (length s) :: 32 word) = length s"
    using assms(2) by (rule unat_length_frame)
  then have nz: "(word_of_nat (length s) :: 32 word) \<noteq> 0"
    using assms(1) by (metis One_nat_def not_one_le_zero unat_0)
  show ?thesis
    using u nz assms(2)
    by (simp add: ReadMessage_def frame_def ReadFull_header Uint32_PutUint32 ReadFull_append)
qed

lemma WriteMessage_single_write:
  "0 < accepts c \<Longrightarrow>
     WriteMessage c data = (None, c\<lparr>written := written c @ [frame data], accepts := accepts c - 1\<rparr>)"
  by (simp add: WriteMessage_def conn_Write_def)

lemma WriteMessage_refused:
  "accepts c = 0 \<Longrightarrow> WriteMessage c data = (Some ''write: broken pipe'', c)"
  by (simp add: WriteMessage_def conn_Write_def)

lemma ReadMessage_short_header: "length s < 4 \<Longrightarrow> ReadMessage s = Inl ReadingLengthPrefix"
  by (simp add: ReadMessage_def ReadFull_def)

lemma ReadMessage_zero:
  "4 \<le> length s \<Longrightarrow> declared s = 0 \<Longrightarrow> ReadMessage s = Inl ZeroLengthMessage"
  by (simp add: ReadMessage_def ReadFull_def declared_def unat_eq_0)

lemma ReadMessage_too_large:
  "4 \<le> length s \<Longrightarrow> maxMessageSize < declared s \<Longrightarrow>
     ReadMessage s = Inl (MessageTooLarge (declared s))"
  by (auto simp add: ReadMessage_def ReadFull_def declared_def Let_def)

lemma ReadMessage_short_payload:
  "4 \<le> length s \<Longrightarrow> 0 < declared s \<Longrightarrow> declared s \<le> maxMessageSize \<Longrightarrow>
   length s < 4 + declared s \<Longrightarrow> ReadMessage s = Inl (ReadingPayload (declared s))"
  by (auto simp add: ReadMessage_def ReadFull_def declared_def Let_def)

lemma ReadMessage_ok:
  "4 \<le> length s \<Longrightarrow> 0 < declared s \<Longrightarrow> declared s \<le> maxMessageSize \<Longrightarrow>
   4 + declared s \<le> length s \<Longrightarrow>
     ReadMessage s = Inr (take (declared s) (drop 4 s), drop (4 + declared s) s)"
  by (auto simp add: ReadMessage_def ReadFull_def declared_def Let_def add.commute)

text \<open>
  Claim C2. Writing a payload \<open>s\<close> of 1 to 10 MiB with \<^verbatim>\<open>WriteMessage\<close> on a connection
  that accepts the write and reading the produced byte stream with \<^verbatim>\<open>ReadMessage\<close>
  yields exactly \<open>s\<close> (also when more bytes follow the frame). \<^verbatim>\<open>ReadMessage\<close> fails
  when the stream ends inside the 4-byte header, when the declared length is 0, when it
  exceeds 10 MiB, and when the stream ends before the declared number of payload bytes;
  a declared length of exactly 10 MiB with its payload present succeeds.
\<close>

theorem ReadMessage_WriteMessage_roundtrip:
  "maxMessageSize = 10 * 2 ^ 20
   \<and> (1 \<le> length s \<and> length s \<le> maxMessageSize \<and> 0 < accepts c \<and> written c = [] \<longrightarrow>
      fst (WriteMessage c s) = None \<and>
      ReadMessage (stream_of (snd (WriteMessage c s))) = Inr (s, []) \<and>
      ReadMessage (stream_of (snd (WriteMessage c s)) @ rest) = Inr (s, rest))
   \<and> (length t < 4 \<longrightarrow> ReadMessage t = Inl ReadingLengthPrefix)
   \<and> (4 \<le> length t \<and> declared t = 0 \<longrightarrow> ReadMessage t = Inl ZeroLengthMessage)
   \<and> (4 \<le> length t \<and> maxMessageSize < declared t \<longrightarrow>
        ReadMessage t = Inl (MessageTooLarge (declared t)))
   \<and> (4 \<le> length t \<and> 0 < declared t \<and> declared t \<le> maxMessageSize
        \<and> length t < 4 + declared t \<longrightarrow>
        ReadMessage t = Inl (ReadingPayload (declared t)))
   \<and> (4 \<le> length t \<and> declared t = maxMessageSize \<and> 4 + maxMessageSize \<le> length t \<longrightarrow>
        ReadMessage t = Inr (take maxMessageSize (drop 4 t), drop (4 + maxMessageSize) t))"
proof -
  have m: "maxMessageSize = 10 * 2 ^ 20"
    by (simp add: maxMessageSize_def)
  have rt: "fst (WriteMessage c s) = None \<and>
      ReadMessage (stream_of (snd (WriteMessage c s))) = Inr (s, []) \<and>
      ReadMessage (stream_of (snd (WriteMessage c s)) @ rest) = Inr (s, rest)"
    if h: "1 \<le> length s" "length s \<le> maxMessageSize" "0 < accepts c" "written c = []"
  proof -
    have st: "stream_of (snd (WriteMessage c s)) = frame s"
      using h(3,4) by (simp add: WriteMessage_single_write stream_of_def)
    have ok: "fst (WriteMessage c s) = None"
      using h(3) by (simp add: WriteMessage_single_write)
    show ?thesis
      using ReadMessage_frame [OF h(1,2), of "[]"] ReadMessage_frame [OF h(1,2), of rest] ok
      unfolding st by simp
  qed
  have big: "ReadMessage t = Inr (take maxMessageSize (drop 4 t), drop (4 + maxMessageSize) t)"
    if h: "4 \<le> length t" "declared t = maxMessageSize" "4 + maxMessageSize \<le> length t"
  proof -
    have "0 < declared t"
      using h(2) by (simp add: maxMessageSize_def)
    then show ?thesis
      using ReadMessage_ok [of t] h by simp
  qed
  show ?thesis
    using m rt big ReadMessage_short_header [of t] ReadMessage_zero [of t]
      ReadMessage_too_large [of t] ReadMessage_short_payload [of t]
    by blast
qed

theorem ReadMessage_WriteMessage_roundtrip_witness:
  "ReadMessage (stream_of (snd (WriteMessage fresh_conn [0x7B, 0x7D]))) = Inr ([0x7B, 0x7D], [])
   \<and> ReadMessage [0, 0] = Inl ReadingLengthPrefix
   \<and> ReadMessage [0, 0, 0, 0, 5] = Inl ZeroLengthMessage
   \<and> ReadMessage [0, 0xA0, 0, 1] = Inl (MessageTooLarge 10485761)
   \<and> ReadMessage [0, 0, 0, 3, 1, 2] = Inl (ReadingPayload 3)
   \<and> ReadMessage (PutUint32 (word_of_nat maxMessageSize) @ replicate maxMessageSize 7)
       = Inr (replicate maxMessageSize 7, [])"
proof -
  have a: "ReadMessage (stream_of (snd (WriteMessage fresh_conn [0x7B, 0x7D]))) = Inr ([0x7B, 0x7D], [])"
    using ReadMessage_WriteMessage_roundtrip [of "[0x7B, 0x7D]" fresh_conn "[]" "[]"]
    by (simp add: fresh_conn_def maxMessageSize_def)
  have b: "ReadMessage [0, 0] = Inl ReadingLengthPrefix"
    using ReadMessage_WriteMessage_roundtrip [of "[]" fresh_conn "[]" "[0, 0]"] by simp
  have c: "ReadMessage [0, 0, 0, 0, 5] = Inl ZeroLengthMessage"
    using ReadMessage_WriteMessage_roundtrip [of "[]" fresh_conn "[]" "[0, 0, 0, 0, 5]"]
    by (simp add: declared_def)
  have d: "ReadMessage [0, 0xA0, 0, 1] = Inl (MessageTooLarge 10485761)"
    using ReadMessage_WriteMessage_roundtrip [of "[]" fresh_conn "[]" "[0, 0xA0, 0, 1]"]
    by (simp add: declared_def maxMessageSize_def)
  have e: "ReadMessage [0, 0, 0, 3, 1, 2] = Inl (ReadingPayload 3)"
    using ReadMessage_WriteMessage_roundtrip [of "[]" fresh_conn "[]" "[0, 0, 0, 3, 1, 2]"]
    by (simp add: declared_def maxMessageSize_def)
  have f: "ReadMessage (PutUint32 (word_of_nat maxMessageSize) @ replicate maxMessageSize 7)
       = Inr (replicate maxMessageSize 7, [])"
    using ReadMessage_WriteMessage_roundtrip [of "[]" fresh_conn "[]"
        "PutUint32 (word_of_nat maxMessageSize) @ replicate maxMessageSize 7"]
    by (simp add: declared_def length_PutUint32 Uint32_PutUint32 unat_length_frame)
  show ?thesis using a b c d e f by blast
qed

text \<open>
  With the single-buffer \<^verbatim>\<open>WriteMessage\<close> of pipe/protocol.go every schedule of the writes
  of two writers on one connection is a sequence of whole frames.
\<close>

lemma shuffles_map_frame:
  "ws \<in> shuffles (map frame as) (map frame bs) \<Longrightarrow> \<exists>cs \<in> shuffles as bs. ws = map frame cs"
proof (induction as bs arbitrary: ws rule: shuffles.induct)
  case (1 ys)
  then show ?case by simp
next
  case (2 xs)
  then show ?case by simp
next
  case (3 x xs y ys)
  from "3.prems" consider
    (l) zs where "ws = frame x # zs" "zs \<in> shuffles (map frame xs) (map frame (y # ys))"
    | (r) zs where "ws = frame y # zs" "zs \<in> shuffles (map frame (x # xs)) (map frame ys)"
    by auto
  then show ?case
  proof cases
    case l
    from "3.IH"(1) [OF l(2)] obtain cs where "cs \<in> shuffles xs (y # ys)" "zs = map frame cs"
      by blast
    then have "x # cs \<in> shuffles (x # xs) (y # ys)" "ws = map frame (x # cs)"
      using l(1) by simp_all
    then show ?thesis by blast
  next
    case r
    from "3.IH"(2) [OF r(2)] obtain cs where "cs \<in> shuffles (x # xs) ys" "zs = map frame cs"
      by blast
    then have "y # cs \<in> shuffles (x # xs) (y # ys)" "ws = map frame (y # cs)"
      using r(1) by simp_all
    then show ?thesis by blast
  qed
qed

text \<open>
  Claim C3, evaluated on the copy of \<^verbatim>\<open>WriteMessage\<close> in src/unnamed/part_000. For the
  payload \<open>{}\<close> it performs two writes, the header \<open>00 00 00 02\<close> and then the payload,
  where \<^verbatim>\<open>WriteMessage\<close> of pipe/protocol.go performs the single write the claim asks
  for. With a second writer sending \<open>[1]\<close> the schedule header, header, payload,
  payload is possible, and the reader then takes the first two bytes of the second
  header for the first payload.
\<close>

theorem WriteMessage_part_000_two_writes:
  "written (snd (WriteMessage_part_000 fresh_conn [0x7B, 0x7D])) = [[0, 0, 0, 2], [0x7B, 0x7D]]
   \<and> written (snd (WriteMessage fresh_conn [0x7B, 0x7D])) = [[0, 0, 0, 2, 0x7B, 0x7D]]
   \<and> [[0, 0, 0, 2], [0, 0, 0, 3], [0x7B, 0x7D], [0x5B, 0x31, 0x5D]]
       \<in> shuffles (written (snd (WriteMessage_part_000 fresh_conn [0x7B, 0x7D])))
                   (written (snd (WriteMessage_part_000 fresh_conn [0x5B, 0x31, 0x5D])))
   \<and> ReadMessage (concat [[0, 0, 0, 2], [0, 0, 0, 3], [0x7B, 0x7D], [0x5B, 0x31, 0x5D]])
       = Inr ([0, 0], [0, 3, 0x7B, 0x7D, 0x5B, 0x31, 0x5D])"
proof -
  have a: "written (snd (WriteMessage_part_000 fresh_conn [0x7B, 0x7D])) = [[0, 0, 0, 2], [0x7B, 0x7D]]"
    by (simp add: WriteMessage_part_000_def conn_Write_def fresh_conn_def PutUint32_def)
  have b: "written (snd (WriteMessage_part_000 fresh_conn [0x5B, 0x31, 0x5D]))
      = [[0, 0, 0, 3], [0x5B, 0x31, 0x5D]]"
    by (simp add: WriteMessage_part_000_def conn_Write_def fresh_conn_def PutUint32_def)
  have c: "written (snd (WriteMessage fresh_conn [0x7B, 0x7D])) = [[0, 0, 0, 2, 0x7B, 0x7D]]"
    by (simp add: WriteMessage_def conn_Write_def fresh_conn_def frame_def PutUint32_def)
  have d: "[[0, 0, 0, 2], [0, 0, 0, 3], [0x7B, 0x7D], [0x5B, 0x31, 0x5D :: byte]]
      \<in> shuffles [[0, 0, 0, 2], [0x7B, 0x7D]] [[0, 0, 0, 3], [0x5B, 0x31, 0x5D]]"
    by (simp add: Cons_in_shuffles_iff)
  have e: "ReadMessage (concat [[0, 0, 0, 2], [0, 0, 0, 3], [0x7B, 0x7D], [0x5B, 0x31, 0x5D]])
       = Inr ([0, 0], [0, 3, 0x7B, 0x7D, 0x5B, 0x31, 0x5D])"
    by (simp add: ReadMessage_def ReadFull_def maxMessageSize_def)
  show ?thesis
    unfolding a b using c d e by simp
qed

section \<open>The skill-prefix stripping of writeStdin\<close>

lemma length_skillMarker: "length skillMarker = 12"
  by (simp add: skillMarker_def)

lemma colon_not_prefix_char: "\<not> isPrefixChar CHR '':''"
  by (simp add: isPrefixChar_def)

lemma match_here_word:
  assumes "skill_re_word w"
  shows "match_here (w @ post) = Some (length w)"
proof -
  from assms obtain run where run: "run \<noteq> []" "\<forall>c \<in> set run. isPrefixChar c"
    and w: "w = skillMarker @ run @ '':''"
    by (auto simp add: skill_re_word_def)
  have tw: "takeWhile isPrefixChar (run @ CHR '':'' # post) = run"
    using run(2) colon_not_prefix_char by (simp add: takeWhile_tail)
  show ?thesis
    using run(1) by (simp add: match_here_def w tw Let_def)
qed

lemma match_here_SomeD:
  assumes "match_here s = Some n"
  shows "0 < n \<and> n \<le> length s \<and> skill_re_word (take n s)"
proof -
  let ?rest = "drop (length skillMarker) s"
  let ?run = "takeWhile isPrefixChar ?rest"
  from assms have p: "prefix skillMarker s" and r: "?run \<noteq> []"
    and c: "prefix '':'' (drop (length ?run) ?rest)"
    and n: "n = length skillMarker + length ?run + 1"
    by (auto simp add: match_here_def Let_def split: if_splits)
  from p have s: "s = skillMarker @ ?rest"
    by (metis append_eq_conv_conj prefix_def)
  from c obtain post where d: "drop (length ?run) ?rest = '':'' @ post"
    by (auto simp add: prefix_def)
  have "?rest = ?run @ drop (length ?run) ?rest"
    by (metis append_take_drop_id takeWhile_eq_take)
  then have rest: "?rest = ?run @ '':'' @ post"
    using d by simp
  have s': "s = (skillMarker @ ?run @ '':'') @ post"
    using s rest by (metis append.assoc)
  have "take n s = skillMarker @ ?run @ '':''"
    using n by (subst s') simp
  moreover have "\<forall>c \<in> set ?run. isPrefixChar c"
    by (meson set_takeWhileD)
  ultimately have "skill_re_word (take n s)"
    using r unfolding skill_re_word_def by blast
  moreover have "n \<le> length s"
    using n by (subst s') simp
  ultimately show ?thesis using n by simp
qed

lemma match_here_iff:
  "match_here s = Some n \<longleftrightarrow> n \<le> length s \<and> skill_re_word (take n s)"
proof
  assume "match_here s = Some n"
  then show "n \<le> length s \<and> skill_re_word (take n s)"
    using match_here_SomeD by blast
next
  assume a: "n \<le> length s \<and> skill_re_word (take n s)"
  then have "match_here (take n s @ drop n s) = Some (length (take n s))"
    using match_here_word by blast
  then show "match_here s = Some n"
    using a by simp
qed









section \<open>The environment of a spawned command\<close>

lemma stripLoop_append:
  "stripLoop (length xs) (xs @ ys) = filter (\<lambda>e. \<not> list_ex (HasPrefix e) stripPrefixes) xs @ ys"
proof (induction xs arbitrary: ys rule: rev_induct)
  case Nil
  then show ?case by simp
next
  case (snoc x xs)
  have "stripLoop (length (xs @ [x])) ((xs @ [x]) @ ys)
        = stripLoop (length xs) (if list_ex (HasPrefix x) stripPrefixes then xs @ ys else xs @ x # ys)"
    by (simp add: nth_append)
  then show ?case
    using snoc.IH [of ys] snoc.IH [of "x # ys"] by simp
qed

lemma stripLoop_filter:
  "stripLoop (length env) env = filter (\<lambda>e. \<not> list_ex (HasPrefix e) stripPrefixes) env"
  using stripLoop_append [of env "[]"] by simp

text \<open>Two names without an equals sign that both head the same entry are equal.\<close>

lemma name_of_entry_unique:
  assumes "CHR ''='' \<notin> set a" "CHR ''='' \<notin> set b"
    and "prefix (a @ ''='') e" "prefix (b @ ''='') e"
  shows "a = b"
proof -
  from assms(3) obtain x where ex: "e = a @ ''='' @ x"
    by (auto simp add: prefix_def)
  from assms(4) obtain y where ey: "e = b @ ''='' @ y"
    by (auto simp add: prefix_def)
  note e = ex ey
  have "takeWhile (\<lambda>c. c \<noteq> CHR ''='') (a @ CHR ''='' # x) = a"
    using assms(1) by (auto simp add: takeWhile_tail)
  moreover have "takeWhile (\<lambda>c. c \<noteq> CHR ''='') (b @ CHR ''='' # y) = b"
    using assms(2) by (auto simp add: takeWhile_tail)
  ultimately show ?thesis
    using e by simp
qed

lemma stripped_iff:
  assumes "CHR ''='' \<notin> set name" "prefix (name @ ''='') e"
  shows "list_ex (HasPrefix e) stripPrefixes \<longleftrightarrow> name = ''CLAUDECODE'' \<or> name = ''CLAUDE_CODE_ENTRYPOINT''"
proof
  assume "list_ex (HasPrefix e) stripPrefixes"
  then consider "prefix (''CLAUDECODE'' @ ''='') e" | "prefix (''CLAUDE_CODE_ENTRYPOINT'' @ ''='') e"
    by (auto simp add: stripPrefixes_def HasPrefix_def)
  then show "name = ''CLAUDECODE'' \<or> name = ''CLAUDE_CODE_ENTRYPOINT''"
  proof cases
    case 1
    have "name = ''CLAUDECODE''"
      by (rule name_of_entry_unique [OF assms(1) _ assms(2) 1]) simp
    then show ?thesis by simp
  next
    case 2
    have "name = ''CLAUDE_CODE_ENTRYPOINT''"
      by (rule name_of_entry_unique [OF assms(1) _ assms(2) 2]) simp
    then show ?thesis by simp
  qed
next
  assume "name = ''CLAUDECODE'' \<or> name = ''CLAUDE_CODE_ENTRYPOINT''"
  then show "list_ex (HasPrefix e) stripPrefixes"
    using assms(2) by (auto simp add: stripPrefixes_def HasPrefix_def)
qed

lemma getenv_stripped:
  assumes "CHR ''='' \<notin> set name"
  shows "getenv (filter (\<lambda>e. \<not> list_ex (HasPrefix e) stripPrefixes) E) name
         = (if name = ''CLAUDECODE'' \<or> name = ''CLAUDE_CODE_ENTRYPOINT'' then None
            else getenv E name)"
proof -
  have "filter (\<lambda>e. prefix (name @ ''='') e) (filter (\<lambda>e. \<not> list_ex (HasPrefix e) stripPrefixes) E)
        = (if name = ''CLAUDECODE'' \<or> name = ''CLAUDE_CODE_ENTRYPOINT'' then []
           else filter (\<lambda>e. prefix (name @ ''='') e) E)"
    using stripped_iff [OF assms]
    by (auto simp add: filter_empty_conv intro!: filter_cong)
  then show ?thesis
    by (simp add: getenv_def)
qed

lemma entry_prefix_iff:
  assumes "CHR ''='' \<notin> set name" "CHR ''='' \<notin> set k"
  shows "prefix (name @ ''='') (k @ ''='' @ v) \<longleftrightarrow> k = name"
proof
  assume "prefix (name @ ''='') (k @ ''='' @ v)"
  then show "k = name"
    using name_of_entry_unique [OF assms(2,1), of "k @ ''='' @ v"] by simp
next
  assume "k = name"
  then show "prefix (name @ ''='') (k @ ''='' @ v)" by simp
qed

lemma filter_entries:
  assumes "CHR ''='' \<notin> set name" "\<forall>k \<in> fst ` set env. CHR ''='' \<notin> set k" "distinct (map fst env)"
  shows "filter (\<lambda>e. prefix (name @ ''='') e) (map (\<lambda>(k, v). k @ ''='' @ v) env)
         = (case map_of env name of None \<Rightarrow> [] | Some v \<Rightarrow> [name @ ''='' @ v])"
  using assms(2,3)
proof (induction env)
  case Nil
  then show ?case by simp
next
  case (Cons kv env)
  obtain k v where kv: "kv = (k, v)" by (cases kv)
  have k: "CHR ''='' \<notin> set k" using Cons.prems(1) kv by simp
  have IH: "filter (\<lambda>e. prefix (name @ ''='') e) (map (\<lambda>(k, v). k @ ''='' @ v) env)
         = (case map_of env name of None \<Rightarrow> [] | Some v \<Rightarrow> [name @ ''='' @ v])"
    using Cons by simp
  show ?case
  proof (cases "k = name")
    case True
    then have "map_of env name = None"
      using Cons.prems(2) kv by (simp add: map_of_eq_None_iff)
    then show ?thesis
      using True IH kv entry_prefix_iff [OF assms(1) k, of v] by simp
  next
    case False
    then show ?thesis
      using IH kv entry_prefix_iff [OF assms(1) k, of v] by auto
  qed
qed

lemma getenv_overlay:
  assumes "CHR ''='' \<notin> set name" "\<forall>k \<in> fst ` set env. CHR ''='' \<notin> set k" "distinct (map fst env)"
  shows "getenv (base @ map (\<lambda>(k, v). k @ ''='' @ v) env) name
         = (case map_of env name of Some v \<Rightarrow> Some v | None \<Rightarrow> getenv base name)"
  using filter_entries [OF assms]
  by (auto simp add: getenv_def Let_def split: option.splits)

text \<open>The key \<^verbatim>\<open>dedupEnv\<close> sees in an entry, for a name that is not empty.\<close>

lemma envKey_iff:
  assumes "name \<noteq> []" "CHR ''='' \<notin> set name"
  shows "envKey kv = Some name \<longleftrightarrow> prefix (name @ ''='') kv"
proof
  assume "prefix (name @ ''='') kv"
  then obtain x where kv: "kv = name @ CHR ''='' # x"
    by (auto simp add: prefix_def)
  have tw: "takeWhile (\<lambda>c. c \<noteq> CHR ''='') kv = name"
    using assms(2) kv by (auto simp add: takeWhile_tail)
  have mem: "CHR ''='' \<in> set kv" and tk: "take (length name) kv = name"
    using kv by simp_all
  show "envKey kv = Some name"
    unfolding envKey_def Let_def tw using mem tk assms(1) by simp
next
  assume k: "envKey kv = Some name"
  then have mem: "CHR ''='' \<in> set kv"
    by (auto simp add: envKey_def split: if_splits)
  define tw where "tw = takeWhile (\<lambda>c. c \<noteq> CHR ''='') kv"
  have dw: "dropWhile (\<lambda>c. c \<noteq> CHR ''='') kv \<noteq> []"
    using mem by (auto simp add: dropWhile_eq_Nil_conv)
  have hd: "hd (dropWhile (\<lambda>c. c \<noteq> CHR ''='') kv) = CHR ''=''"
    using hd_dropWhile [OF dw] by simp
  have split: "kv = tw @ dropWhile (\<lambda>c. c \<noteq> CHR ''='') kv"
    by (simp add: tw_def)
  show "prefix (name @ ''='') kv"
  proof (cases "tw = []")
    case True
    then have "kv = dropWhile (\<lambda>c. c \<noteq> CHR ''='') kv"
      using split by simp
    then obtain rest where kv: "kv = CHR ''='' # rest"
      using dw hd by (cases kv) auto
    have "envKey kv = Some [] \<or> (\<exists>n. envKey kv = Some (CHR ''='' # n))"
      by (simp add: kv envKey_def)
    then show ?thesis
      using k assms by auto
  next
    case False
    then have "envKey kv = Some (take (length tw) kv)"
      using mem by (simp add: envKey_def tw_def Let_def)
    then have n: "name = tw"
      using k split by (metis append_eq_conv_conj option.inject)
    obtain rest where "dropWhile (\<lambda>c. c \<noteq> CHR ''='') kv = CHR ''='' # rest"
      using dw hd by (cases "dropWhile (\<lambda>c. c \<noteq> CHR ''='') kv") auto
    then have "kv = name @ CHR ''='' # rest"
      using split n by simp
    then show ?thesis
      by (simp add: prefix_def)
  qed
qed

lemma dedupLoop_filter:
  assumes "name \<noteq> []" "CHR ''='' \<notin> set name"
  shows "filter (\<lambda>e. prefix (name @ ''='') e) (dedupLoop r saw)
         = (if name \<in> set saw then []
            else take 1 (filter (\<lambda>e. CHR 0x00 \<notin> set e \<and> prefix (name @ ''='') e) r))"
proof (induction r arbitrary: saw)
  case Nil
  then show ?case by simp
next
  case (Cons kv r)
  note key = envKey_iff [OF assms, of kv]
  show ?case
  proof (cases "CHR 0x00 \<in> set kv")
    case True
    then show ?thesis using Cons.IH [of saw] by simp
  next
    case nonul: False
    show ?thesis
    proof (cases "envKey kv")
      case None
      then have "\<not> prefix (name @ ''='') kv"
        using key by simp
      then show ?thesis
        using nonul None Cons.IH [of saw] by simp
    next
      case (Some k)
      show ?thesis
      proof (cases "k = name")
        case True
        then have "prefix (name @ ''='') kv"
          using key Some by simp
        then show ?thesis
          using nonul Some True Cons.IH [of saw] Cons.IH [of "name # saw"] by simp
      next
        case False
        then have "\<not> prefix (name @ ''='') kv"
          using key Some by simp
        then show ?thesis
          using nonul Some False Cons.IH [of saw] Cons.IH [of "k # saw"] by auto
      qed
    qed
  qed
qed

text \<open>
  Cleaning an environment changes the value of no variable, apart from dropping the
  entries that hold a NUL byte.
\<close>

lemma getenv_dedupEnv:
  assumes "name \<noteq> []" "CHR ''='' \<notin> set name"
  shows "getenv (dedupEnv env) name = getenv (filter (\<lambda>e. CHR 0x00 \<notin> set e) env) name"
proof -
  define xs where "xs = filter (\<lambda>e. CHR 0x00 \<notin> set e \<and> prefix (name @ ''='') e) env"
  have 1: "filter (\<lambda>e. prefix (name @ ''='') e) (dedupEnv env) = rev (take 1 (rev xs))"
    using dedupLoop_filter [OF assms, of "rev env" "[]"]
    by (simp add: dedupEnv_def xs_def rev_filter [symmetric])
  have 2: "filter (\<lambda>e. prefix (name @ ''='') e) (filter (\<lambda>e. CHR 0x00 \<notin> set e) env) = xs"
    by (simp add: xs_def)
  have 3: "rev (take 1 (rev xs)) = (if xs = [] then [] else [last xs])"
    by (cases xs rule: rev_cases) simp_all
  show ?thesis
    unfolding getenv_def 1 2 3 by (simp add: Let_def)
qed

lemma getenv_PWD:
  assumes "CHR ''='' \<notin> set name"
  shows "getenv (base @ [''PWD='' @ p]) name
         = (if name = ''PWD'' then Some p else getenv base name)"
  using getenv_overlay [OF assms, of "[(''PWD'', p)]" base] by simp

lemma getenv_Environ_list:
  assumes "name \<noteq> []" "CHR ''='' \<notin> set name"
    and "\<forall>e \<in> set (os_Environ h). CHR 0x00 \<notin> set e"
    and "Env c = None"
  shows "getenv (Environ h c) name
       = getenv (os_Environ h
                 @ filter (\<lambda>e. CHR 0x00 \<notin> set e)
                     (if Dir c \<noteq> [] then
                        (case Abs h (Dir c) of Inr pwd \<Rightarrow> [''PWD='' @ pwd] | Inl err \<Rightarrow> [])
                      else [])) name"
proof -
  have os: "filter (\<lambda>e. CHR 0x00 \<notin> set e) (os_Environ h) = os_Environ h"
    using assms(3) by (simp add: filter_id_conv)
  have "Environ h c
        = dedupEnv (os_Environ h
            @ (if Dir c \<noteq> [] then
                 (case Abs h (Dir c) of Inr pwd \<Rightarrow> [''PWD='' @ pwd] | Inl err \<Rightarrow> [])
               else []))"
    using assms(4) by (simp add: Environ_def)
  then show ?thesis
    by (simp only: getenv_dedupEnv [OF assms(1,2)] filter_append os)
qed

lemma getenv_Environ:
  assumes "name \<noteq> []" "CHR ''='' \<notin> set name"
    and "\<forall>e \<in> set (os_Environ h). CHR 0x00 \<notin> set e"
    and "Env c = None"
  shows "getenv (Environ h c) name
       = (if name = ''PWD'' \<and> Dir c \<noteq> [] then
            (case Abs h (Dir c) of
               Inr pwd \<Rightarrow> if CHR 0x00 \<in> set pwd then getenv (os_Environ h) name else Some pwd
             | Inl err \<Rightarrow> getenv (os_Environ h) name)
          else getenv (os_Environ h) name)"
proof (cases "Dir c = []")
  case True
  then show ?thesis
    unfolding getenv_Environ_list [OF assms] by simp
next
  case False
  show ?thesis
  proof (cases "Abs h (Dir c)")
    case (Inl e)
    then show ?thesis
      unfolding getenv_Environ_list [OF assms] using False by simp
  next
    case (Inr pwd)
    then show ?thesis
      unfolding getenv_Environ_list [OF assms]
      using False getenv_PWD [OF assms(2), of "os_Environ h" pwd] by auto
  qed
qed

lemma spawn_success:
  assumes "spawn h pt id0 cmd0 args env cwd vmPrefix0 realPrefix0 mountRemap0
           = (Inr pid_id, evs, pt', gs)"
  shows "pid_id = (if id0 = [] then ''proc-'' @ fmt_d (incr (nextID pt)) else id0)
    \<and> evs = []
    \<and> nextID pt' = (if id0 = [] then incr (nextID pt) else nextID pt)
    \<and> processes pt' = (processes pt)(pid_id \<mapsto> length (heap pt))
    \<and> gs = [go_streamOutput pid_id stdout_pipe ''stdout'',
             go_streamOutput pid_id stderr_pipe ''stderr'', go_exit pid_id (length (heap pt))]
    \<and> StdinPipe h = None \<and> StdoutPipe h = None \<and> StderrPipe h = None
    \<and> (\<exists>lp pid. heap pt' = heap pt @ [lp] \<and> lp_id lp = pid_id \<and> \<not> done_closed lp
          \<and> Start h \<lparr>Path = resolveCmd h cmd0, Args = resolveCmd h cmd0 # args, Dir = cwd,
                      Env = Some (spawnEnv h (spawnCmd h cmd0 args cwd) env), Setpgid = True,
                      Process = None\<rparr> = Inr pid
          \<and> cmd lp = \<lparr>Path = resolveCmd h cmd0, Args = resolveCmd h cmd0 # args, Dir = cwd,
                       Env = Some (spawnEnv h (spawnCmd h cmd0 args cwd) env), Setpgid = True,
                       Process = Some pid\<rparr>
          \<and> mountRemap lp = mountRemap0
          \<and> vmPrefix lp = (if vmPrefix0 \<noteq> [] \<and> realPrefix0 \<noteq> [] then vmPrefix0 else [])
          \<and> realPrefix lp = (if vmPrefix0 \<noteq> [] \<and> realPrefix0 \<noteq> [] then realPrefix0 else [])
          \<and> reverseMap lp = (vmPrefix0 \<noteq> [] \<and> realPrefix0 \<noteq> [] \<and> Stat h vmPrefix0))"
  using assms
  by (auto simp add: spawn_def spawnCmd_def Command_def Let_def
      split: option.splits sum.splits if_splits)

lemma spawn_success_lookup:
  assumes "spawn h pt id0 cmd0 args env cwd vmPrefix0 realPrefix0 mountRemap0
           = (Inr pid_id, evs, pt', gs)"
  shows "\<exists>lp pid. lookup pt' pid_id = Some lp \<and> lp_id lp = pid_id \<and> \<not> done_closed lp
          \<and> Start h \<lparr>Path = resolveCmd h cmd0, Args = resolveCmd h cmd0 # args, Dir = cwd,
                      Env = Some (spawnEnv h (spawnCmd h cmd0 args cwd) env), Setpgid = True,
                      Process = None\<rparr> = Inr pid
          \<and> cmd lp = \<lparr>Path = resolveCmd h cmd0, Args = resolveCmd h cmd0 # args, Dir = cwd,
                       Env = Some (spawnEnv h (spawnCmd h cmd0 args cwd) env), Setpgid = True,
                       Process = Some pid\<rparr>
          \<and> vmPrefix lp = (if vmPrefix0 \<noteq> [] \<and> realPrefix0 \<noteq> [] then vmPrefix0 else [])
          \<and> realPrefix lp = (if vmPrefix0 \<noteq> [] \<and> realPrefix0 \<noteq> [] then realPrefix0 else [])
          \<and> reverseMap lp = (vmPrefix0 \<noteq> [] \<and> realPrefix0 \<noteq> [] \<and> Stat h vmPrefix0)"
proof -
  from spawn_success [OF assms] obtain lp pid where
    p: "processes pt' = (processes pt)(pid_id \<mapsto> length (heap pt))"
    and h: "heap pt' = heap pt @ [lp]"
    and l: "lp_id lp = pid_id" "\<not> done_closed lp"
      "Start h \<lparr>Path = resolveCmd h cmd0, Args = resolveCmd h cmd0 # args, Dir = cwd,
                      Env = Some (spawnEnv h (spawnCmd h cmd0 args cwd) env), Setpgid = True,
                      Process = None\<rparr> = Inr pid"
      "cmd lp = \<lparr>Path = resolveCmd h cmd0, Args = resolveCmd h cmd0 # args, Dir = cwd,
                       Env = Some (spawnEnv h (spawnCmd h cmd0 args cwd) env), Setpgid = True,
                       Process = Some pid\<rparr>"
      "vmPrefix lp = (if vmPrefix0 \<noteq> [] \<and> realPrefix0 \<noteq> [] then vmPrefix0 else [])"
      "realPrefix lp = (if vmPrefix0 \<noteq> [] \<and> realPrefix0 \<noteq> [] then realPrefix0 else [])"
      "reverseMap lp = (vmPrefix0 \<noteq> [] \<and> realPrefix0 \<noteq> [] \<and> Stat h vmPrefix0)"
    by blast
  have "lookup pt' pid_id = Some lp"
    by (simp add: lookup_def p h)
  then show ?thesis using l by blast
qed

lemma spawnCmd_fields: "Env (spawnCmd h cmd0 args cwd) = None" "Dir (spawnCmd h cmd0 args cwd) = cwd"
  by (simp_all add: spawnCmd_def Command_def Let_def)

lemma getenv_spawnEnv:
  assumes "distinct (map fst env)"
    and "\<forall>k \<in> fst ` set env. CHR ''='' \<notin> set k"
    and "name \<noteq> []" "CHR ''='' \<notin> set name"
    and "\<forall>e \<in> set (os_Environ h). CHR 0x00 \<notin> set e"
  shows "getenv (spawnEnv h (spawnCmd h cmd0 args cwd) env) name =
     (if name = ''CLAUDECODE'' \<or> name = ''CLAUDE_CODE_ENTRYPOINT'' then None
      else case map_of env name of
             Some v \<Rightarrow> Some v
           | None \<Rightarrow>
               if name = ''PWD'' \<and> env \<noteq> [] \<and> cwd \<noteq> [] then
                 (case Abs h cwd of
                    Inr pwd \<Rightarrow> if CHR 0x00 \<in> set pwd then getenv (os_Environ h) name else Some pwd
                  | Inl err \<Rightarrow> getenv (os_Environ h) name)
               else getenv (os_Environ h) name)"
proof (cases "env = []")
  case True
  then show ?thesis
    using getenv_stripped [OF assms(4), of "os_Environ h"]
    by (simp add: spawnEnv_def stripLoop_filter spawnCmd_fields)
next
  case False
  let ?c = "spawnCmd h cmd0 args cwd"
  have "getenv (spawnEnv h ?c env) name
        = (if name = ''CLAUDECODE'' \<or> name = ''CLAUDE_CODE_ENTRYPOINT'' then None
           else getenv (Environ h ?c @ map (\<lambda>(k, v). k @ ''='' @ v) env) name)"
    using False getenv_stripped [OF assms(4), of "Environ h ?c @ map (\<lambda>(k, v). k @ ''='' @ v) env"]
    by (simp add: spawnEnv_def stripLoop_filter Let_def)
  also have "getenv (Environ h ?c @ map (\<lambda>(k, v). k @ ''='' @ v) env) name
        = (case map_of env name of Some v \<Rightarrow> Some v | None \<Rightarrow> getenv (Environ h ?c) name)"
    by (rule getenv_overlay [OF assms(4,2,1)])
  also have "getenv (Environ h ?c) name
        = (if name = ''PWD'' \<and> cwd \<noteq> [] then
            (case Abs h cwd of
               Inr pwd \<Rightarrow> if CHR 0x00 \<in> set pwd then getenv (os_Environ h) name else Some pwd
             | Inl err \<Rightarrow> getenv (os_Environ h) name)
          else getenv (os_Environ h) name)"
    using getenv_Environ [OF assms(3,4,5), of ?c] by (simp add: spawnCmd_fields)
  finally show ?thesis
    using False by (auto split: option.splits)
qed

text \<open>
  Claim C9, as the code has it. A successful spawn has started, with \<^verbatim>\<open>c.Start()\<close>, the
  command that the new registry record holds: the resolved executable with the caller's
  arguments and working directory, in a process group of its own, and with an
  environment \<open>E\<close> in which a variable \<open>name\<close> has no value when it is \<^verbatim>\<open>CLAUDECODE\<close> or
  \<^verbatim>\<open>CLAUDE_CODE_ENTRYPOINT\<close>, whatever the supervisor's environment and the caller's map
  say; otherwise the value the caller's map gives it, when the map defines it; otherwise,
  for \<^verbatim>\<open>PWD\<close> when the caller's map is not empty and a working directory is given, the
  absolute path of that directory, which \<^verbatim>\<open>c.Environ()\<close> adds (unless the path cannot be
  determined or holds a NUL byte); and otherwise the value it has in the supervisor's
  own environment. Variable names are not empty and contain no equals sign, the keys
  of a map are distinct, and no entry of the supervisor's environment holds a NUL byte.
\<close>

theorem spawn_child_environment:
  assumes "spawn h pt id0 cmd0 args env cwd vmPrefix0 realPrefix0 mountRemap0
           = (Inr pid_id, evs, pt', gs)"
    and "distinct (map fst env)"
    and "\<forall>k \<in> fst ` set env. CHR ''='' \<notin> set k"
    and "name \<noteq> []" "CHR ''='' \<notin> set name"
    and "\<forall>e \<in> set (os_Environ h). CHR 0x00 \<notin> set e"
  shows "\<exists>E pid lp.
           Start h \<lparr>Path = resolveCmd h cmd0, Args = resolveCmd h cmd0 # args, Dir = cwd,
                    Env = Some E, Setpgid = True, Process = None\<rparr> = Inr pid
         \<and> lookup pt' pid_id = Some lp
         \<and> cmd lp = \<lparr>Path = resolveCmd h cmd0, Args = resolveCmd h cmd0 # args, Dir = cwd,
                      Env = Some E, Setpgid = True, Process = Some pid\<rparr>
         \<and> getenv E name =
             (if name = ''CLAUDECODE'' \<or> name = ''CLAUDE_CODE_ENTRYPOINT'' then None
              else case map_of env name of
                     Some v \<Rightarrow> Some v
                   | None \<Rightarrow>
                       if name = ''PWD'' \<and> env \<noteq> [] \<and> cwd \<noteq> [] then
                         (case Abs h cwd of
                            Inr pwd \<Rightarrow> if CHR 0x00 \<in> set pwd then getenv (os_Environ h) name
                                       else Some pwd
                          | Inl err \<Rightarrow> getenv (os_Environ h) name)
                       else getenv (os_Environ h) name)"
proof -
  from spawn_success_lookup [OF assms(1)] obtain lp pid where
    l: "lookup pt' pid_id = Some lp"
      "Start h \<lparr>Path = resolveCmd h cmd0, Args = resolveCmd h cmd0 # args, Dir = cwd,
                      Env = Some (spawnEnv h (spawnCmd h cmd0 args cwd) env), Setpgid = True,
                      Process = None\<rparr> = Inr pid"
      "cmd lp = \<lparr>Path = resolveCmd h cmd0, Args = resolveCmd h cmd0 # args, Dir = cwd,
                       Env = Some (spawnEnv h (spawnCmd h cmd0 args cwd) env), Setpgid = True,
                       Process = Some pid\<rparr>"
    by blast
  show ?thesis
    apply (rule exI [of _ "spawnEnv h (spawnCmd h cmd0 args cwd) env"])
    apply (rule exI [of _ pid])
    apply (rule exI [of _ lp])
    apply (intro conjI)
       apply (rule l(2))
      apply (rule l(1))
     apply (rule l(3))
    apply (rule getenv_spawnEnv [OF assms(2-6)])
    done
qed

text \<open>
  Claim C9: the theorem for a spawn with the working directory \<open>/work\<close> and a caller's
  map that defines \<open>FOO\<close>, \<open>CLAUDE_CODE_ENTRYPOINT\<close> and \<open>HOME\<close>, at the names \<open>HOME\<close> (the
  caller wins), \<open>CLAUDE_CODE_ENTRYPOINT\<close> (removed although the caller supplies it), \<open>PATH\<close>
  (inherited) and \<open>PWD\<close> (the working directory), and for a spawn with an empty map and no
  working directory at the name \<open>CLAUDECODE\<close> (removed although the supervisor has it).
\<close>

lemma demo_spawn:
  "spawn demo_host newProcessTracker [] ''/bin/cat'' [] env cwd [] [] []
     = (Inr ''proc-1'', [],
        fst (snd (snd (spawn demo_host newProcessTracker [] ''/bin/cat'' [] env cwd [] [] []))),
        snd (snd (snd (spawn demo_host newProcessTracker [] ''/bin/cat'' [] env cwd [] [] []))))"
  by (simp add: spawn_def demo_host_def newProcessTracker_def incr_def fmt_d_def
      digits.simps digit_char_def Let_def)

lemma demo_environ_nonul: "\<forall>e \<in> set (os_Environ demo_host). CHR 0x00 \<notin> set e"
  by (simp add: demo_host_def demo_environ_def)

theorem spawn_child_environment_witness:
  "(\<exists>E pid lp.
       Start demo_host \<lparr>Path = ''/bin/cat'', Args = [''/bin/cat''], Dir = ''/work'', Env = Some E,
                         Setpgid = True, Process = None\<rparr> = Inr pid
     \<and> lookup (fst (snd (snd (spawn demo_host newProcessTracker [] ''/bin/cat'' []
                [(''FOO'', ''bar''), (''CLAUDE_CODE_ENTRYPOINT'', ''cli''), (''HOME'', ''/tmp'')]
                ''/work'' [] [] [])))) ''proc-1'' = Some lp
     \<and> cmd lp = \<lparr>Path = ''/bin/cat'', Args = [''/bin/cat''], Dir = ''/work'', Env = Some E,
                  Setpgid = True, Process = Some pid\<rparr>
     \<and> getenv E ''HOME'' = Some ''/tmp'')
   \<and> (\<exists>E pid lp.
       Start demo_host \<lparr>Path = ''/bin/cat'', Args = [''/bin/cat''], Dir = ''/work'', Env = Some E,
                         Setpgid = True, Process = None\<rparr> = Inr pid
     \<and> lookup (fst (snd (snd (spawn demo_host newProcessTracker [] ''/bin/cat'' []
                [(''FOO'', ''bar''), (''CLAUDE_CODE_ENTRYPOINT'', ''cli''), (''HOME'', ''/tmp'')]
                ''/work'' [] [] [])))) ''proc-1'' = Some lp
     \<and> cmd lp = \<lparr>Path = ''/bin/cat'', Args = [''/bin/cat''], Dir = ''/work'', Env = Some E,
                  Setpgid = True, Process = Some pid\<rparr>
     \<and> getenv E ''CLAUDE_CODE_ENTRYPOINT'' = None)
   \<and> (\<exists>E pid lp.
       Start demo_host \<lparr>Path = ''/bin/cat'', Args = [''/bin/cat''], Dir = ''/work'', Env = Some E,
                         Setpgid = True, Process = None\<rparr> = Inr pid
     \<and> lookup (fst (snd (snd (spawn demo_host newProcessTracker [] ''/bin/cat'' []
                [(''FOO'', ''bar''), (''CLAUDE_CODE_ENTRYPOINT'', ''cli''), (''HOME'', ''/tmp'')]
                ''/work'' [] [] [])))) ''proc-1'' = Some lp
     \<and> cmd lp = \<lparr>Path = ''/bin/cat'', Args = [''/bin/cat''], Dir = ''/work'', Env = Some E,
                  Setpgid = True, Process = Some pid\<rparr>
     \<and> getenv E ''PATH'' = Some ''/usr/bin'')
   \<and> (\<exists>E pid lp.
       Start demo_host \<lparr>Path = ''/bin/cat'', Args = [''/bin/cat''], Dir = ''/work'', Env = Some E,
                         Setpgid = True, Process = None\<rparr> = Inr pid
     \<and> lookup (fst (snd (snd (spawn demo_host newProcessTracker [] ''/bin/cat'' []
                [(''FOO'', ''bar''), (''CLAUDE_CODE_ENTRYPOINT'', ''cli''), (''HOME'', ''/tmp'')]
                ''/work'' [] [] [])))) ''proc-1'' = Some lp
     \<and> cmd lp = \<lparr>Path = ''/bin/cat'', Args = [''/bin/cat''], Dir = ''/work'', Env = Some E,
                  Setpgid = True, Process = Some pid\<rparr>
     \<and> getenv E ''PWD'' = Some ''/work'')
   \<and> (\<exists>E pid lp.
       Start demo_host \<lparr>Path = ''/bin/cat'', Args = [''/bin/cat''], Dir = [], Env = Some E,
                         Setpgid = True, Process = None\<rparr> = Inr pid
     \<and> lookup (fst (snd (snd (spawn demo_host newProcessTracker [] ''/bin/cat'' [] []
                [] [] [] [])))) ''proc-1'' = Some lp
     \<and> cmd lp = \<lparr>Path = ''/bin/cat'', Args = [''/bin/cat''], Dir = [], Env = Some E,
                  Setpgid = True, Process = Some pid\<rparr>
     \<and> getenv E ''CLAUDECODE'' = None)
   \<and> getenv (os_Environ demo_host) ''CLAUDECODE'' = Some ''1''"
proof -
  define env where
    "env = [(''FOO'', ''bar''), (''CLAUDE_CODE_ENTRYPOINT'', ''cli''), (''HOME'', ''/tmp'')]"
  have d: "distinct (map fst env)" "\<forall>k \<in> fst ` set env. CHR ''='' \<notin> set k"
    by (simp_all add: env_def)
  have r: "resolveCmd demo_host ''/bin/cat'' = ''/bin/cat''"
    by (simp add: resolveCmd_def demo_host_def)
  have a: "Abs demo_host ''/work'' = Inr ''/work''"
    by (simp add: demo_host_def)
  have os: "getenv (os_Environ demo_host) ''PATH'' = Some ''/usr/bin''"
    "getenv (os_Environ demo_host) ''CLAUDECODE'' = Some ''1''"
    by (simp_all add: demo_host_def demo_environ_def getenv_def)
  note T = spawn_child_environment [OF demo_spawn [of env "''/work''"] d _ _ demo_environ_nonul]
  have 1: "\<exists>E pid lp.
       Start demo_host \<lparr>Path = ''/bin/cat'', Args = [''/bin/cat''], Dir = ''/work'', Env = Some E,
                         Setpgid = True, Process = None\<rparr> = Inr pid
     \<and> lookup (fst (snd (snd (spawn demo_host newProcessTracker [] ''/bin/cat'' [] env
                ''/work'' [] [] [])))) ''proc-1'' = Some lp
     \<and> cmd lp = \<lparr>Path = ''/bin/cat'', Args = [''/bin/cat''], Dir = ''/work'', Env = Some E,
                  Setpgid = True, Process = Some pid\<rparr>
     \<and> getenv E ''HOME'' = Some ''/tmp''"
    using T [of "''HOME''"] by (simp add: r env_def)
  have 2: "\<exists>E pid lp.
       Start demo_host \<lparr>Path = ''/bin/cat'', Args = [''/bin/cat''], Dir = ''/work'', Env = Some E,
                         Setpgid = True, Process = None\<rparr> = Inr pid
     \<and> lookup (fst (snd (snd (spawn demo_host newProcessTracker [] ''/bin/cat'' [] env
                ''/work'' [] [] [])))) ''proc-1'' = Some lp
     \<and> cmd lp = \<lparr>Path = ''/bin/cat'', Args = [''/bin/cat''], Dir = ''/work'', Env = Some E,
                  Setpgid = True, Process = Some pid\<rparr>
     \<and> getenv E ''CLAUDE_CODE_ENTRYPOINT'' = None"
    using T [of "''CLAUDE_CODE_ENTRYPOINT''"] by (simp add: r env_def)
  have 3: "\<exists>E pid lp.
       Start demo_host \<lparr>Path = ''/bin/cat'', Args = [''/bin/cat''], Dir = ''/work'', Env = Some E,
                         Setpgid = True, Process = None\<rparr> = Inr pid
     \<and> lookup (fst (snd (snd (spawn demo_host newProcessTracker [] ''/bin/cat'' [] env
                ''/work'' [] [] [])))) ''proc-1'' = Some lp
     \<and> cmd lp = \<lparr>Path = ''/bin/cat'', Args = [''/bin/cat''], Dir = ''/work'', Env = Some E,
                  Setpgid = True, Process = Some pid\<rparr>
     \<and> getenv E ''PATH'' = Some ''/usr/bin''"
    using T [of "''PATH''"] by (simp add: r env_def os)
  have 4: "\<exists>E pid lp.
       Start demo_host \<lparr>Path = ''/bin/cat'', Args = [''/bin/cat''], Dir = ''/work'', Env = Some E,
                         Setpgid = True, Process = None\<rparr> = Inr pid
     \<and> lookup (fst (snd (snd (spawn demo_host newProcessTracker [] ''/bin/cat'' [] env
                ''/work'' [] [] [])))) ''proc-1'' = Some lp
     \<and> cmd lp = \<lparr>Path = ''/bin/cat'', Args = [''/bin/cat''], Dir = ''/work'', Env = Some E,
                  Setpgid = True, Process = Some pid\<rparr>
     \<and> getenv E ''PWD'' = Some ''/work''"
    using T [of "''PWD''"] by (simp add: r env_def a)
  have 5: "\<exists>E pid lp.
       Start demo_host \<lparr>Path = ''/bin/cat'', Args = [''/bin/cat''], Dir = [], Env = Some E,
                         Setpgid = True, Process = None\<rparr> = Inr pid
     \<and> lookup (fst (snd (snd (spawn demo_host newProcessTracker [] ''/bin/cat'' [] []
                [] [] [] [])))) ''proc-1'' = Some lp
     \<and> cmd lp = \<lparr>Path = ''/bin/cat'', Args = [''/bin/cat''], Dir = [], Env = Some E,
                  Setpgid = True, Process = Some pid\<rparr>
     \<and> getenv E ''CLAUDECODE'' = None"
    using spawn_child_environment [OF demo_spawn [of "[]" "[]"] _ _ _ _ demo_environ_nonul,
        of "''CLAUDECODE''"]
    by (simp add: r)
  show ?thesis
    using 1 2 3 4 5 os(2) unfolding env_def by blast
qed

text \<open>
  Claim C9 fails as stated when a working directory is given together with a caller's
  map that is not empty: for the directory \<open>/work\<close> and the map that defines only \<open>FOO\<close>, the
  command is started with \<^verbatim>\<open>PWD=/work\<close> in its environment, while \<open>PWD\<close> is \<open>/\<close> in the
  supervisor's environment and the caller's map does not define it. With the same
  directory and an empty map the command is started with the supervisor's \<^verbatim>\<open>PWD=/\<close>.
\<close>

theorem spawn_environment_adds_PWD:
  "map (Env \<circ> cmd) (heap (fst (snd (snd
       (spawn demo_host newProcessTracker [] ''/bin/cat'' [] [(''FOO'', ''bar'')] ''/work'' [] [] [])))))
     = [Some [''PATH=/usr/bin'', ''HOME=/home/u'', ''PWD=/work'', ''FOO=bar'']]
   \<and> Start demo_host
         \<lparr>Path = ''/bin/cat'', Args = [''/bin/cat''], Dir = ''/work'',
          Env = Some [''PATH=/usr/bin'', ''HOME=/home/u'', ''PWD=/work'', ''FOO=bar''],
          Setpgid = True, Process = None\<rparr> = Inr 4242
   \<and> getenv [''PATH=/usr/bin'', ''HOME=/home/u'', ''PWD=/work'', ''FOO=bar''] ''PWD'' = Some ''/work''
   \<and> getenv (os_Environ demo_host) ''PWD'' = Some ''/''
   \<and> map_of [(''FOO'', ''bar'')] ''PWD'' = None
   \<and> map (Env \<circ> cmd) (heap (fst (snd (snd
       (spawn demo_host newProcessTracker [] ''/bin/cat'' [] [] ''/work'' [] [] [])))))
     = [Some [''PATH=/usr/bin'', ''HOME=/home/u'', ''PWD=/'']]"
proof -
  have e: "spawnEnv demo_host (spawnCmd demo_host ''/bin/cat'' [] ''/work'') [(''FOO'', ''bar'')]
           = [''PATH=/usr/bin'', ''HOME=/home/u'', ''PWD=/work'', ''FOO=bar'']"
    "spawnEnv demo_host (spawnCmd demo_host ''/bin/cat'' [] ''/work'') []
           = [''PATH=/usr/bin'', ''HOME=/home/u'', ''PWD=/'']"
    by (simp_all add: spawnEnv_def stripLoop_filter spawnCmd_def Command_def resolveCmd_def
        Environ_def dedupEnv_def envKey_def demo_host_def demo_environ_def HasPrefix_def
        stripPrefixes_def Let_def)
  have s: "map (Env \<circ> cmd) (heap (fst (snd (snd
       (spawn demo_host newProcessTracker [] ''/bin/cat'' [] env ''/work'' [] [] [])))))
     = [Some (spawnEnv demo_host (spawnCmd demo_host ''/bin/cat'' [] ''/work'') env)]" for env
    by (simp add: spawn_def demo_host_def newProcessTracker_def Let_def)
  have g: "getenv [''PATH=/usr/bin'', ''HOME=/home/u'', ''PWD=/work'', ''FOO=bar''] ''PWD'' = Some ''/work''"
    "getenv (os_Environ demo_host) ''PWD'' = Some ''/''"
    by (simp_all add: getenv_def demo_host_def demo_environ_def)
  have st: "Start demo_host
         \<lparr>Path = ''/bin/cat'', Args = [''/bin/cat''], Dir = ''/work'',
          Env = Some [''PATH=/usr/bin'', ''HOME=/home/u'', ''PWD=/work'', ''FOO=bar''],
          Setpgid = True, Process = None\<rparr> = Inr 4242"
    by (simp add: demo_host_def)
  show ?thesis
    using g st by (simp add: s e)
qed

section \<open>Process identity\<close>

lemma of_char_digit: "d < 10 \<Longrightarrow> (of_char (digit_char d) :: nat) = 48 + d"
proof -
  assume "d < 10"
  then consider "d = 0" | "d = 1" | "d = 2" | "d = 3" | "d = 4" | "d = 5" | "d = 6" | "d = 7"
    | "d = 8" | "d = 9" by (auto simp add: numeral_eq_Suc less_Suc_eq)
  then show ?thesis by cases (simp_all add: digit_char_def)
qed

lemma undigits_append: "undigits (s @ [c]) = 10 * undigits s + (of_char c - 48)"
  by (simp add: undigits_def)

lemma undigits_digits: "undigits (digits n) = n"
proof (induction n rule: digits.induct)
  case (1 n)
  show ?case
  proof (cases "n < 10")
    case True
    then show ?thesis
      by (simp add: digits.simps [of n] undigits_def of_char_digit)
  next
    case False
    then have "undigits (digits n) = 10 * undigits (digits (n div 10)) + (of_char (digit_char (n mod 10)) - 48)"
      by (simp add: digits.simps [of n] undigits_append)
    also have "\<dots> = 10 * (n div 10) + n mod 10"
      using "1.IH" False by (simp add: of_char_digit)
    finally show ?thesis by simp
  qed
qed

lemma digits_inj: "digits m = digits n \<Longrightarrow> m = n"
  by (metis undigits_digits)

lemma digit_char_not_minus: "d < 10 \<Longrightarrow> digit_char d \<noteq> CHR ''-''"
  using of_char_digit [of d] by (auto simp del: of_char_eq_iff)

lemma minus_notin_digits: "CHR ''-'' \<notin> set (digits n)"
proof (induction n rule: digits.induct)
  case (1 n)
  show ?case
  proof (cases "n < 10")
    case True
    then show ?thesis
      using digit_char_not_minus [of n] by (simp add: digits.simps [of n])
  next
    case False
    then show ?thesis
      using "1.IH" digit_char_not_minus [of "n mod 10"] by (simp add: digits.simps [of n])
  qed
qed

lemma fmt_d_inj: "fmt_d i = fmt_d j \<Longrightarrow> i = j"
proof -
  assume a: "fmt_d i = fmt_d j"
  have ne: "digits n \<noteq> CHR ''-'' # s" for n s
    using minus_notin_digits [of n] by (metis list.set_intros(1))
  show ?thesis
  proof (cases "i < 0"; cases "j < 0")
    assume "i < 0" "j < 0"
    then show ?thesis using a digits_inj [of "nat (- i)" "nat (- j)"] by (simp add: fmt_d_def)
  next
    assume "i < 0" "\<not> j < 0"
    then show ?thesis using a ne [of "nat j"] by (simp add: fmt_d_def) metis
  next
    assume "\<not> i < 0" "j < 0"
    then show ?thesis using a ne [of "nat i"] by (simp add: fmt_d_def)
  next
    assume "\<not> i < 0" "\<not> j < 0"
    then show ?thesis using a digits_inj [of "nat i" "nat j"] by (simp add: fmt_d_def)
  qed
qed

lemma spawn_nextID:
  "nextID (fst (snd (snd (spawn h pt id0 cmd0 args env cwd v r m))))
     = (if id0 = [] then incr (nextID pt) else nextID pt)"
  by (simp add: spawn_def Let_def split: option.splits sum.splits)

lemma spawn_result_id:
  "fst (spawn h pt id0 cmd0 args env cwd v r m) = Inr a \<Longrightarrow>
     a = (if id0 = [] then ''proc-'' @ fmt_d (incr (nextID pt)) else id0)"
  by (auto simp add: spawn_def Let_def split: option.splits sum.splits if_splits)

lemma waitExit_nextID: "nextID (snd (waitExit pt i a w)) = nextID pt"
  by (simp add: waitExit_def Let_def)

lemma incr_no_wrap: "n < 2 ^ 63 - 1 \<Longrightarrow> incr n = n + 1"
  by (simp add: incr_def)

text \<open>One step moves the counter by at most one, and by exactly one for an empty id.\<close>

lemma run_Cons:
  "run pt (op # ops) = (rs, pt') \<Longrightarrow>
     \<exists>r pt1 rs'. rs = r # rs' \<and> run pt1 ops = (rs', pt')
       \<and> (case op of
             OpSpawn c \<Rightarrow> r = Some (fst (doSpawn pt c)) \<and> pt1 = fst (snd (snd (doSpawn pt c)))
           | OpExit i a w \<Rightarrow> r = None \<and> pt1 = snd (waitExit pt i a w))"
  by (cases op) (auto split: prod.splits)

lemma step_nextID:
  assumes "run pt (op # ops) = (r # rs', pt')" "nextID pt < 2 ^ 63 - 1"
  obtains pt1 where "run pt1 ops = (rs', pt')"
    "nextID pt \<le> nextID pt1" "nextID pt1 \<le> nextID pt + 1"
    "\<And>c a. op = OpSpawn c \<Longrightarrow> call_id c = [] \<Longrightarrow> r = Some (Inr a) \<Longrightarrow>
        a = ''proc-'' @ fmt_d (nextID pt + 1) \<and> nextID pt1 = nextID pt + 1"
    "\<And>c a. op = OpSpawn c \<Longrightarrow> call_id c \<noteq> [] \<Longrightarrow> r = Some (Inr a) \<Longrightarrow> a = call_id c"
proof (cases op)
  case (OpSpawn c)
  let ?pt1 = "fst (snd (snd (doSpawn pt c)))"
  from run_Cons [OF assms(1)] OpSpawn
  have r: "r = Some (fst (doSpawn pt c))" and run1: "run ?pt1 ops = (rs', pt')"
    by auto
  have n: "nextID ?pt1 = (if call_id c = [] then nextID pt + 1 else nextID pt)"
    using assms(2) by (simp add: doSpawn_def spawn_nextID incr_no_wrap)
  have a: "a = (if call_id c = [] then ''proc-'' @ fmt_d (nextID pt + 1) else call_id c)"
    if "r = Some (Inr a)" for a
    using that r spawn_result_id [of "call_host c" pt "call_id c" "call_cmd c" "call_args c"
        "call_env c" "call_cwd c" "call_vmPrefix c" "call_realPrefix c" "call_mountRemap c" a]
      assms(2)
    by (simp add: doSpawn_def incr_no_wrap)
  show ?thesis
  proof (rule that [of ?pt1])
    show "run ?pt1 ops = (rs', pt')" by (rule run1)
    show "nextID pt \<le> nextID ?pt1" "nextID ?pt1 \<le> nextID pt + 1"
      using n by simp_all
    show "a = ''proc-'' @ fmt_d (nextID pt + 1) \<and> nextID ?pt1 = nextID pt + 1"
      if "op = OpSpawn c'" "call_id c' = []" "r = Some (Inr a)" for c' a
      using that OpSpawn a [of a] n by simp
    show "a = call_id c'"
      if "op = OpSpawn c'" "call_id c' \<noteq> []" "r = Some (Inr a)" for c' a
      using that OpSpawn a [of a] by simp
  qed
next
  case (OpExit i a w)
  let ?pt1 = "snd (waitExit pt i a w)"
  from run_Cons [OF assms(1)] OpExit
  have r: "r = None" and run1: "run ?pt1 ops = (rs', pt')"
    by auto
  show ?thesis
  proof (rule that [of ?pt1])
    show "run ?pt1 ops = (rs', pt')" by (rule run1)
    show "nextID pt \<le> nextID ?pt1" "nextID ?pt1 \<le> nextID pt + 1"
      by (simp_all add: waitExit_nextID)
    show "a' = ''proc-'' @ fmt_d (nextID pt + 1) \<and> nextID ?pt1 = nextID pt + 1"
      if "op = OpSpawn c'" "call_id c' = []" "r = Some (Inr a')" for c' a'
      using that OpExit by simp
    show "a' = call_id c'"
      if "op = OpSpawn c'" "call_id c' \<noteq> []" "r = Some (Inr a')" for c' a'
      using that OpExit by simp
  qed
qed

lemma step_nextID_ex:
  assumes "run pt (op # ops) = (r # rs', pt')" "nextID pt < 2 ^ 63 - 1"
  shows "\<exists>pt1. run pt1 ops = (rs', pt')
    \<and> nextID pt \<le> nextID pt1 \<and> nextID pt1 \<le> nextID pt + 1
    \<and> (\<forall>c a. op = OpSpawn c \<longrightarrow> call_id c = [] \<longrightarrow> r = Some (Inr a) \<longrightarrow>
        a = ''proc-'' @ fmt_d (nextID pt + 1) \<and> nextID pt1 = nextID pt + 1)
    \<and> (\<forall>c a. op = OpSpawn c \<longrightarrow> call_id c \<noteq> [] \<longrightarrow> r = Some (Inr a) \<longrightarrow> a = call_id c)"
  by (rule step_nextID [OF assms]) blast

lemma length_run: "run pt ops = (rs, pt') \<Longrightarrow> length rs = length ops"
proof (induction ops arbitrary: pt rs)
  case Nil
  then show ?case by simp
next
  case (Cons op ops)
  from run_Cons [OF Cons.prems] obtain r pt1 rs' where "rs = r # rs'" "run pt1 ops = (rs', pt')"
    by blast
  then show ?case using Cons.IH by simp
qed

text \<open>A generated id carries a number above the counter value the run started from.\<close>

lemma generated_above:
  assumes "run pt ops = (rs, pt')" "nextID pt + int (length ops) < 2 ^ 63"
    and "j < length ops" "ops ! j = OpSpawn c" "call_id c = []" "rs ! j = Some (Inr b)"
  shows "\<exists>M. b = ''proc-'' @ fmt_d M \<and> nextID pt < M"
  using assms
proof (induction ops arbitrary: pt rs j)
  case Nil
  then show ?case by simp
next
  case (Cons op ops)
  from run_Cons [OF Cons.prems(1)] obtain r rs' where rs: "rs = r # rs'"
    by blast
  have small: "nextID pt < 2 ^ 63 - 1"
    using Cons.prems(2) by simp
  from step_nextID_ex [OF Cons.prems(1) [unfolded rs] small] obtain pt1 where
    run1: "run pt1 ops = (rs', pt')"
    and mono: "nextID pt \<le> nextID pt1" "nextID pt1 \<le> nextID pt + 1"
    and gen: "\<forall>c a. op = OpSpawn c \<longrightarrow> call_id c = [] \<longrightarrow> r = Some (Inr a) \<longrightarrow>
        a = ''proc-'' @ fmt_d (nextID pt + 1) \<and> nextID pt1 = nextID pt + 1"
    by blast
  show ?case
  proof (cases j)
    case 0
    then have "op = OpSpawn c" "r = Some (Inr b)"
      using Cons.prems(4,6) rs by simp_all
    then have "b = ''proc-'' @ fmt_d (nextID pt + 1)"
      using gen Cons.prems(5) by blast
    then show ?thesis by (intro exI [of _ "nextID pt + 1"]) simp
  next
    case (Suc j')
    have "\<exists>M. b = ''proc-'' @ fmt_d M \<and> nextID pt1 < M"
    proof (rule Cons.IH [OF run1, of j'])
      show "nextID pt1 + int (length ops) < 2 ^ 63"
        using Cons.prems(2) mono(2) by simp
      show "j' < length ops" using Cons.prems(3) Suc by simp
      show "ops ! j' = OpSpawn c" using Cons.prems(4) Suc by simp
      show "call_id c = []" by (rule Cons.prems(5))
      show "rs' ! j' = Some (Inr b)" using Cons.prems(6) Suc rs by simp
    qed
    then show ?thesis using mono(1) by force
  qed
qed

lemma generated_increasing:
  assumes "run pt ops = (rs, pt')" "nextID pt + int (length ops) < 2 ^ 63"
    and "i < j" "j < length ops"
    and "ops ! i = OpSpawn ci" "call_id ci = []" "rs ! i = Some (Inr a)"
    and "ops ! j = OpSpawn cj" "call_id cj = []" "rs ! j = Some (Inr b)"
  shows "\<exists>N M. a = ''proc-'' @ fmt_d N \<and> b = ''proc-'' @ fmt_d M \<and> N < M"
  using assms
proof (induction ops arbitrary: pt rs i j)
  case Nil
  then show ?case by simp
next
  case (Cons op ops)
  from run_Cons [OF Cons.prems(1)] obtain r rs' where rs: "rs = r # rs'"
    by blast
  have small: "nextID pt < 2 ^ 63 - 1"
    using Cons.prems(2) by simp
  from step_nextID_ex [OF Cons.prems(1) [unfolded rs] small] obtain pt1 where
    run1: "run pt1 ops = (rs', pt')"
    and mono: "nextID pt \<le> nextID pt1" "nextID pt1 \<le> nextID pt + 1"
    and gen: "\<forall>c a. op = OpSpawn c \<longrightarrow> call_id c = [] \<longrightarrow> r = Some (Inr a) \<longrightarrow>
        a = ''proc-'' @ fmt_d (nextID pt + 1) \<and> nextID pt1 = nextID pt + 1"
    by blast
  have bound1: "nextID pt1 + int (length ops) < 2 ^ 63"
    using Cons.prems(2) mono(2) by simp
  obtain j' where j: "j = Suc j'"
    using Cons.prems(3) by (cases j) auto
  have j'1: "j' < length ops" "ops ! j' = OpSpawn cj" "rs' ! j' = Some (Inr b)"
    using Cons.prems(4,8,10) j rs by simp_all
  show ?case
  proof (cases i)
    case 0
    then have "op = OpSpawn ci" "r = Some (Inr a)"
      using Cons.prems(5,7) rs by simp_all
    then have a: "a = ''proc-'' @ fmt_d (nextID pt + 1)" "nextID pt1 = nextID pt + 1"
      using gen Cons.prems(6) by blast+
    from generated_above [OF run1 bound1 j'1(1,2) Cons.prems(9) j'1(3)]
    obtain M where "b = ''proc-'' @ fmt_d M" "nextID pt1 < M" by blast
    then show ?thesis using a by auto
  next
    case (Suc i')
    show ?thesis
    proof (rule Cons.IH [OF run1 bound1, of i' j'])
      show "i' < j'" using Cons.prems(3) Suc j by simp
      show "j' < length ops" by (rule j'1(1))
      show "ops ! i' = OpSpawn ci" using Cons.prems(5) Suc by simp
      show "call_id ci = []" by (rule Cons.prems(6))
      show "rs' ! i' = Some (Inr a)" using Cons.prems(7) Suc rs by simp
      show "ops ! j' = OpSpawn cj" by (rule j'1(2))
      show "call_id cj = []" by (rule Cons.prems(9))
      show "rs' ! j' = Some (Inr b)" by (rule j'1(3))
    qed
  qed
qed

lemma supplied_id_kept:
  assumes "run pt ops = (rs, pt')"
    and "i < length ops" "ops ! i = OpSpawn c" "call_id c \<noteq> []" "rs ! i = Some (Inr a)"
  shows "a = call_id c"
  using assms
proof (induction ops arbitrary: pt rs i)
  case Nil
  then show ?case by simp
next
  case (Cons op ops)
  from run_Cons [OF Cons.prems(1)] obtain r pt1 rs' where rs: "rs = r # rs'"
    and run1: "run pt1 ops = (rs', pt')"
    and op: "case op of OpSpawn c \<Rightarrow> r = Some (fst (doSpawn pt c)) \<and> pt1 = fst (snd (snd (doSpawn pt c)))
           | OpExit i a w \<Rightarrow> r = None \<and> pt1 = snd (waitExit pt i a w)"
    by blast
  show ?case
  proof (cases i)
    case 0
    then have "op = OpSpawn c" "r = Some (Inr a)"
      using Cons.prems(3,5) rs by simp_all
    then have "fst (doSpawn pt c) = Inr a" using op by simp
    then show ?thesis
      using spawn_result_id [of "call_host c" pt "call_id c" "call_cmd c" "call_args c"
        "call_env c" "call_cwd c" "call_vmPrefix c" "call_realPrefix c" "call_mountRemap c" a]
        Cons.prems(4)
      by (simp add: doSpawn_def)
  next
    case (Suc i')
    show ?thesis
      by (rule Cons.IH [OF run1, of i']) (use Cons.prems Suc rs in simp_all)
  qed
qed

lemma streamOutput_ProcessID: "e \<in> set (streamOutput pt d r stream) \<Longrightarrow> ProcessID e = d"
  by (auto simp add: streamOutput_def NewStdoutEvent_def NewErrorEvent_def Let_def
      split: prod.splits option.splits)

lemma waitExit_ProcessID: "e \<in> set (fst (waitExit pt d a w)) \<Longrightarrow> ProcessID e = d"
  by (auto simp add: waitExit_def NewExitEvent_def NewExitEventWithSignal_def Let_def
      split: if_splits)

lemma run_goroutine_ProcessID:
  assumes "g \<in> set [go_streamOutput d p1 s1, go_streamOutput d p2 s2, go_exit d a]"
    and "e \<in> set (fst (run_goroutine ptx ch g))"
  shows "ProcessID e = d"
  using assms streamOutput_ProcessID [of e ptx d] waitExit_ProcessID [of e ptx d a]
  by (auto simp add: run_goroutine_def)

text \<open>What a successful spawn leaves behind, whatever the tracker held before.\<close>

lemma spawn_registers:
  assumes "spawn h pt0 id0 cmd0 args env cwd v r m = (Inr d0, evs, pt1, gs)"
  shows "(id0 \<noteq> [] \<longrightarrow> d0 = id0)
     \<and> gs = [go_streamOutput d0 stdout_pipe ''stdout'', go_streamOutput d0 stderr_pipe ''stderr'',
             go_exit d0 (length (heap pt0))]
     \<and> (\<forall>g \<in> set gs. \<forall>e \<in> set (fst (run_goroutine ptx ch g)). ProcessID e = d0)
     \<and> processes pt1 = (processes pt0)(d0 \<mapsto> length (heap pt0))
     \<and> (\<exists>lp pid. heap pt1 = heap pt0 @ [lp] \<and> lp_id lp = d0 \<and> lookup pt1 d0 = Some lp
           \<and> Process (cmd lp) = Some pid
           \<and> Start h ((spawnCmd h cmd0 args cwd)
                        \<lparr>Env := Some (spawnEnv h (spawnCmd h cmd0 args cwd) env),
                         Setpgid := True\<rparr>) = Inr pid)"
proof -
  from assms have
    d: "d0 = (if id0 = [] then ''proc-'' @ fmt_d (incr (nextID pt0)) else id0)"
    and g: "gs = [go_streamOutput d0 stdout_pipe ''stdout'',
                  go_streamOutput d0 stderr_pipe ''stderr'', go_exit d0 (length (heap pt0))]"
    and p: "processes pt1 = (processes pt0)(d0 \<mapsto> length (heap pt0))"
    and l: "\<exists>lp pid. heap pt1 = heap pt0 @ [lp] \<and> lp_id lp = d0 \<and> Process (cmd lp) = Some pid
           \<and> Start h ((spawnCmd h cmd0 args cwd)
                        \<lparr>Env := Some (spawnEnv h (spawnCmd h cmd0 args cwd) env),
                         Setpgid := True\<rparr>) = Inr pid"
    by (auto simp add: spawn_def Let_def split: option.splits sum.splits if_splits)
  from l obtain lp pid where lp: "heap pt1 = heap pt0 @ [lp]" "lp_id lp = d0"
      "Process (cmd lp) = Some pid"
      "Start h ((spawnCmd h cmd0 args cwd)
                        \<lparr>Env := Some (spawnEnv h (spawnCmd h cmd0 args cwd) env),
                         Setpgid := True\<rparr>) = Inr pid"
    by blast
  have lk: "lookup pt1 d0 = Some lp"
    by (simp add: lookup_def p lp(1))
  have ev: "\<forall>g \<in> set gs. \<forall>e \<in> set (fst (run_goroutine ptx ch g)). ProcessID e = d0"
    unfolding g using run_goroutine_ProcessID by blast
  have ex: "\<exists>lp pid. heap pt1 = heap pt0 @ [lp] \<and> lp_id lp = d0 \<and> lookup pt1 d0 = Some lp
           \<and> Process (cmd lp) = Some pid
           \<and> Start h ((spawnCmd h cmd0 args cwd)
                        \<lparr>Env := Some (spawnEnv h (spawnCmd h cmd0 args cwd) env),
                         Setpgid := True\<rparr>) = Inr pid"
    using lp lk by blast
  have i: "id0 \<noteq> [] \<longrightarrow> d0 = id0"
    using d by simp
  show ?thesis
    apply (intro conjI)
        apply (rule i)
       apply (rule g)
      apply (rule ev)
     apply (rule p)
    apply (rule ex)
    done
qed

text \<open>Whether a spawn succeeds is decided by the host alone, not by the ids in use.\<close>

lemma spawn_accepts:
  "(\<exists>d. fst (spawn h pt0 id0 cmd0 args env cwd v r m) = Inr d)
     = (StdinPipe h = None \<and> StdoutPipe h = None \<and> StderrPipe h = None
        \<and> (\<exists>pid. Start h ((spawnCmd h cmd0 args cwd)
                        \<lparr>Env := Some (spawnEnv h (spawnCmd h cmd0 args cwd) env),
                         Setpgid := True\<rparr>) = Inr pid))"
  by (auto simp add: spawn_def Let_def split: option.splits sum.splits)

text \<open>
  Claim C7, as the code has it. In any sequence of spawns and process exits that does
  not exhaust the 64-bit counter, two successful spawns with an empty caller-supplied
  id return distinct ids \<open>proc-N\<close> and \<open>proc-M\<close> with \<open>N < M\<close> for the earlier and the
  later one, and a successful spawn with a non-empty caller-supplied id returns that id
  unchanged. Every successful spawn, from whatever tracker state, starts two readers and
  an exit goroutine with the id it returns, so that every event they emit, on whatever
  output and exit of the child, carries that id; and it binds the id in the registry to
  the record of the process just started, whether or not the id was bound before.
  Whether a spawn succeeds depends on the host only (the pipes and the start of the
  command), not on the tracker: the supervisor does not compare a new id with the ids
  in use, so that an id never stands for two spawned processes is not part of the
  statement.
\<close>

theorem spawn_ids:
  assumes "run pt ops = (rs, pt')" and "nextID pt + int (length ops) < 2 ^ 63"
  shows "(i < j \<and> j < length ops
            \<and> ops ! i = OpSpawn ci \<and> call_id ci = [] \<and> rs ! i = Some (Inr a)
            \<and> ops ! j = OpSpawn cj \<and> call_id cj = [] \<and> rs ! j = Some (Inr b) \<longrightarrow>
          a \<noteq> b \<and> (\<exists>N M. a = ''proc-'' @ fmt_d N \<and> b = ''proc-'' @ fmt_d M \<and> N < M))
       \<and> (k < length ops \<and> ops ! k = OpSpawn c \<and> call_id c \<noteq> [] \<and> rs ! k = Some (Inr d) \<longrightarrow>
          d = call_id c)
       \<and> (spawn h pt0 id0 cmd0 args env cwd v r m = (Inr d0, evs, pt1, gs) \<longrightarrow>
            (id0 \<noteq> [] \<longrightarrow> d0 = id0)
          \<and> gs = [go_streamOutput d0 stdout_pipe ''stdout'',
                  go_streamOutput d0 stderr_pipe ''stderr'', go_exit d0 (length (heap pt0))]
          \<and> (\<forall>g \<in> set gs. \<forall>e \<in> set (fst (run_goroutine ptx ch g)). ProcessID e = d0)
          \<and> processes pt1 = (processes pt0)(d0 \<mapsto> length (heap pt0))
          \<and> (\<exists>lp pid. heap pt1 = heap pt0 @ [lp] \<and> lp_id lp = d0 \<and> lookup pt1 d0 = Some lp
                \<and> Process (cmd lp) = Some pid
                \<and> Start h ((spawnCmd h cmd0 args cwd)
                             \<lparr>Env := Some (spawnEnv h (spawnCmd h cmd0 args cwd) env),
                              Setpgid := True\<rparr>) = Inr pid))
       \<and> ((\<exists>d. fst (spawn h pt0 id0 cmd0 args env cwd v r m) = Inr d)
            = (StdinPipe h = None \<and> StdoutPipe h = None \<and> StderrPipe h = None
               \<and> (\<exists>pid. Start h ((spawnCmd h cmd0 args cwd)
                               \<lparr>Env := Some (spawnEnv h (spawnCmd h cmd0 args cwd) env),
                                Setpgid := True\<rparr>) = Inr pid)))"
proof (intro conjI impI)
  assume h: "i < j \<and> j < length ops
            \<and> ops ! i = OpSpawn ci \<and> call_id ci = [] \<and> rs ! i = Some (Inr a)
            \<and> ops ! j = OpSpawn cj \<and> call_id cj = [] \<and> rs ! j = Some (Inr b)"
  then obtain N M where nm: "a = ''proc-'' @ fmt_d N" "b = ''proc-'' @ fmt_d M" "N < M"
    using generated_increasing [OF assms, of i j ci a cj b] by blast
  then show "\<exists>N M. a = ''proc-'' @ fmt_d N \<and> b = ''proc-'' @ fmt_d M \<and> N < M"
    by blast
  show "a \<noteq> b"
    using nm fmt_d_inj [of N M] by auto
next
  assume h: "k < length ops \<and> ops ! k = OpSpawn c \<and> call_id c \<noteq> [] \<and> rs ! k = Some (Inr d)"
  then show "d = call_id c"
    using supplied_id_kept [OF assms(1), of k c d] by blast
next
  assume s: "spawn h pt0 id0 cmd0 args env cwd v r m = (Inr d0, evs, pt1, gs)"
  note R = spawn_registers [OF s, of ptx ch]
  show "d0 = id0" if "id0 \<noteq> []"
    using R that by blast
  show "gs = [go_streamOutput d0 stdout_pipe ''stdout'',
              go_streamOutput d0 stderr_pipe ''stderr'', go_exit d0 (length (heap pt0))]"
    using R by blast
  show "\<forall>g \<in> set gs. \<forall>e \<in> set (fst (run_goroutine ptx ch g)). ProcessID e = d0"
    using R by blast
  show "processes pt1 = (processes pt0)(d0 \<mapsto> length (heap pt0))"
    using R by blast
  show "\<exists>lp pid. heap pt1 = heap pt0 @ [lp] \<and> lp_id lp = d0 \<and> lookup pt1 d0 = Some lp
                \<and> Process (cmd lp) = Some pid
                \<and> Start h ((spawnCmd h cmd0 args cwd)
                             \<lparr>Env := Some (spawnEnv h (spawnCmd h cmd0 args cwd) env),
                              Setpgid := True\<rparr>) = Inr pid"
    using R by blast
next
  show "(\<exists>d. fst (spawn h pt0 id0 cmd0 args env cwd v r m) = Inr d)
            = (StdinPipe h = None \<and> StdoutPipe h = None \<and> StderrPipe h = None
               \<and> (\<exists>pid. Start h ((spawnCmd h cmd0 args cwd)
                               \<lparr>Env := Some (spawnEnv h (spawnCmd h cmd0 args cwd) env),
                                Setpgid := True\<rparr>) = Inr pid))"
    by (rule spawn_accepts)
qed

text \<open>
  Claim C7: the theorem at the three spawns of \<open>demo_ops\<close>, and at a spawn with the
  caller-supplied id \<open>p\<close> from a tracker in which \<open>p\<close> is bound already: the spawn
  succeeds, its goroutines carry the id \<open>p\<close> and so do the events they emit for
  \<open>demo_child\<close>, and \<open>p\<close> is bound to the new record at address 1.
\<close>

lemma run_demo_ops:
  "fst (run newProcessTracker demo_ops)
     = [Some (Inr ''proc-1''), Some (Inr ''proc-1''), Some (Inr ''proc-2'')]"
  by (simp add: demo_ops_def demo_call_def doSpawn_def spawn_def demo_host_def
      newProcessTracker_def incr_def fmt_d_def digits.simps digit_char_def Let_def)

lemma demo_spawn_p:
  "spawn demo_host demo_tracker ''p'' ''/bin/cat'' [] [] [] [] [] []
     = (Inr ''p'', [],
        fst (snd (snd (spawn demo_host demo_tracker ''p'' ''/bin/cat'' [] [] [] [] [] []))),
        snd (snd (snd (spawn demo_host demo_tracker ''p'' ''/bin/cat'' [] [] [] [] [] []))))"
  by (simp add: spawn_def demo_host_def Let_def)

lemma demo_child_events:
  "fst (run_goroutine demo_tracker demo_child (go_streamOutput ''p'' stdout_pipe ''stdout''))
     = [StdoutEvent ''stdout'' ''p'' (''out'' @ [newline])]"
  "fst (run_goroutine demo_tracker demo_child (go_streamOutput ''p'' stderr_pipe ''stderr''))
     = [StdoutEvent ''stdout'' ''p'' (''e1'' @ [newline]), StdoutEvent ''stdout'' ''p'' (''e2'' @ [newline])]"
  "fst (run_goroutine demo_tracker demo_child (go_exit ''p'' (Suc 0)))
     = [ExitEvent ''exit'' ''p'' 0 [] 0]"
  by (simp_all add: run_goroutine_def written_to_def demo_child_def streamOutput_def scanLines.simps maxLine_def
      newline_def dropCR_def NewStdoutEvent_def waitExit_def NewExitEvent_def reverseRemap_def
      lookup_def demo_tracker_def demo_lp_def ReplaceAll_def replace_from.simps)

theorem spawn_ids_witness:
  "''proc-1'' \<noteq> ''proc-2''
   \<and> (\<exists>N M. ''proc-1'' = ''proc-'' @ fmt_d N \<and> ''proc-2'' = ''proc-'' @ fmt_d M \<and> N < M)
   \<and> fst (run newProcessTracker demo_ops) ! 0 = Some (Inr ''proc-1'')
   \<and> fst (spawn demo_host demo_tracker ''p'' ''/bin/cat'' [] [] [] [] [] []) = Inr ''p''
   \<and> snd (snd (snd (spawn demo_host demo_tracker ''p'' ''/bin/cat'' [] [] [] [] [] [])))
       = [go_streamOutput ''p'' stdout_pipe ''stdout'', go_streamOutput ''p'' stderr_pipe ''stderr'',
          go_exit ''p'' 1]
   \<and> map ProcessID
        (fst (run_goroutine demo_tracker demo_child (go_streamOutput ''p'' stdout_pipe ''stdout''))
         @ fst (run_goroutine demo_tracker demo_child (go_streamOutput ''p'' stderr_pipe ''stderr''))
         @ fst (run_goroutine demo_tracker demo_child (go_exit ''p'' 1)))
       = [''p'', ''p'', ''p'', ''p'']
   \<and> processes demo_tracker ''p'' = Some 0
   \<and> processes (fst (snd (snd (spawn demo_host demo_tracker ''p'' ''/bin/cat'' [] [] [] [] [] []))))
        ''p'' = Some 1
   \<and> (\<exists>d. fst (spawn demo_host demo_tracker ''p'' ''/bin/cat'' [] [] [] [] [] []) = Inr d)"
proof -
  have r: "run newProcessTracker demo_ops
      = ([Some (Inr ''proc-1''), Some (Inr ''proc-1''), Some (Inr ''proc-2'')],
         snd (run newProcessTracker demo_ops))"
    using run_demo_ops by (metis prod.collapse)
  have b: "nextID newProcessTracker + int (length demo_ops) < 2 ^ 63"
    by (simp add: newProcessTracker_def demo_ops_def)
  note T = spawn_ids [OF r b]
  have 1: "''proc-1'' \<noteq> ''proc-2''
      \<and> (\<exists>N M. ''proc-1'' = ''proc-'' @ fmt_d N \<and> ''proc-2'' = ''proc-'' @ fmt_d M \<and> N < M)"
    using T [where i = 1 and j = 2 and ci = "demo_call [] ''/bin/b'' 4244" and a = "''proc-1''"
        and cj = "demo_call [] ''/bin/c'' 4245" and b = "''proc-2''"]
    by (simp add: demo_ops_def demo_call_def)
  have 2: "fst (run newProcessTracker demo_ops) ! 0 = Some (Inr ''proc-1'')"
    using T [where k = 0 and c = "demo_call ''proc-1'' ''/bin/a'' 4243" and d = "''proc-1''"]
    by (simp add: run_demo_ops)
  note S = T [where h = demo_host and ?pt0.0 = demo_tracker and ?id0.0 = "''p''"
      and ?cmd0.0 = "''/bin/cat''" and args = "[]" and env = "[]" and cwd = "[]" and v = "[]"
      and r = "[]" and m = "[]" and ?d0.0 = "''p''" and evs = "[]"
      and ?pt1.0 = "fst (snd (snd (spawn demo_host demo_tracker ''p'' ''/bin/cat'' [] [] [] [] [] [])))"
      and gs = "snd (snd (snd (spawn demo_host demo_tracker ''p'' ''/bin/cat'' [] [] [] [] [] [])))"
      and ptx = demo_tracker and ch = demo_child]
  note C = mp [OF S [THEN conjunct2, THEN conjunct2, THEN conjunct1] demo_spawn_p]
  have g: "snd (snd (snd (spawn demo_host demo_tracker ''p'' ''/bin/cat'' [] [] [] [] [] [])))
       = [go_streamOutput ''p'' stdout_pipe ''stdout'', go_streamOutput ''p'' stderr_pipe ''stderr'',
          go_exit ''p'' 1]"
    using C [THEN conjunct2, THEN conjunct1] by (simp add: demo_tracker_def)
  have p: "processes (fst (snd (snd (spawn demo_host demo_tracker ''p'' ''/bin/cat'' [] [] [] [] [] []))))
        ''p'' = Some 1"
    using C [THEN conjunct2, THEN conjunct2, THEN conjunct2, THEN conjunct1]
    by (simp add: demo_tracker_def)
  have e: "\<forall>g \<in> set [go_streamOutput ''p'' stdout_pipe ''stdout'',
                       go_streamOutput ''p'' stderr_pipe ''stderr'', go_exit ''p'' 1].
             \<forall>e \<in> set (fst (run_goroutine demo_tracker demo_child g)). ProcessID e = ''p''"
    using C [THEN conjunct2, THEN conjunct2, THEN conjunct1] unfolding g .
  have 3: "map ProcessID
        (fst (run_goroutine demo_tracker demo_child (go_streamOutput ''p'' stdout_pipe ''stdout''))
         @ fst (run_goroutine demo_tracker demo_child (go_streamOutput ''p'' stderr_pipe ''stderr''))
         @ fst (run_goroutine demo_tracker demo_child (go_exit ''p'' 1)))
       = [''p'', ''p'', ''p'', ''p'']"
    using e by (simp add: demo_child_events)
  have 4: "\<exists>d. fst (spawn demo_host demo_tracker ''p'' ''/bin/cat'' [] [] [] [] [] []) = Inr d"
    using S [THEN conjunct2, THEN conjunct2, THEN conjunct2] by (simp add: demo_host_def)
  have 5: "fst (spawn demo_host demo_tracker ''p'' ''/bin/cat'' [] [] [] [] [] []) = Inr ''p''"
    using demo_spawn_p by (metis fst_conv)
  have 6: "processes demo_tracker ''p'' = Some 0"
    by (simp add: demo_tracker_def)
  show ?thesis
    using 1 2 3 4 5 6 g p by simp
qed

text \<open>
  Claim C7 fails as stated: a spawn with the caller-supplied id \<open>proc-1\<close> followed by
  two spawns with an empty id yields the ids \<open>proc-1\<close>, \<open>proc-1\<close>, \<open>proc-2\<close>. Two
  processes (pids 4243 and 4244, running \<open>/bin/a\<close> and \<open>/bin/b\<close>) have the id \<open>proc-1\<close>,
  and the registry entry for \<open>proc-1\<close> points to the second one only. Likewise two
  spawns with the caller-supplied id \<open>job\<close> both succeed, and \<open>job\<close> then stands for the
  second process only.
\<close>

theorem spawn_ids_not_unique:
  "fst (run newProcessTracker demo_ops)
     = [Some (Inr ''proc-1''), Some (Inr ''proc-1''), Some (Inr ''proc-2'')]
   \<and> map lp_id (heap (snd (run newProcessTracker demo_ops))) = [''proc-1'', ''proc-1'', ''proc-2'']
   \<and> map (Path \<circ> cmd) (heap (snd (run newProcessTracker demo_ops))) = [''/bin/a'', ''/bin/b'', ''/bin/c'']
   \<and> map (Process \<circ> cmd) (heap (snd (run newProcessTracker demo_ops)))
       = [Some 4243, Some 4244, Some 4245]
   \<and> processes (snd (run newProcessTracker demo_ops)) ''proc-1'' = Some 1
   \<and> fst (run newProcessTracker demo_ops_twice) = [Some (Inr ''job''), Some (Inr ''job'')]
   \<and> map lp_id (heap (snd (run newProcessTracker demo_ops_twice))) = [''job'', ''job'']
   \<and> map (Process \<circ> cmd) (heap (snd (run newProcessTracker demo_ops_twice)))
       = [Some 4243, Some 4244]
   \<and> processes (snd (run newProcessTracker demo_ops_twice)) ''job'' = Some 1"
  by (simp add: demo_ops_def demo_ops_twice_def demo_call_def doSpawn_def spawn_def demo_host_def
      newProcessTracker_def incr_def fmt_d_def digits.simps digit_char_def Let_def
      spawnCmd_def resolveCmd_def Command_def)

section \<open>Output streaming\<close>

lemma scanLines_Nil: "scanLines m [] = ([], None)"
  by (simp add: scanLines.simps)

lemma scanLines_last:
  assumes "newline \<notin> set t" "length t < m" "t \<noteq> []"
  shows "scanLines m t = ([dropCR t], None)"
proof -
  have tw: "takeWhile (\<lambda>c. c \<noteq> newline) t = t" "dropWhile (\<lambda>c. c \<noteq> newline) t = []"
    using assms(1) by auto
  show ?thesis
    using assms(2,3) by (subst scanLines.simps) (simp add: Let_def tw)
qed

lemma scanLines_line:
  assumes "newline \<notin> set l" "length l < m"
  shows "scanLines m (l @ newline # r)
         = (dropCR l # fst (scanLines m r), snd (scanLines m r))"
proof -
  have "takeWhile (\<lambda>c. c \<noteq> newline) (l @ newline # r) = l"
    using assms(1) by (auto simp add: takeWhile_tail)
  moreover have "dropWhile (\<lambda>c. c \<noteq> newline) (l @ newline # r) = newline # r"
    using assms(1) by (auto simp add: dropWhile_append3)
  ultimately show ?thesis
    using assms(2) by (subst scanLines.simps) (simp add: Let_def split: prod.splits)
qed

lemma scanLines_too_long:
  assumes "newline \<notin> set l" "m \<le> length l" "l \<noteq> []"
  shows "scanLines m (l @ newline # r) = ([], Some ErrTooLong)"
proof -
  have "takeWhile (\<lambda>c. c \<noteq> newline) (l @ newline # r) = l"
    using assms(1) by (auto simp add: takeWhile_tail)
  then show ?thesis
    using assms(2,3) by (subst scanLines.simps) (simp add: Let_def)
qed

lemma scanLines_lines:
  assumes "\<forall>l \<in> set ls. newline \<notin> set l \<and> length l < m"
    and "newline \<notin> set t" "length t < m"
  shows "scanLines m (concat (map (\<lambda>l. l @ [newline]) ls) @ t)
         = (map dropCR (ls @ (if t = [] then [] else [t])), None)"
  using assms(1)
proof (induction ls)
  case Nil
  then show ?case
    using scanLines_last [OF assms(2,3)] by (simp add: scanLines_Nil)
next
  case (Cons l ls)
  have "scanLines m (concat (map (\<lambda>l. l @ [newline]) (l # ls)) @ t)
        = scanLines m (l @ newline # (concat (map (\<lambda>l. l @ [newline]) ls) @ t))"
    by simp
  also have "\<dots> = (dropCR l # fst (scanLines m (concat (map (\<lambda>l. l @ [newline]) ls) @ t)),
                   snd (scanLines m (concat (map (\<lambda>l. l @ [newline]) ls) @ t)))"
    using Cons.prems by (intro scanLines_line) simp_all
  finally show ?case
    using Cons by simp
qed

lemma scanLines_long:
  assumes "newline \<notin> set long" "m \<le> length long" "long \<noteq> []"
  shows "scanLines m (long @ rest) = ([], Some ErrTooLong)"
proof -
  have "takeWhile (\<lambda>c. c \<noteq> newline) (long @ rest) = long @ takeWhile (\<lambda>c. c \<noteq> newline) rest"
    using assms(1) by (intro takeWhile_append2) auto
  then show ?thesis
    using assms(2,3) by (subst scanLines.simps) (simp add: Let_def)
qed

lemma scanLines_lines_long:
  assumes "\<forall>l \<in> set ls. newline \<notin> set l \<and> length l < m"
    and "newline \<notin> set long" "m \<le> length long" "long \<noteq> []"
  shows "scanLines m (concat (map (\<lambda>l. l @ [newline]) ls) @ long @ rest)
         = (map dropCR ls, Some ErrTooLong)"
  using assms(1)
proof (induction ls)
  case Nil
  then show ?case
    using scanLines_long [OF assms(2,3,4)] by simp
next
  case (Cons l ls)
  have "scanLines m (concat (map (\<lambda>l. l @ [newline]) (l # ls)) @ long @ rest)
        = scanLines m (l @ newline # (concat (map (\<lambda>l. l @ [newline]) ls) @ long @ rest))"
    by simp
  also have "\<dots> = (dropCR l # fst (scanLines m (concat (map (\<lambda>l. l @ [newline]) ls) @ long @ rest)),
                   snd (scanLines m (concat (map (\<lambda>l. l @ [newline]) ls) @ long @ rest)))"
    using Cons.prems by (intro scanLines_line) simp_all
  finally show ?case
    using Cons by simp
qed

lemma streamOutput_Type:
  "e \<in> set (streamOutput pt pid_id r stream) \<Longrightarrow> Type e = ''stdout'' \<or> Type e = ''error''"
  by (auto simp add: streamOutput_def NewStdoutEvent_def NewErrorEvent_def Let_def
      split: prod.splits option.splits)

lemma streamOutput_short:
  assumes "\<forall>l \<in> set ls. newline \<notin> set l \<and> length l < maxLine"
    and "newline \<notin> set t" "length t < maxLine"
  shows "streamOutput pt pid_id (concat (map (\<lambda>l. l @ [newline]) ls) @ t) stream
        = map (\<lambda>l. StdoutEvent ''stdout'' pid_id
                     (reverseRemap (lookup pt pid_id) (dropCR l @ [newline])))
            (ls @ (if t = [] then [] else [t]))"
  using scanLines_lines [OF assms]
  by (simp add: streamOutput_def NewStdoutEvent_def Let_def comp_def)

lemma streamOutput_long:
  assumes "\<forall>l \<in> set ls. newline \<notin> set l \<and> length l < maxLine"
    and "newline \<notin> set long" "maxLine \<le> length long"
  shows "streamOutput pt pid_id (concat (map (\<lambda>l. l @ [newline]) ls) @ long @ rest) stream
        = map (\<lambda>l. StdoutEvent ''stdout'' pid_id
                     (reverseRemap (lookup pt pid_id) (dropCR l @ [newline]))) ls
          @ [ErrorEvent ''error'' pid_id
               (stream @ '' scanner error: bufio.Scanner: token too long'') False]"
proof -
  have "long \<noteq> []"
    using assms(3) by (auto simp add: maxLine_def)
  from scanLines_lines_long [OF assms this, of rest] show ?thesis
    by (simp add: streamOutput_def NewStdoutEvent_def NewErrorEvent_def ErrTooLong_def Let_def
        comp_def)
qed

lemma run_reader:
  "fst (run_goroutine pt ch (go_streamOutput d p stream)) = streamOutput pt d (written_to ch p) stream"
  by (simp add: run_goroutine_def)

lemma spawn_readers:
  assumes "spawn h pt0 id0 cmd0 args env cwd v r m = (Inr d, evs, pt1, gs)"
  shows "take 2 gs = [go_streamOutput d stdout_pipe ''stdout'', go_streamOutput d stderr_pipe ''stderr'']
     \<and> (\<exists>lp. lookup pt1 d = Some lp \<and> lp_id lp = d
           \<and> reverseMap lp = (v \<noteq> [] \<and> r \<noteq> [] \<and> Stat h v)
           \<and> vmPrefix lp = (if v \<noteq> [] \<and> r \<noteq> [] then v else [])
           \<and> realPrefix lp = (if v \<noteq> [] \<and> r \<noteq> [] then r else []))"
proof -
  from spawn_success [OF assms] have
    "gs = [go_streamOutput d stdout_pipe ''stdout'', go_streamOutput d stderr_pipe ''stderr'',
           go_exit d (length (heap pt0))]"
    by blast
  then have 1: "take 2 gs
      = [go_streamOutput d stdout_pipe ''stdout'', go_streamOutput d stderr_pipe ''stderr'']"
    by simp
  from spawn_success_lookup [OF assms] have 2: "\<exists>lp. lookup pt1 d = Some lp \<and> lp_id lp = d
           \<and> reverseMap lp = (v \<noteq> [] \<and> r \<noteq> [] \<and> Stat h v)
           \<and> vmPrefix lp = (if v \<noteq> [] \<and> r \<noteq> [] then v else [])
           \<and> realPrefix lp = (if v \<noteq> [] \<and> r \<noteq> [] then r else [])"
    by blast
  show ?thesis
    using 1 2 by (rule conjI)
qed

text \<open>
  Claim C4, as the code has it. A successful spawn starts exactly two readers, one of
  the child's stdout with the stream name \<open>stdout\<close> and one of its stderr with the stream
  name \<open>stderr\<close>, both with the id the spawn returns; the registry then holds under that
  id the record of the new process, whose reverse remapping is enabled when both
  prefixes are given and the VM path exists. For a reader with the id \<open>d\<close>, started
  from a tracker \<open>pt\<close>, on either pipe \<open>p\<close>: when the child writes the lines \<open>ls\<close>, each
  ended by a newline and shorter than the scanner's limit of 10 MiB, and then a last
  piece \<open>t\<close> without newline, also shorter, the reader emits exactly one event per line
  (and one for a non-empty \<open>t\<close>), in order, of type \<open>stdout\<close>, with the id \<open>d\<close> and as data the
  line without a carriage return at its end, followed by one newline, reverse-remapped
  as a whole when the record found for the id enables it. When after such lines \<open>ls\<close>
  the child writes 10 MiB or more without a newline (\<open>long\<close>), whatever follows, the
  reader emits the events of the lines \<open>ls\<close> and then a single event of type \<open>error\<close>
  that is not fatal, and nothing for the long line and for what follows it.
  Whatever the child writes, no event of a reader has the type \<open>stderr\<close>, and every
  event carries the id \<open>d\<close>.
\<close>

theorem streamOutput_events:
  "(spawn h pt0 id0 cmd0 args env cwd v r m = (Inr d0, evs, pt1, gs) \<longrightarrow>
       take 2 gs = [go_streamOutput d0 stdout_pipe ''stdout'', go_streamOutput d0 stderr_pipe ''stderr'']
     \<and> (\<exists>lp. lookup pt1 d0 = Some lp \<and> lp_id lp = d0
           \<and> reverseMap lp = (v \<noteq> [] \<and> r \<noteq> [] \<and> Stat h v)
           \<and> vmPrefix lp = (if v \<noteq> [] \<and> r \<noteq> [] then v else [])
           \<and> realPrefix lp = (if v \<noteq> [] \<and> r \<noteq> [] then r else [])))
   \<and> ((\<forall>l \<in> set ls. newline \<notin> set l \<and> length l < maxLine) \<and> newline \<notin> set t \<and> length t < maxLine
        \<and> written_to ch p = concat (map (\<lambda>l. l @ [newline]) ls) @ t \<longrightarrow>
      fst (run_goroutine pt ch (go_streamOutput d p stream))
        = map (\<lambda>l. StdoutEvent ''stdout'' d (reverseRemap (lookup pt d) (dropCR l @ [newline])))
            (ls @ (if t = [] then [] else [t])))
   \<and> ((\<forall>l \<in> set ls. newline \<notin> set l \<and> length l < maxLine)
        \<and> newline \<notin> set long \<and> maxLine \<le> length long
        \<and> written_to ch p = concat (map (\<lambda>l. l @ [newline]) ls) @ long @ rest \<longrightarrow>
      fst (run_goroutine pt ch (go_streamOutput d p stream))
        = map (\<lambda>l. StdoutEvent ''stdout'' d (reverseRemap (lookup pt d) (dropCR l @ [newline]))) ls
          @ [ErrorEvent ''error'' d (stream @ '' scanner error: bufio.Scanner: token too long'')
               False])
   \<and> (\<forall>e \<in> set (fst (run_goroutine pt ch (go_streamOutput d p stream))).
         Type e \<noteq> ''stderr'' \<and> ProcessID e = d)
   \<and> reverseRemap None line = line
   \<and> reverseRemap (Some lp) line
        = (if reverseMap lp then ReplaceAll line (realPrefix lp) (vmPrefix lp) else line)"
proof (intro conjI impI ballI)
  assume "spawn h pt0 id0 cmd0 args env cwd v r m = (Inr d0, evs, pt1, gs)"
  note R = spawn_readers [OF this]
  show "take 2 gs
      = [go_streamOutput d0 stdout_pipe ''stdout'', go_streamOutput d0 stderr_pipe ''stderr'']"
    using R by (rule conjunct1)
  show "\<exists>lp. lookup pt1 d0 = Some lp \<and> lp_id lp = d0
           \<and> reverseMap lp = (v \<noteq> [] \<and> r \<noteq> [] \<and> Stat h v)
           \<and> vmPrefix lp = (if v \<noteq> [] \<and> r \<noteq> [] then v else [])
           \<and> realPrefix lp = (if v \<noteq> [] \<and> r \<noteq> [] then r else [])"
    using R by (rule conjunct2)
next
  assume a: "(\<forall>l \<in> set ls. newline \<notin> set l \<and> length l < maxLine) \<and> newline \<notin> set t
      \<and> length t < maxLine \<and> written_to ch p = concat (map (\<lambda>l. l @ [newline]) ls) @ t"
  then have "streamOutput pt d (written_to ch p) stream
        = map (\<lambda>l. StdoutEvent ''stdout'' d (reverseRemap (lookup pt d) (dropCR l @ [newline])))
            (ls @ (if t = [] then [] else [t]))"
    using streamOutput_short [of ls t pt d stream] by simp
  then show "fst (run_goroutine pt ch (go_streamOutput d p stream))
        = map (\<lambda>l. StdoutEvent ''stdout'' d (reverseRemap (lookup pt d) (dropCR l @ [newline])))
            (ls @ (if t = [] then [] else [t]))"
    by (simp only: run_reader)
next
  assume a: "(\<forall>l \<in> set ls. newline \<notin> set l \<and> length l < maxLine)
        \<and> newline \<notin> set long \<and> maxLine \<le> length long
        \<and> written_to ch p = concat (map (\<lambda>l. l @ [newline]) ls) @ long @ rest"
  then have "streamOutput pt d (written_to ch p) stream
        = map (\<lambda>l. StdoutEvent ''stdout'' d (reverseRemap (lookup pt d) (dropCR l @ [newline]))) ls
          @ [ErrorEvent ''error'' d (stream @ '' scanner error: bufio.Scanner: token too long'')
               False]"
    using streamOutput_long [of ls long pt d rest stream] by simp
  then show "fst (run_goroutine pt ch (go_streamOutput d p stream))
        = map (\<lambda>l. StdoutEvent ''stdout'' d (reverseRemap (lookup pt d) (dropCR l @ [newline]))) ls
          @ [ErrorEvent ''error'' d (stream @ '' scanner error: bufio.Scanner: token too long'')
               False]"
    by (simp only: run_reader)
next
  fix e assume e: "e \<in> set (fst (run_goroutine pt ch (go_streamOutput d p stream)))"
  then show "Type e \<noteq> ''stderr''"
    using streamOutput_Type [of e pt d "written_to ch p" stream] by (auto simp add: run_reader)
  show "ProcessID e = d"
    using e streamOutput_ProcessID [of e pt d "written_to ch p" stream] by (simp add: run_reader)
next
  show "reverseRemap None line = line"
    by (simp add: reverseRemap_def)
  show "reverseRemap (Some lp) line
        = (if reverseMap lp then ReplaceAll line (realPrefix lp) (vmPrefix lp) else line)"
    by (simp add: reverseRemap_def)
qed

text \<open>
  Claim C4: the theorem for the spawn \<open>demo_spawned\<close>, whose readers carry the id \<open>proc-1\<close>,
  for the reader of stderr on a child that writes a line ending in a carriage return,
  an empty line and a last line without newline, and for the reader of stdout on a
  child that writes the line \<open>ok\<close>, a line of 10 MiB and the line \<open>after\<close>.
\<close>

lemma demo_spawned_eq:
  "spawn demo_host newProcessTracker [] ''/bin/cat'' [] [] [] ''/sessions/s'' ''/home/u/s'' []
     = (Inr ''proc-1'', [], fst (snd (snd demo_spawned)), snd (snd (snd demo_spawned)))"
  by (simp add: demo_spawned_def spawn_def demo_host_def newProcessTracker_def incr_def fmt_d_def
      digits.simps digit_char_def Let_def)

lemma demo_spawned_remap:
  "reverseRemap (lookup (fst (snd (snd demo_spawned))) ''proc-1'') line
     = ReplaceAll line ''/home/u/s'' ''/sessions/s''"
  by (simp add: demo_spawned_def spawn_def demo_host_def newProcessTracker_def incr_def fmt_d_def
      digits.simps digit_char_def Let_def lookup_def reverseRemap_def)

theorem streamOutput_events_witness:
  "take 2 (snd (snd (snd demo_spawned)))
     = [go_streamOutput ''proc-1'' stdout_pipe ''stdout'', go_streamOutput ''proc-1'' stderr_pipe ''stderr'']
   \<and> fst (run_goroutine (fst (snd (snd demo_spawned))) demo_child_cr
            (go_streamOutput ''proc-1'' stderr_pipe ''stderr''))
     = [StdoutEvent ''stdout'' ''proc-1'' (''cd /sessions/s/x'' @ [newline]),
        StdoutEvent ''stdout'' ''proc-1'' [newline],
        StdoutEvent ''stdout'' ''proc-1'' (''last'' @ [newline])]
   \<and> fst (run_goroutine (fst (snd (snd demo_spawned))) demo_child_long
            (go_streamOutput ''proc-1'' stdout_pipe ''stdout''))
     = [StdoutEvent ''stdout'' ''proc-1'' (''ok'' @ [newline]),
        ErrorEvent ''error'' ''proc-1'' ''stdout scanner error: bufio.Scanner: token too long'' False]
   \<and> map ProcessID (fst (run_goroutine (fst (snd (snd demo_spawned))) demo_child_long
            (go_streamOutput ''proc-1'' stdout_pipe ''stdout''))) = [''proc-1'', ''proc-1'']"
proof -
  note T = streamOutput_events [where pt = "fst (snd (snd demo_spawned))" and d = "''proc-1''"]
  have 1: "take 2 (snd (snd (snd demo_spawned)))
     = [go_streamOutput ''proc-1'' stdout_pipe ''stdout'', go_streamOutput ''proc-1'' stderr_pipe ''stderr'']"
    using mp [OF T [THEN conjunct1] demo_spawned_eq] by (rule conjunct1)
  have h2: "(\<forall>l \<in> set [''cd /home/u/s/x'' @ [CHR 0x0D], []]. newline \<notin> set l \<and> length l < maxLine)
      \<and> newline \<notin> set ''last'' \<and> length ''last'' < maxLine
      \<and> written_to demo_child_cr stderr_pipe
          = concat (map (\<lambda>l. l @ [newline]) [''cd /home/u/s/x'' @ [CHR 0x0D], []]) @ ''last''"
    by (simp add: newline_def maxLine_def written_to_def demo_child_cr_def)
  have 2: "fst (run_goroutine (fst (snd (snd demo_spawned))) demo_child_cr
            (go_streamOutput ''proc-1'' stderr_pipe ''stderr''))
     = [StdoutEvent ''stdout'' ''proc-1'' (''cd /sessions/s/x'' @ [newline]),
        StdoutEvent ''stdout'' ''proc-1'' [newline],
        StdoutEvent ''stdout'' ''proc-1'' (''last'' @ [newline])]"
    using mp [OF T [THEN conjunct2, THEN conjunct1] h2, of "''stderr''"]
    by (simp add: demo_spawned_remap dropCR_def ReplaceAll_def replace_from.simps newline_def)
  have h3: "(\<forall>l \<in> set [''ok'']. newline \<notin> set l \<and> length l < maxLine)
      \<and> newline \<notin> set (replicate maxLine CHR ''a'') \<and> maxLine \<le> length (replicate maxLine CHR ''a'')
      \<and> written_to demo_child_long stdout_pipe
          = concat (map (\<lambda>l. l @ [newline]) [''ok'']) @ replicate maxLine CHR ''a''
            @ (newline # ''after'' @ [newline])"
    by (simp add: newline_def maxLine_def written_to_def demo_child_long_def)
  have 3: "fst (run_goroutine (fst (snd (snd demo_spawned))) demo_child_long
            (go_streamOutput ''proc-1'' stdout_pipe ''stdout''))
     = [StdoutEvent ''stdout'' ''proc-1'' (''ok'' @ [newline]),
        ErrorEvent ''error'' ''proc-1'' ''stdout scanner error: bufio.Scanner: token too long'' False]"
    using mp [OF T [THEN conjunct2, THEN conjunct2, THEN conjunct1] h3, of "''stdout''"]
    by (simp add: demo_spawned_remap dropCR_def ReplaceAll_def replace_from.simps newline_def)
  show ?thesis
    using 1 2 3 by simp
qed

text \<open>
  Claim C4 fails as stated for a line that reaches the scanner's limit: for a line of
  10 MiB followed by the line \<open>ok\<close> on stderr the reader emits no event of type
  \<open>stdout\<close> at all, neither for the long line nor for the one after it, but a single
  event of type \<open>error\<close>.
\<close>

theorem streamOutput_long_line:
  "streamOutput demo_tracker ''p'' (replicate maxLine CHR ''a'' @ [newline] @ ''ok'' @ [newline]) ''stderr''
     = [ErrorEvent ''error'' ''p'' ''stderr scanner error: bufio.Scanner: token too long'' False]"
proof -
  have "scanLines maxLine (replicate maxLine CHR ''a'' @ newline # (''ok'' @ [newline]))
        = ([], Some ErrTooLong)"
    by (rule scanLines_too_long) (simp_all add: newline_def maxLine_def)
  then show ?thesis
    by (simp add: streamOutput_def NewErrorEvent_def ErrTooLong_def)
qed

section \<open>Writing to a child's stdin\<close>

lemma select_done_first:
  assumes "sel \<in> set (select_ready w (Some td))" "td < stdinTimeout"
    and "\<forall>tw err. w = Some (tw, err) \<longrightarrow> td < tw"
  shows "sel = DoneClosed"
  using assms
  by (cases w) (auto simp add: select_ready_def Let_def min_def split: if_splits)

lemma select_timer_first:
  assumes "sel \<in> set (select_ready w d)"
    and "\<forall>tw err. w = Some (tw, err) \<longrightarrow> stdinTimeout < tw"
    and "\<forall>td. d = Some td \<longrightarrow> stdinTimeout < td"
  shows "sel = TimerFired"
  using assms
  by (cases w; cases d) (auto simp add: select_ready_def Let_def min_def split: if_splits)

lemma select_write_first:
  assumes "sel \<in> set (select_ready (Some (tw, err)) d)" "tw < stdinTimeout"
    and "\<forall>td. d = Some td \<longrightarrow> tw < td"
  shows "sel = WriteResult err"
  using assms
  by (cases d) (auto simp add: select_ready_def Let_def min_def split: if_splits)

lemma writeStdin_started:
  assumes "lookup pt processID = Some lp" "\<not> done_closed lp"
  shows "writeStdin pt processID payload sel =
     ((case sel of
         WriteResult err \<Rightarrow> err
       | DoneClosed \<Rightarrow> Some (''process '' @ processID @ '' exited during write'')
       | TimerFired \<Rightarrow> Some (''stdin write timeout for process '' @ processID)),
      [mu_Lock, stdin_Write (remapStdin lp payload), mu_Unlock])"
  using assms by (cases sel) (simp_all add: writeStdin_def Let_def)

text \<open>
  Claim C6, as the code has it. With a timeout of 10 seconds: on an unknown id
  \<open>writeStdin\<close> fails with \<open>process <id> not found\<close>; on a record whose completion latch is
  already set it fails with \<open>process <id> has exited\<close>, and in both cases nothing is
  written. Otherwise it starts the writer, which locks the record's mutex, writes the
  remapped bytes to the child's stdin and unlocks, and the select decides the result:
  \<open>process <id> exited during write\<close> when the latch is set before the write returns and
  before the timeout, \<open>stdin write timeout for process <id>\<close> when after 10 seconds the
  write has not returned and the latch is not set, and the result of the write itself,
  an error or none, when the write returns first.
\<close>

theorem writeStdin_results:
  "stdinTimeout = 10 * 10 ^ 9
   \<and> (lookup pt processID = None \<longrightarrow>
        writeStdin pt processID payload sel = (Some (''process '' @ processID @ '' not found''), []))
   \<and> (lookup pt processID = Some lp \<and> done_closed lp \<longrightarrow>
        writeStdin pt processID payload sel = (Some (''process '' @ processID @ '' has exited''), []))
   \<and> (lookup pt processID = Some lp \<and> \<not> done_closed lp \<and> sel \<in> set (select_ready w d) \<longrightarrow>
        snd (writeStdin pt processID payload sel)
          = [mu_Lock, stdin_Write (remapStdin lp payload), mu_Unlock]
        \<and> (\<forall>td. d = Some td \<and> td < stdinTimeout \<and> (\<forall>tw err. w = Some (tw, err) \<longrightarrow> td < tw) \<longrightarrow>
              fst (writeStdin pt processID payload sel)
                = Some (''process '' @ processID @ '' exited during write''))
        \<and> ((\<forall>tw err. w = Some (tw, err) \<longrightarrow> stdinTimeout < tw)
              \<and> (\<forall>td. d = Some td \<longrightarrow> stdinTimeout < td) \<longrightarrow>
              fst (writeStdin pt processID payload sel)
                = Some (''stdin write timeout for process '' @ processID))
        \<and> (\<forall>tw err. w = Some (tw, err) \<and> tw < stdinTimeout \<and> (\<forall>td. d = Some td \<longrightarrow> tw < td) \<longrightarrow>
              fst (writeStdin pt processID payload sel) = err))"
proof -
  have t: "stdinTimeout = 10 * 10 ^ 9"
    by (simp add: stdinTimeout_def Second_def)
  have a: "writeStdin pt processID payload sel = (Some (''process '' @ processID @ '' not found''), [])"
    if "lookup pt processID = None"
    using that by (simp add: writeStdin_def)
  have b: "writeStdin pt processID payload sel = (Some (''process '' @ processID @ '' has exited''), [])"
    if "lookup pt processID = Some lp" "done_closed lp"
    using that by (simp add: writeStdin_def Let_def)
  have c: "snd (writeStdin pt processID payload sel)
          = [mu_Lock, stdin_Write (remapStdin lp payload), mu_Unlock]
        \<and> (\<forall>td. d = Some td \<and> td < stdinTimeout \<and> (\<forall>tw err. w = Some (tw, err) \<longrightarrow> td < tw) \<longrightarrow>
              fst (writeStdin pt processID payload sel)
                = Some (''process '' @ processID @ '' exited during write''))
        \<and> ((\<forall>tw err. w = Some (tw, err) \<longrightarrow> stdinTimeout < tw)
              \<and> (\<forall>td. d = Some td \<longrightarrow> stdinTimeout < td) \<longrightarrow>
              fst (writeStdin pt processID payload sel)
                = Some (''stdin write timeout for process '' @ processID))
        \<and> (\<forall>tw err. w = Some (tw, err) \<and> tw < stdinTimeout \<and> (\<forall>td. d = Some td \<longrightarrow> tw < td) \<longrightarrow>
              fst (writeStdin pt processID payload sel) = err)"
    if h: "lookup pt processID = Some lp" "\<not> done_closed lp" "sel \<in> set (select_ready w d)"
  proof (intro conjI allI impI)
    show "snd (writeStdin pt processID payload sel)
          = [mu_Lock, stdin_Write (remapStdin lp payload), mu_Unlock]"
      by (simp add: writeStdin_started [OF h(1,2)])
  next
    fix td
    assume "d = Some td \<and> td < stdinTimeout \<and> (\<forall>tw err. w = Some (tw, err) \<longrightarrow> td < tw)"
    then have "sel = DoneClosed"
      using select_done_first [of sel w td] h(3) by blast
    then show "fst (writeStdin pt processID payload sel)
                = Some (''process '' @ processID @ '' exited during write'')"
      by (simp add: writeStdin_started [OF h(1,2)])
  next
    assume "(\<forall>tw err. w = Some (tw, err) \<longrightarrow> stdinTimeout < tw)
              \<and> (\<forall>td. d = Some td \<longrightarrow> stdinTimeout < td)"
    then have "sel = TimerFired"
      using select_timer_first [of sel w d] h(3) by blast
    then show "fst (writeStdin pt processID payload sel)
                = Some (''stdin write timeout for process '' @ processID)"
      by (simp add: writeStdin_started [OF h(1,2)])
  next
    fix tw err
    assume "w = Some (tw, err) \<and> tw < stdinTimeout \<and> (\<forall>td. d = Some td \<longrightarrow> tw < td)"
    then have "sel = WriteResult err"
      using select_write_first [of sel tw err d] h(3) by blast
    then show "fst (writeStdin pt processID payload sel) = err"
      by (simp add: writeStdin_started [OF h(1,2)])
  qed
  show ?thesis
    apply (rule conjI, rule t)
    apply (rule conjI, rule impI, erule a)
    apply (rule conjI, rule impI, elim conjE, erule (1) b)
    apply (rule impI, elim conjE, rule c; assumption)
    done
qed

text \<open>
  Claim C6: the theorem on the tracker \<open>demo_tracker\<close>, for an unknown id, for the
  process after its exit, and for the running process with the latch set after 3000 ns,
  with a write that takes 20 s, and with a write that succeeds after 5000 ns.
\<close>

theorem writeStdin_results_witness:
  "writeStdin demo_tracker ''q'' ''hello'' TimerFired = (Some ''process q not found'', [])
   \<and> writeStdin (snd (waitExit demo_tracker ''p'' 0 WaitOk)) ''p'' ''hello'' TimerFired
       = (Some ''process p has exited'', [])
   \<and> writeStdin demo_tracker ''p'' ''hello'' DoneClosed
       = (Some ''process p exited during write'', [mu_Lock, stdin_Write ''hello'', mu_Unlock])
   \<and> writeStdin demo_tracker ''p'' ''hello'' TimerFired
       = (Some ''stdin write timeout for process p'', [mu_Lock, stdin_Write ''hello'', mu_Unlock])
   \<and> writeStdin demo_tracker ''p'' ''hello'' (WriteResult None)
       = (None, [mu_Lock, stdin_Write ''hello'', mu_Unlock])"
proof -
  have l: "lookup demo_tracker ''p'' = Some demo_lp" "\<not> done_closed demo_lp"
    "lookup demo_tracker ''q'' = None"
    by (simp_all add: lookup_def demo_tracker_def demo_lp_def)
  have x: "lookup (snd (waitExit demo_tracker ''p'' 0 WaitOk)) ''p''
      = Some (demo_lp\<lparr>done_closed := True\<rparr>)"
    by (simp add: lookup_def waitExit_def demo_tracker_def)
  have r1: "ReplaceAll ''hello'' ''/sessions/s'' ''/home/u/s'' = ''hello''"
    "ReplaceAll ''hello'' ''/home/u/s/mnt/w'' ''/work'' = ''hello''"
    by (simp_all add: ReplaceAll_def replace_from.simps)
  have r2: "stripSkillPrefix ''hello'' = ''hello''"
    by (simp add: stripSkillPrefix_def Contains_def skillMarker_def sublist_code(3))
  have r: "remapStdin demo_lp ''hello'' = ''hello''"
    by (simp add: remapStdin_def demo_lp_def r1 r2)
  have s: "select_ready None (Some 3000) = [DoneClosed]"
    "select_ready (Some (20000000000, None)) None = [TimerFired]"
    "select_ready (Some (5000, None)) None = [WriteResult None]"
    by (simp_all add: select_ready_def stdinTimeout_def Second_def)
  have t: "(3000 :: nat) < stdinTimeout" "stdinTimeout < 20000000000" "(5000 :: nat) < stdinTimeout"
    by (simp_all add: stdinTimeout_def Second_def)
  have a: "writeStdin demo_tracker ''q'' ''hello'' TimerFired = (Some ''process q not found'', [])"
    using writeStdin_results [of demo_tracker "''q''" "''hello''" TimerFired demo_lp None None] l(3)
    by simp
  have b: "writeStdin (snd (waitExit demo_tracker ''p'' 0 WaitOk)) ''p'' ''hello'' TimerFired
       = (Some ''process p has exited'', [])"
    using writeStdin_results [of "snd (waitExit demo_tracker ''p'' 0 WaitOk)" "''p''" "''hello''"
        TimerFired "demo_lp\<lparr>done_closed := True\<rparr>" None None] x
    by simp
  have c: "writeStdin demo_tracker ''p'' ''hello'' DoneClosed
       = (Some ''process p exited during write'', [mu_Lock, stdin_Write ''hello'', mu_Unlock])"
    using writeStdin_results [of demo_tracker "''p''" "''hello''" DoneClosed demo_lp None "Some 3000"]
      l(1,2) s(1) t(1)
    by (simp add: r prod_eq_iff)
  have d: "writeStdin demo_tracker ''p'' ''hello'' TimerFired
       = (Some ''stdin write timeout for process p'', [mu_Lock, stdin_Write ''hello'', mu_Unlock])"
    using writeStdin_results [of demo_tracker "''p''" "''hello''" TimerFired demo_lp
        "Some (20000000000, None)" None] l(1,2) s(2) t(2)
    by (simp add: r prod_eq_iff)
  have e: "writeStdin demo_tracker ''p'' ''hello'' (WriteResult None)
       = (None, [mu_Lock, stdin_Write ''hello'', mu_Unlock])"
    using writeStdin_results [of demo_tracker "''p''" "''hello''" "WriteResult None" demo_lp
        "Some (5000, None)" None] l(1,2) s(3) t(3)
    by (simp add: r prod_eq_iff)
  show ?thesis
    using a b c d e by simp
qed

text \<open>
  Claim C6 fails as stated in its last case: the id is known, the latch is not set and
  never fires, the write returns after 5000 ns, long before the timeout, and the call
  still fails, with the error of the write.
\<close>

theorem writeStdin_write_error:
  "lookup demo_tracker ''p'' = Some demo_lp \<and> \<not> done_closed demo_lp
   \<and> select_ready (Some (5000, Some ''write |1: broken pipe'')) None
       = [WriteResult (Some ''write |1: broken pipe'')]
   \<and> writeStdin demo_tracker ''p'' ''hello'' (WriteResult (Some ''write |1: broken pipe''))
       = (Some ''write |1: broken pipe'', [mu_Lock, stdin_Write ''hello'', mu_Unlock])"
proof -
  have l: "lookup demo_tracker ''p'' = Some demo_lp" "\<not> done_closed demo_lp"
    by (simp_all add: lookup_def demo_tracker_def demo_lp_def)
  have s: "select_ready (Some (5000, Some ''write |1: broken pipe'')) None
       = [WriteResult (Some ''write |1: broken pipe'')]"
    by (simp add: select_ready_def stdinTimeout_def Second_def)
  have r1: "ReplaceAll ''hello'' ''/sessions/s'' ''/home/u/s'' = ''hello''"
    "ReplaceAll ''hello'' ''/home/u/s/mnt/w'' ''/work'' = ''hello''"
    by (simp_all add: ReplaceAll_def replace_from.simps)
  have r2: "stripSkillPrefix ''hello'' = ''hello''"
    by (simp add: stripSkillPrefix_def Contains_def skillMarker_def sublist_code(3))
  have r: "remapStdin demo_lp ''hello'' = ''hello''"
    by (simp add: remapStdin_def demo_lp_def r1 r2)
  show ?thesis
    using l s by (simp add: writeStdin_started [OF l] r)
qed

section \<open>The dispatcher\<close>

lemma replyError_sent:
  "replyError lib c req code message = sent lib c \<lparr>Success = False, Result = None, Error = message\<rparr>"
  by (simp add: replyError_def WriteError_def sent_def)

lemma replyResult_sent:
  "replyResult lib c result = sent lib c \<lparr>Success = True, Result = result, Error = []\<rparr>"
  by (simp add: replyResult_def WriteResponse_def sent_def)

lemma Handle_parse_error:
  "fst (Unmarshal_Request lib payload) = Some err \<Longrightarrow>
     Handle lib b c payload s = (sent lib c \<lparr>Success = False, Result = None, Error = ''Parse error''\<rparr>, s)"
  by (cases "Unmarshal_Request lib payload") (simp add: Handle_def WriteError_def sent_def)

lemma Handle_unknown_method:
  "Unmarshal_Request lib payload = (None, req) \<Longrightarrow> Method req \<notin> set methods \<Longrightarrow>
     Handle lib b c payload s
       = (sent lib c \<lparr>Success = False, Result = None, Error = ''Method not found: '' @ Method req\<rparr>, s)"
  by (simp add: Handle_def methods_def replyError_sent)

lemma Handle_invalid_params:
  assumes "Unmarshal_Request lib payload = (None, req)" "Method req \<in> set strictMethods"
    and "paramsError lib req = Some detail"
  shows "Handle lib b c payload s
       = (sent lib c \<lparr>Success = False, Result = None, Error = ''Invalid params: '' @ detail\<rparr>, s)"
proof -
  from assms(2) consider "Method req = ''configure''" | "Method req = ''createVM''"
    | "Method req = ''startVM''" | "Method req = ''stopVM''" | "Method req = ''spawn''"
    | "Method req = ''kill''" | "Method req = ''writeStdin''" | "Method req = ''isProcessRunning''"
    | "Method req = ''mountPath''" | "Method req = ''readFile''" | "Method req = ''installSdk''"
    | "Method req = ''addApprovedOauthToken''" | "Method req = ''setDebugLogging''"
    by (auto simp add: strictMethods_def)
  then show ?thesis
  proof cases
    case 1
    then show ?thesis
      using assms(1,3)
      by (cases "Unmarshal_configureParams lib (raw (Params req))")
         (simp add: Handle_def paramsError_def handleConfigure_def replyError_sent)
  next
    case 2
    then show ?thesis
      using assms(1,3)
      by (cases "Unmarshal_vmNameParams lib (raw (Params req))")
         (simp add: Handle_def paramsError_def handleCreateVM_def replyError_sent)
  next
    case 3
    then show ?thesis
      using assms(1,3)
      by (cases "Unmarshal_vmNameParams lib (raw (Params req))")
         (simp add: Handle_def paramsError_def handleStartVM_def replyError_sent)
  next
    case 4
    then show ?thesis
      using assms(1,3)
      by (cases "Unmarshal_vmNameParams lib (raw (Params req))")
         (simp add: Handle_def paramsError_def handleStopVM_def replyError_sent)
  next
    case 5
    then show ?thesis
      using assms(1,3)
      by (cases "Unmarshal_spawnParams lib (raw (Params req))")
         (simp add: Handle_def paramsError_def handleSpawn_def replyError_sent)
  next
    case 6
    then show ?thesis
      using assms(1,3)
      by (cases "Unmarshal_processIDParams lib (raw (Params req))")
         (simp add: Handle_def paramsError_def handleKill_def replyError_sent)
  next
    case 7
    then show ?thesis
      using assms(1,3)
      by (cases "Unmarshal_writeStdinParams lib (raw (Params req))")
         (simp add: Handle_def paramsError_def handleWriteStdin_def replyError_sent)
  next
    case 8
    then show ?thesis
      using assms(1,3)
      by (cases "Unmarshal_processIDParams lib (raw (Params req))")
         (simp add: Handle_def paramsError_def handleIsProcessRunning_def replyError_sent)
  next
    case 9
    then show ?thesis
      using assms(1,3)
      by (cases "Unmarshal_mountPathParams lib (raw (Params req))")
         (simp add: Handle_def paramsError_def handleMountPath_def replyError_sent)
  next
    case 10
    then show ?thesis
      using assms(1,3)
      by (cases "Unmarshal_readFileParams lib (raw (Params req))")
         (simp add: Handle_def paramsError_def handleReadFile_def replyError_sent)
  next
    case 11
    then show ?thesis
      using assms(1,3)
      by (cases "Unmarshal_vmNameParams lib (raw (Params req))")
         (simp add: Handle_def paramsError_def handleInstallSdk_def replyError_sent)
  next
    case 12
    then show ?thesis
      using assms(1,3)
      by (cases "Unmarshal_oauthTokenParams lib (raw (Params req))")
         (simp add: Handle_def paramsError_def handleAddApprovedOauthToken_def replyError_sent)
  next
    case 13
    then show ?thesis
      using assms(1,3)
      by (cases "Unmarshal_debugLoggingParams lib (raw (Params req))")
         (simp add: Handle_def paramsError_def handleSetDebugLogging_def replyError_sent)
  qed
qed

lemma Handle_isRunning:
  "Unmarshal_Request lib payload = (None, req) \<Longrightarrow> Method req = ''isRunning'' \<Longrightarrow>
     Handle lib b c payload s =
       (case IsRunning b (Name (optionalName lib req)) s of
          ((running, Some err), s1) \<Rightarrow>
            (sent lib c \<lparr>Success = False, Result = None, Error = err\<rparr>, s1)
        | ((running, None), s1) \<Rightarrow>
            (sent lib c \<lparr>Success = True, Result = Some (JObject [(''running'', JBool running)]),
                         Error = []\<rparr>, s1))"
  by (simp add: Handle_def handleIsRunning_def replyError_sent replyResult_sent
      split: prod.splits option.splits)

lemma Handle_isGuestConnected:
  "Unmarshal_Request lib payload = (None, req) \<Longrightarrow> Method req = ''isGuestConnected'' \<Longrightarrow>
     Handle lib b c payload s =
       (case IsGuestConnected b (Name (optionalName lib req)) s of
          ((connected, Some err), s1) \<Rightarrow>
            (sent lib c \<lparr>Success = False, Result = None, Error = err\<rparr>, s1)
        | ((connected, None), s1) \<Rightarrow>
            (sent lib c \<lparr>Success = True, Result = Some (JObject [(''connected'', JBool connected)]),
                         Error = []\<rparr>, s1))"
  by (simp add: Handle_def handleIsGuestConnected_def replyError_sent replyResult_sent
      split: prod.splits option.splits)

lemma Handle_subscribeEvents:
  "Unmarshal_Request lib payload = (None, req) \<Longrightarrow> Method req = ''subscribeEvents'' \<Longrightarrow>
     Handle lib b c payload s =
       (case SubscribeEvents b (Name (optionalName lib req)) s of
          ((cancel, Some err), s1) \<Rightarrow>
            (sent lib c \<lparr>Success = False, Result = None, Error = err\<rparr>, s1)
        | ((cancel, None), s1) \<Rightarrow>
            ((sent lib c \<lparr>Success = True, Result = Some (JObject [(''subscribed'', JBool True)]),
                          Error = []\<rparr>)
               \<lparr>incoming := readUntilError (incoming c)\<rparr>, cancel s1))"
  by (simp add: Handle_def handleSubscribeEvents_def replyError_sent replyResult_sent sent_def
      WriteMessage_def conn_Write_def Let_def
      split: prod.splits option.splits)

lemma Handle_getDownloadStatus:
  "Unmarshal_Request lib payload = (None, req) \<Longrightarrow> Method req = ''getDownloadStatus'' \<Longrightarrow>
     Handle lib b c payload s =
       (sent lib c \<lparr>Success = True,
                    Result = Some (JObject [(''status'', JString (GetDownloadStatus b s))]),
                    Error = []\<rparr>, s)"
  by (simp add: Handle_def handleGetDownloadStatus_def replyResult_sent)

text \<open>
  Claim C1, as the code has it. A payload that does not decode as a request is
  answered with the failure \<open>Parse error\<close>, a JSON object with the members \<open>success\<close> and
  \<open>error\<close> only. A request whose method is none of the seventeen is answered with
  \<open>Method not found: <m>\<close>. For the thirteen operations of \<open>strictMethods\<close>, params that
  fail to decode into the operation's parameter shape are answered with
  \<open>Invalid params: <detail>\<close>, and the backend is not called. \<open>isRunning\<close>,
  \<open>isGuestConnected\<close> and \<open>subscribeEvents\<close> drop the decoding error: the backend is
  called with the name that decoding left in the struct, and the reply is the one for
  that call. \<open>getDownloadStatus\<close> does not decode params.
\<close>

theorem Handle_error_replies:
  "(fst (Unmarshal_Request lib payload) \<noteq> None \<longrightarrow>
      Handle lib b c payload s
        = (sent lib c \<lparr>Success = False, Result = None, Error = ''Parse error''\<rparr>, s))
   \<and> Response_json \<lparr>Success = False, Result = None, Error = ''Parse error''\<rparr>
        = JObject [(''success'', JBool False), (''error'', JString ''Parse error'')]
   \<and> (Unmarshal_Request lib payload = (None, req) \<and> Method req \<notin> set methods \<longrightarrow>
        Handle lib b c payload s
          = (sent lib c \<lparr>Success = False, Result = None,
                         Error = ''Method not found: '' @ Method req\<rparr>, s))
   \<and> (Unmarshal_Request lib payload = (None, req) \<and> Method req \<in> set strictMethods
        \<and> paramsError lib req = Some detail \<longrightarrow>
        Handle lib b c payload s
          = (sent lib c \<lparr>Success = False, Result = None,
                         Error = ''Invalid params: '' @ detail\<rparr>, s))
   \<and> (Unmarshal_Request lib payload = (None, req) \<and> Method req = ''isRunning'' \<longrightarrow>
        Handle lib b c payload s =
          (case IsRunning b (Name (optionalName lib req)) s of
             ((running, Some err), s1) \<Rightarrow>
               (sent lib c \<lparr>Success = False, Result = None, Error = err\<rparr>, s1)
           | ((running, None), s1) \<Rightarrow>
               (sent lib c \<lparr>Success = True, Result = Some (JObject [(''running'', JBool running)]),
                            Error = []\<rparr>, s1)))
   \<and> (Unmarshal_Request lib payload = (None, req) \<and> Method req = ''isGuestConnected'' \<longrightarrow>
        Handle lib b c payload s =
          (case IsGuestConnected b (Name (optionalName lib req)) s of
             ((connected, Some err), s1) \<Rightarrow>
               (sent lib c \<lparr>Success = False, Result = None, Error = err\<rparr>, s1)
           | ((connected, None), s1) \<Rightarrow>
               (sent lib c \<lparr>Success = True,
                            Result = Some (JObject [(''connected'', JBool connected)]),
                            Error = []\<rparr>, s1)))
   \<and> (Unmarshal_Request lib payload = (None, req) \<and> Method req = ''subscribeEvents'' \<longrightarrow>
        Handle lib b c payload s =
          (case SubscribeEvents b (Name (optionalName lib req)) s of
             ((cancel, Some err), s1) \<Rightarrow>
               (sent lib c \<lparr>Success = False, Result = None, Error = err\<rparr>, s1)
           | ((cancel, None), s1) \<Rightarrow>
               ((sent lib c \<lparr>Success = True,
                             Result = Some (JObject [(''subscribed'', JBool True)]),
                             Error = []\<rparr>)
                  \<lparr>incoming := readUntilError (incoming c)\<rparr>, cancel s1)))
   \<and> (Unmarshal_Request lib payload = (None, req) \<and> Method req = ''getDownloadStatus'' \<longrightarrow>
        Handle lib b c payload s =
          (sent lib c \<lparr>Success = True,
                       Result = Some (JObject [(''status'', JString (GetDownloadStatus b s))]),
                       Error = []\<rparr>, s))
   \<and> length methods = 17
   \<and> set methods = set strictMethods
        \<union> set [''isRunning'', ''isGuestConnected'', ''subscribeEvents'', ''getDownloadStatus'']"
proof -
  have pe: "Handle lib b c payload s
        = (sent lib c \<lparr>Success = False, Result = None, Error = ''Parse error''\<rparr>, s)"
    if "fst (Unmarshal_Request lib payload) \<noteq> None"
    using that Handle_parse_error [of lib payload _ b c s] by auto
  have rj: "Response_json \<lparr>Success = False, Result = None, Error = ''Parse error''\<rparr>
        = JObject [(''success'', JBool False), (''error'', JString ''Parse error'')]"
    by (simp add: Response_json_def)
  have m: "length methods = 17" "set methods = set strictMethods
        \<union> set [''isRunning'', ''isGuestConnected'', ''subscribeEvents'', ''getDownloadStatus'']"
    by (auto simp add: methods_def strictMethods_def)
  show ?thesis
    apply (intro conjI impI)
    subgoal by (rule pe)
    subgoal by (rule rj)
    subgoal by (elim conjE, erule (1) Handle_unknown_method)
    subgoal by (elim conjE, erule (2) Handle_invalid_params)
    subgoal by (elim conjE, erule (1) Handle_isRunning)
    subgoal by (elim conjE, erule (1) Handle_isGuestConnected)
    subgoal by (elim conjE, erule (1) Handle_subscribeEvents)
    subgoal by (elim conjE, erule (1) Handle_getDownloadStatus)
    subgoal by (rule m(1))
    subgoal by (rule m(2))
    done
qed

text \<open>
  Claim C1: the theorem for an empty payload, for the method \<open>frobnicate\<close> and for a
  \<open>kill\<close> request whose params are a JSON string.
\<close>

lemma demo_distinct:
  "demo_configure \<noteq> demo_isRunning" "demo_kill \<noteq> demo_isRunning" "demo_kill \<noteq> demo_configure"
  "demo_frobnicate \<noteq> demo_isRunning" "demo_frobnicate \<noteq> demo_configure"
  "demo_frobnicate \<noteq> demo_kill" "[] \<noteq> demo_isRunning" "[] \<noteq> demo_configure" "[] \<noteq> demo_kill"
  "[] \<noteq> demo_frobnicate" "demo_kill_p \<noteq> demo_isRunning" "demo_kill_p \<noteq> demo_configure"
  "demo_kill_p \<noteq> demo_kill" "demo_frobnicate \<noteq> demo_kill_p" "[] \<noteq> demo_kill_p"
  by (simp_all add: demo_configure_def demo_isRunning_def demo_kill_def demo_frobnicate_def
      demo_kill_p_def to_bytes_of_def)

lemma sent_fresh:
  "sent demo_json fresh_conn resp
     = fresh_conn\<lparr>written := [frame (to_bytes_of (render (Response_json resp)))], accepts := 999\<rparr>"
  by (simp add: sent_def WriteMessage_def conn_Write_def fresh_conn_def demo_json_def)

lemma demo_requests:
  "Unmarshal_Request demo_json [] = (Some ''invalid character'', \<lparr>Method = [], Params = None, ID = None\<rparr>)"
  "Unmarshal_Request demo_json demo_frobnicate = (None, \<lparr>Method = ''frobnicate'', Params = None, ID = None\<rparr>)"
  \<open>Unmarshal_Request demo_json demo_kill = (None, \<lparr>Method = ''kill'', Params = Some (to_bytes_of ''"x"''), ID = None\<rparr>)\<close>
  \<open>Unmarshal_Request demo_json demo_isRunning = (None, \<lparr>Method = ''isRunning'', Params = Some (to_bytes_of ''"x"''), ID = None\<rparr>)\<close>
  using demo_distinct by (simp_all add: demo_json_def)

theorem Handle_error_replies_witness:
  \<open>Handle demo_json demo_backend fresh_conn [] ()
     = (fresh_conn\<lparr>written := [frame (to_bytes_of ''{"success":false,"error":"Parse error"}'')],
                   accepts := 999\<rparr>, ())
   \<and> Handle demo_json demo_backend fresh_conn demo_frobnicate ()
     = (fresh_conn\<lparr>written := [frame (to_bytes_of
           ''{"success":false,"error":"Method not found: frobnicate"}'')], accepts := 999\<rparr>, ())
   \<and> Handle demo_json demo_backend fresh_conn demo_kill ()
     = (fresh_conn\<lparr>written := [frame (to_bytes_of
           ''{"success":false,"error":"Invalid params: json: cannot unmarshal string into Go value of type pipe.processIDParams"}'')],
         accepts := 999\<rparr>, ())\<close>
proof -
  have k: \<open>paramsError demo_json \<lparr>Method = ''kill'', Params = Some (to_bytes_of ''"x"''), ID = None\<rparr>
       = Some ''json: cannot unmarshal string into Go value of type pipe.processIDParams''\<close>
    by (simp add: paramsError_def raw_def demo_json_def to_bytes_of_def)
  have a: \<open>Handle demo_json demo_backend fresh_conn [] ()
     = (fresh_conn\<lparr>written := [frame (to_bytes_of ''{"success":false,"error":"Parse error"}'')],
                   accepts := 999\<rparr>, ())\<close>
    using Handle_error_replies [of demo_json "[]" demo_backend fresh_conn "()"]
    by (simp add: demo_requests(1) sent_fresh Response_json_def)
  have b: \<open>Handle demo_json demo_backend fresh_conn demo_frobnicate ()
     = (fresh_conn\<lparr>written := [frame (to_bytes_of
           ''{"success":false,"error":"Method not found: frobnicate"}'')], accepts := 999\<rparr>, ())\<close>
    using Handle_error_replies [of demo_json demo_frobnicate demo_backend fresh_conn "()"
        "\<lparr>Method = ''frobnicate'', Params = None, ID = None\<rparr>"]
    by (simp add: demo_requests(2) sent_fresh Response_json_def methods_def)
  have c: \<open>Handle demo_json demo_backend fresh_conn demo_kill ()
     = (fresh_conn\<lparr>written := [frame (to_bytes_of
           ''{"success":false,"error":"Invalid params: json: cannot unmarshal string into Go value of type pipe.processIDParams"}'')],
         accepts := 999\<rparr>, ())\<close>
    using Handle_error_replies [of demo_json demo_kill demo_backend fresh_conn "()"
        \<open>\<lparr>Method = ''kill'', Params = Some (to_bytes_of ''"x"''), ID = None\<rparr>\<close>
        "''json: cannot unmarshal string into Go value of type pipe.processIDParams''"] k
    by (simp add: demo_requests(3) sent_fresh Response_json_def strictMethods_def)
  show ?thesis
    using a b c by simp
qed

text \<open>
  Claim C1 fails as stated for \<open>isRunning\<close>: the params of the request
  \<^verbatim>\<open>{"method":"isRunning","params":"x"}\<close> do not decode into the parameter shape, and the
  reply is a success.
\<close>

theorem Handle_isRunning_ignores_decode_error:
  \<open>fst (Unmarshal_Request demo_json demo_isRunning) = None
   \<and> Method (snd (Unmarshal_Request demo_json demo_isRunning)) = ''isRunning''
   \<and> paramsError demo_json (snd (Unmarshal_Request demo_json demo_isRunning))
       = Some ''json: cannot unmarshal string into Go value of type pipe.vmNameParams''
   \<and> Handle demo_json demo_backend fresh_conn demo_isRunning ()
       = (fresh_conn\<lparr>written := [frame (to_bytes_of ''{"success":true,"result":{"running":false}}'')],
                     accepts := 999\<rparr>, ())\<close>
proof -
  have p: \<open>paramsError demo_json \<lparr>Method = ''isRunning'', Params = Some (to_bytes_of ''"x"''), ID = None\<rparr>
       = Some ''json: cannot unmarshal string into Go value of type pipe.vmNameParams''\<close>
    by (simp add: paramsError_def raw_def demo_json_def)
  have h: \<open>Handle demo_json demo_backend fresh_conn demo_isRunning ()
       = (fresh_conn\<lparr>written := [frame (to_bytes_of ''{"success":true,"result":{"running":false}}'')],
                     accepts := 999\<rparr>, ())\<close>
    by (simp add: Handle_isRunning [OF demo_requests(4)] sent_fresh optionalName_def raw_def
        demo_backend_def Response_json_def)
  show ?thesis
    using p h by (simp add: demo_requests)
qed

section \<open>The shape of successful replies\<close>

lemma replied_sent: "replied lib c (sent lib c resp) resp"
  by (simp add: replied_def)

lemma replied_sent_incoming: "replied lib c ((sent lib c resp)\<lparr>incoming := x\<rparr>) resp"
  by (simp add: replied_def)

lemma ok_null: "m \<in> set nullResultMethods \<Longrightarrow>
  successShape m \<lparr>Success = True, Result = None, Error = []\<rparr>"
  by (simp add: successShape_def Response_json_def)

lemma ok_value: "m \<notin> set nullResultMethods \<Longrightarrow> resultShape m v \<Longrightarrow>
  successShape m \<lparr>Success = True, Result = Some v, Error = []\<rparr>"
  by (simp add: successShape_def Response_json_def)

text \<open>What a reply is allowed to be for a method \<open>m\<close>.\<close>

lemma reply_error:
  "\<exists>resp. replied lib c (replyError lib c req code message) resp
      \<and> (Success resp \<longrightarrow> successShape m resp) \<and> (\<not> Success resp \<longrightarrow> Result resp = None)"
  by (rule exI [of _ "\<lparr>Success = False, Result = None, Error = message\<rparr>"])
     (simp add: replyError_sent replied_sent)

lemma reply_null:
  "m \<in> set nullResultMethods \<Longrightarrow>
   \<exists>resp. replied lib c (replyResult lib c None) resp
      \<and> (Success resp \<longrightarrow> successShape m resp) \<and> (\<not> Success resp \<longrightarrow> Result resp = None)"
  by (rule exI [of _ "\<lparr>Success = True, Result = None, Error = []\<rparr>"])
     (simp add: replyResult_sent replied_sent ok_null)

lemma reply_value:
  "m \<notin> set nullResultMethods \<Longrightarrow> resultShape m v \<Longrightarrow>
   \<exists>resp. replied lib c ((replyResult lib c (Some v))\<lparr>incoming := x\<rparr>) resp
      \<and> (Success resp \<longrightarrow> successShape m resp) \<and> (\<not> Success resp \<longrightarrow> Result resp = None)"
  by (rule exI [of _ "\<lparr>Success = True, Result = Some v, Error = []\<rparr>"])
     (simp add: replyResult_sent replied_sent_incoming ok_value)

lemma reply_value':
  "m \<notin> set nullResultMethods \<Longrightarrow> resultShape m v \<Longrightarrow>
   \<exists>resp. replied lib c (replyResult lib c (Some v)) resp
      \<and> (Success resp \<longrightarrow> successShape m resp) \<and> (\<not> Success resp \<longrightarrow> Result resp = None)"
  by (rule exI [of _ "\<lparr>Success = True, Result = Some v, Error = []\<rparr>"])
     (simp add: replyResult_sent replied_sent ok_value)

lemma shape_handleConfigure:
  "\<exists>resp. replied lib c (fst (handleConfigure lib b c req s)) resp
      \<and> (Success resp \<longrightarrow> successShape ''configure'' resp) \<and> (\<not> Success resp \<longrightarrow> Result resp = None)"
  using reply_error [of lib c req _ _ "''configure''"] reply_null [of "''configure''" lib c]
  by (simp add: handleConfigure_def nullResultMethods_def split: prod.splits option.splits)

lemma shape_handleCreateVM:
  "\<exists>resp. replied lib c (fst (handleCreateVM lib b c req s)) resp
      \<and> (Success resp \<longrightarrow> successShape ''createVM'' resp) \<and> (\<not> Success resp \<longrightarrow> Result resp = None)"
  using reply_error [of lib c req _ _ "''createVM''"] reply_null [of "''createVM''" lib c]
  by (simp add: handleCreateVM_def nullResultMethods_def split: prod.splits option.splits)

lemma shape_handleStartVM:
  "\<exists>resp. replied lib c (fst (handleStartVM lib b c req s)) resp
      \<and> (Success resp \<longrightarrow> successShape ''startVM'' resp) \<and> (\<not> Success resp \<longrightarrow> Result resp = None)"
  using reply_error [of lib c req _ _ "''startVM''"] reply_null [of "''startVM''" lib c]
  by (simp add: handleStartVM_def nullResultMethods_def split: prod.splits option.splits)

lemma shape_handleStopVM:
  "\<exists>resp. replied lib c (fst (handleStopVM lib b c req s)) resp
      \<and> (Success resp \<longrightarrow> successShape ''stopVM'' resp) \<and> (\<not> Success resp \<longrightarrow> Result resp = None)"
  using reply_error [of lib c req _ _ "''stopVM''"] reply_null [of "''stopVM''" lib c]
  by (simp add: handleStopVM_def nullResultMethods_def split: prod.splits option.splits)

lemma shape_handleKill:
  "\<exists>resp. replied lib c (fst (handleKill lib b c req s)) resp
      \<and> (Success resp \<longrightarrow> successShape ''kill'' resp) \<and> (\<not> Success resp \<longrightarrow> Result resp = None)"
  using reply_error [of lib c req _ _ "''kill''"] reply_null [of "''kill''" lib c]
  by (simp add: handleKill_def nullResultMethods_def split: prod.splits option.splits)

lemma shape_handleWriteStdin:
  "\<exists>resp. replied lib c (fst (handleWriteStdin lib b c req s)) resp
      \<and> (Success resp \<longrightarrow> successShape ''writeStdin'' resp) \<and> (\<not> Success resp \<longrightarrow> Result resp = None)"
  using reply_error [of lib c req _ _ "''writeStdin''"] reply_null [of "''writeStdin''" lib c]
  by (simp add: handleWriteStdin_def nullResultMethods_def split: prod.splits option.splits)

lemma shape_handleMountPath:
  "\<exists>resp. replied lib c (fst (handleMountPath lib b c req s)) resp
      \<and> (Success resp \<longrightarrow> successShape ''mountPath'' resp) \<and> (\<not> Success resp \<longrightarrow> Result resp = None)"
  using reply_error [of lib c req _ _ "''mountPath''"] reply_null [of "''mountPath''" lib c]
  by (simp add: handleMountPath_def nullResultMethods_def split: prod.splits option.splits)

lemma shape_handleInstallSdk:
  "\<exists>resp. replied lib c (fst (handleInstallSdk lib b c req s)) resp
      \<and> (Success resp \<longrightarrow> successShape ''installSdk'' resp) \<and> (\<not> Success resp \<longrightarrow> Result resp = None)"
  using reply_error [of lib c req _ _ "''installSdk''"] reply_null [of "''installSdk''" lib c]
  by (simp add: handleInstallSdk_def nullResultMethods_def split: prod.splits option.splits)

lemma shape_handleAddApprovedOauthToken:
  "\<exists>resp. replied lib c (fst (handleAddApprovedOauthToken lib b c req s)) resp
      \<and> (Success resp \<longrightarrow> successShape ''addApprovedOauthToken'' resp) \<and> (\<not> Success resp \<longrightarrow> Result resp = None)"
  using reply_error [of lib c req _ _ "''addApprovedOauthToken''"] reply_null [of "''addApprovedOauthToken''" lib c]
  by (simp add: handleAddApprovedOauthToken_def nullResultMethods_def split: prod.splits option.splits)

lemma shape_handleSetDebugLogging:
  "\<exists>resp. replied lib c (fst (handleSetDebugLogging lib b c req s)) resp
      \<and> (Success resp \<longrightarrow> successShape ''setDebugLogging'' resp) \<and> (\<not> Success resp \<longrightarrow> Result resp = None)"
  using reply_error [of lib c req _ _ "''setDebugLogging''"] reply_null [of "''setDebugLogging''" lib c]
  by (simp add: handleSetDebugLogging_def nullResultMethods_def split: prod.splits option.splits)

lemma shape_handleIsRunning:
  "\<exists>resp. replied lib c (fst (handleIsRunning lib b c req s)) resp
      \<and> (Success resp \<longrightarrow> successShape ''isRunning'' resp) \<and> (\<not> Success resp \<longrightarrow> Result resp = None)"
  using reply_error [of lib c req _ _ "''isRunning''"] reply_value' [of "''isRunning''" _ lib c]
  by (simp add: handleIsRunning_def nullResultMethods_def Let_def split: prod.splits option.splits)

lemma shape_handleIsGuestConnected:
  "\<exists>resp. replied lib c (fst (handleIsGuestConnected lib b c req s)) resp
      \<and> (Success resp \<longrightarrow> successShape ''isGuestConnected'' resp) \<and> (\<not> Success resp \<longrightarrow> Result resp = None)"
  using reply_error [of lib c req _ _ "''isGuestConnected''"] reply_value' [of "''isGuestConnected''" _ lib c]
  by (simp add: handleIsGuestConnected_def nullResultMethods_def Let_def split: prod.splits option.splits)

lemma shape_handleSpawn:
  "\<exists>resp. replied lib c (fst (handleSpawn lib b c req s)) resp
      \<and> (Success resp \<longrightarrow> successShape ''spawn'' resp) \<and> (\<not> Success resp \<longrightarrow> Result resp = None)"
  using reply_error [of lib c req _ _ "''spawn''"] reply_value' [of "''spawn''" _ lib c]
  by (simp add: handleSpawn_def nullResultMethods_def Let_def split: prod.splits option.splits)

lemma shape_handleIsProcessRunning:
  "\<exists>resp. replied lib c (fst (handleIsProcessRunning lib b c req s)) resp
      \<and> (Success resp \<longrightarrow> successShape ''isProcessRunning'' resp) \<and> (\<not> Success resp \<longrightarrow> Result resp = None)"
  using reply_error [of lib c req _ _ "''isProcessRunning''"] reply_value' [of "''isProcessRunning''" _ lib c]
  by (simp add: handleIsProcessRunning_def nullResultMethods_def Let_def split: prod.splits option.splits)

lemma shape_handleReadFile:
  "\<exists>resp. replied lib c (fst (handleReadFile lib b c req s)) resp
      \<and> (Success resp \<longrightarrow> successShape ''readFile'' resp) \<and> (\<not> Success resp \<longrightarrow> Result resp = None)"
  using reply_error [of lib c req _ _ "''readFile''"] reply_value' [of "''readFile''" _ lib c]
  by (simp add: handleReadFile_def nullResultMethods_def Let_def split: prod.splits option.splits)

lemma shape_handleGetDownloadStatus:
  "\<exists>resp. replied lib c (fst (handleGetDownloadStatus lib b c req s)) resp
      \<and> (Success resp \<longrightarrow> successShape ''getDownloadStatus'' resp) \<and> (\<not> Success resp \<longrightarrow> Result resp = None)"
  using reply_error [of lib c req _ _ "''getDownloadStatus''"] reply_value' [of "''getDownloadStatus''" _ lib c]
  by (simp add: handleGetDownloadStatus_def nullResultMethods_def Let_def split: prod.splits option.splits)

lemma shape_handleSubscribeEvents:
  "\<exists>resp. replied lib c (fst (handleSubscribeEvents lib b c req s)) resp
      \<and> (Success resp \<longrightarrow> successShape ''subscribeEvents'' resp)
      \<and> (\<not> Success resp \<longrightarrow> Result resp = None)"
  using reply_error [of lib c req _ _ "''subscribeEvents''"]
    reply_value [of "''subscribeEvents''" "JObject [(''subscribed'', JBool True)]" lib c]
  by (simp add: handleSubscribeEvents_def nullResultMethods_def Let_def
      split: prod.splits option.splits)

lemma Handle_reply_shape:
  assumes "Unmarshal_Request lib payload = (None, req)" "Method req \<in> set methods"
  shows "\<exists>resp. replied lib c (fst (Handle lib b c payload s)) resp
      \<and> (Success resp \<longrightarrow> successShape (Method req) resp)
      \<and> (\<not> Success resp \<longrightarrow> Result resp = None)"
proof -
  from assms(2) consider "Method req = ''configure''" | "Method req = ''createVM''" | "Method req = ''startVM''" | "Method req = ''stopVM''" | "Method req = ''isRunning''" | "Method req = ''isGuestConnected''" | "Method req = ''spawn''" | "Method req = ''kill''" | "Method req = ''writeStdin''" | "Method req = ''isProcessRunning''" | "Method req = ''mountPath''" | "Method req = ''readFile''" | "Method req = ''installSdk''" | "Method req = ''addApprovedOauthToken''" | "Method req = ''setDebugLogging''" | "Method req = ''subscribeEvents''" | "Method req = ''getDownloadStatus''"
    by (auto simp add: methods_def)
  then show ?thesis
  proof cases
    case 1
    then show ?thesis
      using shape_handleConfigure [of lib c b req s] assms(1) by (simp add: Handle_def)
  next
    case 2
    then show ?thesis
      using shape_handleCreateVM [of lib c b req s] assms(1) by (simp add: Handle_def)
  next
    case 3
    then show ?thesis
      using shape_handleStartVM [of lib c b req s] assms(1) by (simp add: Handle_def)
  next
    case 4
    then show ?thesis
      using shape_handleStopVM [of lib c b req s] assms(1) by (simp add: Handle_def)
  next
    case 5
    then show ?thesis
      using shape_handleIsRunning [of lib c b req s] assms(1) by (simp add: Handle_def)
  next
    case 6
    then show ?thesis
      using shape_handleIsGuestConnected [of lib c b req s] assms(1) by (simp add: Handle_def)
  next
    case 7
    then show ?thesis
      using shape_handleSpawn [of lib c b req s] assms(1) by (simp add: Handle_def)
  next
    case 8
    then show ?thesis
      using shape_handleKill [of lib c b req s] assms(1) by (simp add: Handle_def)
  next
    case 9
    then show ?thesis
      using shape_handleWriteStdin [of lib c b req s] assms(1) by (simp add: Handle_def)
  next
    case 10
    then show ?thesis
      using shape_handleIsProcessRunning [of lib c b req s] assms(1) by (simp add: Handle_def)
  next
    case 11
    then show ?thesis
      using shape_handleMountPath [of lib c b req s] assms(1) by (simp add: Handle_def)
  next
    case 12
    then show ?thesis
      using shape_handleReadFile [of lib c b req s] assms(1) by (simp add: Handle_def)
  next
    case 13
    then show ?thesis
      using shape_handleInstallSdk [of lib c b req s] assms(1) by (simp add: Handle_def)
  next
    case 14
    then show ?thesis
      using shape_handleAddApprovedOauthToken [of lib c b req s] assms(1) by (simp add: Handle_def)
  next
    case 15
    then show ?thesis
      using shape_handleSetDebugLogging [of lib c b req s] assms(1) by (simp add: Handle_def)
  next
    case 16
    then show ?thesis
      using shape_handleSubscribeEvents [of lib c b req s] assms(1) by (simp add: Handle_def)
  next
    case 17
    then show ?thesis
      using shape_handleGetDownloadStatus [of lib c b req s] assms(1) by (simp add: Handle_def)
  qed
qed

lemma Handle_configure_ok:
  assumes "Unmarshal_Request lib payload = (None, req)"
    and "Method req = ''configure''"
    and "Unmarshal_configureParams lib (raw (Params req)) = (None, pc)"
    and "Configure b (Memory pc) (CPUs pc) s = (None, s1)"
  shows "Handle lib b c payload s = (sent lib c \<lparr>Success = True, Result = None, Error = []\<rparr>, s1)"
  using assms by (simp add: Handle_def handleConfigure_def replyResult_sent)

lemma Handle_createVM_ok:
  assumes "Unmarshal_Request lib payload = (None, req)"
    and "Method req = ''createVM''"
    and "Unmarshal_vmNameParams lib (raw (Params req)) = (None, pn)"
    and "CreateVM b (Name pn) s = (None, s1)"
  shows "Handle lib b c payload s = (sent lib c \<lparr>Success = True, Result = None, Error = []\<rparr>, s1)"
  using assms by (simp add: Handle_def handleCreateVM_def replyResult_sent)

lemma Handle_startVM_ok:
  assumes "Unmarshal_Request lib payload = (None, req)"
    and "Method req = ''startVM''"
    and "Unmarshal_vmNameParams lib (raw (Params req)) = (None, pn)"
    and "StartVM b (Name pn) s = (None, s1)"
  shows "Handle lib b c payload s = (sent lib c \<lparr>Success = True, Result = None, Error = []\<rparr>, s1)"
  using assms by (simp add: Handle_def handleStartVM_def replyResult_sent)

lemma Handle_stopVM_ok:
  assumes "Unmarshal_Request lib payload = (None, req)"
    and "Method req = ''stopVM''"
    and "Unmarshal_vmNameParams lib (raw (Params req)) = (None, pn)"
    and "StopVM b (Name pn) s = (None, s1)"
  shows "Handle lib b c payload s = (sent lib c \<lparr>Success = True, Result = None, Error = []\<rparr>, s1)"
  using assms by (simp add: Handle_def handleStopVM_def replyResult_sent)

lemma Handle_isRunning_ok:
  assumes "Unmarshal_Request lib payload = (None, req)"
    and "Method req = ''isRunning''"
    and "IsRunning b (Name (optionalName lib req)) s = ((running, None), s1)"
  shows "Handle lib b c payload s
          = (sent lib c \<lparr>Success = True, Result = Some (JObject [(''running'', JBool running)]), Error = []\<rparr>, s1)"
  using assms by (simp add: Handle_def handleIsRunning_def replyResult_sent Let_def)

lemma Handle_isGuestConnected_ok:
  assumes "Unmarshal_Request lib payload = (None, req)"
    and "Method req = ''isGuestConnected''"
    and "IsGuestConnected b (Name (optionalName lib req)) s = ((connected, None), s1)"
  shows "Handle lib b c payload s
          = (sent lib c \<lparr>Success = True, Result = Some (JObject [(''connected'', JBool connected)]), Error = []\<rparr>, s1)"
  using assms by (simp add: Handle_def handleIsGuestConnected_def replyResult_sent Let_def)

lemma Handle_spawn_ok:
  assumes "Unmarshal_Request lib payload = (None, req)"
    and "Method req = ''spawn''"
    and "Unmarshal_spawnParams lib (raw (Params req)) = (None, ps)"
    and "Spawn b (sp_Name ps) (sp_ID ps) (sp_Cmd ps) (sp_Args ps) (sp_Env ps) (sp_Cwd ps)
            (map (\<lambda>(mountName, mount). (mountName, mount_Path mount)) (sp_AdditionalMounts ps)) s = ((processID, None), s1)"
  shows "Handle lib b c payload s
          = (sent lib c \<lparr>Success = True, Result = Some (JObject [(''id'', JString processID)]), Error = []\<rparr>, s1)"
  using assms by (simp add: Handle_def handleSpawn_def replyResult_sent Let_def)

lemma Handle_kill_ok:
  assumes "Unmarshal_Request lib payload = (None, req)"
    and "Method req = ''kill''"
    and "Unmarshal_processIDParams lib (raw (Params req)) = (None, pp)"
    and "Kill b (pi_ProcessID pp) s = (None, s1)"
  shows "Handle lib b c payload s = (sent lib c \<lparr>Success = True, Result = None, Error = []\<rparr>, s1)"
  using assms by (simp add: Handle_def handleKill_def replyResult_sent)

lemma Handle_writeStdin_ok:
  assumes "Unmarshal_Request lib payload = (None, req)"
    and "Method req = ''writeStdin''"
    and "Unmarshal_writeStdinParams lib (raw (Params req)) = (None, pw)"
    and "WriteStdin b (ws_ProcessID pw) (ws_Data pw) s = (None, s1)"
  shows "Handle lib b c payload s = (sent lib c \<lparr>Success = True, Result = None, Error = []\<rparr>, s1)"
  using assms by (simp add: Handle_def handleWriteStdin_def replyResult_sent)

lemma Handle_isProcessRunning_ok:
  assumes "Unmarshal_Request lib payload = (None, req)"
    and "Method req = ''isProcessRunning''"
    and "Unmarshal_processIDParams lib (raw (Params req)) = (None, pp)"
    and "IsProcessRunning b (pi_ProcessID pp) s = ((running, None), s1)"
  shows "Handle lib b c payload s
          = (sent lib c \<lparr>Success = True, Result = Some (JObject [(''running'', JBool running)]), Error = []\<rparr>, s1)"
  using assms by (simp add: Handle_def handleIsProcessRunning_def replyResult_sent Let_def)

lemma Handle_mountPath_ok:
  assumes "Unmarshal_Request lib payload = (None, req)"
    and "Method req = ''mountPath''"
    and "Unmarshal_mountPathParams lib (raw (Params req)) = (None, pm)"
    and "MountPath b (mp_Name pm) (HostPath pm) (GuestPath pm) s = (None, s1)"
  shows "Handle lib b c payload s = (sent lib c \<lparr>Success = True, Result = None, Error = []\<rparr>, s1)"
  using assms by (simp add: Handle_def handleMountPath_def replyResult_sent)

lemma Handle_readFile_ok:
  assumes "Unmarshal_Request lib payload = (None, req)"
    and "Method req = ''readFile''"
    and "Unmarshal_readFileParams lib (raw (Params req)) = (None, pr)"
    and "ReadFile b (rf_Name pr) (rf_Path pr) s = ((data, None), s1)"
  shows "Handle lib b c payload s
          = (sent lib c \<lparr>Success = True, Result = Some (JObject [(''data'', JString data)]), Error = []\<rparr>, s1)"
  using assms by (simp add: Handle_def handleReadFile_def replyResult_sent Let_def)

lemma Handle_installSdk_ok:
  assumes "Unmarshal_Request lib payload = (None, req)"
    and "Method req = ''installSdk''"
    and "Unmarshal_vmNameParams lib (raw (Params req)) = (None, pn)"
    and "InstallSdk b (Name pn) s = (None, s1)"
  shows "Handle lib b c payload s = (sent lib c \<lparr>Success = True, Result = None, Error = []\<rparr>, s1)"
  using assms by (simp add: Handle_def handleInstallSdk_def replyResult_sent)

lemma Handle_addApprovedOauthToken_ok:
  assumes "Unmarshal_Request lib payload = (None, req)"
    and "Method req = ''addApprovedOauthToken''"
    and "Unmarshal_oauthTokenParams lib (raw (Params req)) = (None, po)"
    and "AddApprovedOauthToken b (oa_Name po) (Token po) s = (None, s1)"
  shows "Handle lib b c payload s = (sent lib c \<lparr>Success = True, Result = None, Error = []\<rparr>, s1)"
  using assms by (simp add: Handle_def handleAddApprovedOauthToken_def replyResult_sent)

lemma Handle_setDebugLogging_ok:
  assumes "Unmarshal_Request lib payload = (None, req)"
    and "Method req = ''setDebugLogging''"
    and "Unmarshal_debugLoggingParams lib (raw (Params req)) = (None, pd)"
  shows "Handle lib b c payload s = (sent lib c \<lparr>Success = True, Result = None, Error = []\<rparr>, SetDebugLogging b (Enabled pd) s)"
  using assms by (simp add: Handle_def handleSetDebugLogging_def replyResult_sent)

lemma Handle_subscribeEvents_ok:
  assumes "Unmarshal_Request lib payload = (None, req)"
    and "Method req = ''subscribeEvents''"
    and "SubscribeEvents b (Name (optionalName lib req)) s = ((cancel, None), s1)"
  shows "Handle lib b c payload s
          = ((sent lib c \<lparr>Success = True, Result = Some (JObject [(''subscribed'', JBool True)]), Error = []\<rparr>)
               \<lparr>incoming := readUntilError (incoming (sent lib c \<lparr>Success = True, Result = Some (JObject [(''subscribed'', JBool True)]), Error = []\<rparr>))\<rparr>,
             cancel s1)"
  using assms by (simp add: Handle_def handleSubscribeEvents_def replyResult_sent Let_def)

lemma Handle_getDownloadStatus_ok:
  assumes "Unmarshal_Request lib payload = (None, req)"
    and "Method req = ''getDownloadStatus''"
  shows "Handle lib b c payload s
          = (sent lib c \<lparr>Success = True, Result = Some (JObject [(''status'', JString (GetDownloadStatus b s))]), Error = []\<rparr>, s)"
  using assms by (simp add: Handle_def handleGetDownloadStatus_def replyResult_sent)

text \<open>
  Claim C5, as the code has it. Every request for one of the seventeen operations is
  answered with exactly one reply frame; when the reply is a success it has the wire
  shape of the operation, and a failure carries no result. An operation completes
  successfully when its params decode (for the thirteen operations that check this)
  and the backend call returns no error; \<open>setDebugLogging\<close> and \<open>getDownloadStatus\<close> have
  no backend error. Each of the seventeen operations then answers with a response whose
  \<open>success\<close> is true and whose \<open>error\<close> is empty: with a nil result for the ten operations
  whose declared result is null, and with the object of the declared shape, built from
  what the backend returned, for the seven others. A response with a nil result is
  marshalled as the object with the single member \<open>success\<close>, without a \<open>result\<close> member;
  a response with a result as the object with the members \<open>success\<close> and \<open>result\<close>.
\<close>

theorem Handle_success_shape:
  "(Unmarshal_Request lib payload = (None, req) \<and> Method req \<in> set methods \<longrightarrow>
      (\<exists>resp. replied lib c (fst (Handle lib b c payload s)) resp
          \<and> (Success resp \<longrightarrow> successShape (Method req) resp)
          \<and> (\<not> Success resp \<longrightarrow> Result resp = None)))
   \<and> (Unmarshal_Request lib payload = (None, req)
        \<and> Method req = ''configure''
        \<and> Unmarshal_configureParams lib (raw (Params req)) = (None, pc)
        \<and> Configure b (Memory pc) (CPUs pc) s = (None, s1) \<longrightarrow>
        Handle lib b c payload s = (sent lib c \<lparr>Success = True, Result = None, Error = []\<rparr>, s1))
   \<and> (Unmarshal_Request lib payload = (None, req)
        \<and> Method req = ''createVM''
        \<and> Unmarshal_vmNameParams lib (raw (Params req)) = (None, pn)
        \<and> CreateVM b (Name pn) s = (None, s1) \<longrightarrow>
        Handle lib b c payload s = (sent lib c \<lparr>Success = True, Result = None, Error = []\<rparr>, s1))
   \<and> (Unmarshal_Request lib payload = (None, req)
        \<and> Method req = ''startVM''
        \<and> Unmarshal_vmNameParams lib (raw (Params req)) = (None, pn)
        \<and> StartVM b (Name pn) s = (None, s1) \<longrightarrow>
        Handle lib b c payload s = (sent lib c \<lparr>Success = True, Result = None, Error = []\<rparr>, s1))
   \<and> (Unmarshal_Request lib payload = (None, req)
        \<and> Method req = ''stopVM''
        \<and> Unmarshal_vmNameParams lib (raw (Params req)) = (None, pn)
        \<and> StopVM b (Name pn) s = (None, s1) \<longrightarrow>
        Handle lib b c payload s = (sent lib c \<lparr>Success = True, Result = None, Error = []\<rparr>, s1))
   \<and> (Unmarshal_Request lib payload = (None, req)
        \<and> Method req = ''isRunning''
        \<and> IsRunning b (Name (optionalName lib req)) s = ((running, None), s1) \<longrightarrow>
        Handle lib b c payload s
          = (sent lib c \<lparr>Success = True, Result = Some (JObject [(''running'', JBool running)]), Error = []\<rparr>, s1))
   \<and> (Unmarshal_Request lib payload = (None, req)
        \<and> Method req = ''isGuestConnected''
        \<and> IsGuestConnected b (Name (optionalName lib req)) s = ((connected, None), s1) \<longrightarrow>
        Handle lib b c payload s
          = (sent lib c \<lparr>Success = True, Result = Some (JObject [(''connected'', JBool connected)]), Error = []\<rparr>, s1))
   \<and> (Unmarshal_Request lib payload = (None, req)
        \<and> Method req = ''spawn''
        \<and> Unmarshal_spawnParams lib (raw (Params req)) = (None, ps)
        \<and> Spawn b (sp_Name ps) (sp_ID ps) (sp_Cmd ps) (sp_Args ps) (sp_Env ps) (sp_Cwd ps)
            (map (\<lambda>(mountName, mount). (mountName, mount_Path mount)) (sp_AdditionalMounts ps)) s = ((processID, None), s1) \<longrightarrow>
        Handle lib b c payload s
          = (sent lib c \<lparr>Success = True, Result = Some (JObject [(''id'', JString processID)]), Error = []\<rparr>, s1))
   \<and> (Unmarshal_Request lib payload = (None, req)
        \<and> Method req = ''kill''
        \<and> Unmarshal_processIDParams lib (raw (Params req)) = (None, pp)
        \<and> Kill b (pi_ProcessID pp) s = (None, s1) \<longrightarrow>
        Handle lib b c payload s = (sent lib c \<lparr>Success = True, Result = None, Error = []\<rparr>, s1))
   \<and> (Unmarshal_Request lib payload = (None, req)
        \<and> Method req = ''writeStdin''
        \<and> Unmarshal_writeStdinParams lib (raw (Params req)) = (None, pw)
        \<and> WriteStdin b (ws_ProcessID pw) (ws_Data pw) s = (None, s1) \<longrightarrow>
        Handle lib b c payload s = (sent lib c \<lparr>Success = True, Result = None, Error = []\<rparr>, s1))
   \<and> (Unmarshal_Request lib payload = (None, req)
        \<and> Method req = ''isProcessRunning''
        \<and> Unmarshal_processIDParams lib (raw (Params req)) = (None, pp)
        \<and> IsProcessRunning b (pi_ProcessID pp) s = ((running, None), s1) \<longrightarrow>
        Handle lib b c payload s
          = (sent lib c \<lparr>Success = True, Result = Some (JObject [(''running'', JBool running)]), Error = []\<rparr>, s1))
   \<and> (Unmarshal_Request lib payload = (None, req)
        \<and> Method req = ''mountPath''
        \<and> Unmarshal_mountPathParams lib (raw (Params req)) = (None, pm)
        \<and> MountPath b (mp_Name pm) (HostPath pm) (GuestPath pm) s = (None, s1) \<longrightarrow>
        Handle lib b c payload s = (sent lib c \<lparr>Success = True, Result = None, Error = []\<rparr>, s1))
   \<and> (Unmarshal_Request lib payload = (None, req)
        \<and> Method req = ''readFile''
        \<and> Unmarshal_readFileParams lib (raw (Params req)) = (None, pr)
        \<and> ReadFile b (rf_Name pr) (rf_Path pr) s = ((data, None), s1) \<longrightarrow>
        Handle lib b c payload s
          = (sent lib c \<lparr>Success = True, Result = Some (JObject [(''data'', JString data)]), Error = []\<rparr>, s1))
   \<and> (Unmarshal_Request lib payload = (None, req)
        \<and> Method req = ''installSdk''
        \<and> Unmarshal_vmNameParams lib (raw (Params req)) = (None, pn)
        \<and> InstallSdk b (Name pn) s = (None, s1) \<longrightarrow>
        Handle lib b c payload s = (sent lib c \<lparr>Success = True, Result = None, Error = []\<rparr>, s1))
   \<and> (Unmarshal_Request lib payload = (None, req)
        \<and> Method req = ''addApprovedOauthToken''
        \<and> Unmarshal_oauthTokenParams lib (raw (Params req)) = (None, po)
        \<and> AddApprovedOauthToken b (oa_Name po) (Token po) s = (None, s1) \<longrightarrow>
        Handle lib b c payload s = (sent lib c \<lparr>Success = True, Result = None, Error = []\<rparr>, s1))
   \<and> (Unmarshal_Request lib payload = (None, req)
        \<and> Method req = ''setDebugLogging''
        \<and> Unmarshal_debugLoggingParams lib (raw (Params req)) = (None, pd) \<longrightarrow>
        Handle lib b c payload s = (sent lib c \<lparr>Success = True, Result = None, Error = []\<rparr>, SetDebugLogging b (Enabled pd) s))
   \<and> (Unmarshal_Request lib payload = (None, req)
        \<and> Method req = ''subscribeEvents''
        \<and> SubscribeEvents b (Name (optionalName lib req)) s = ((cancel, None), s1) \<longrightarrow>
        Handle lib b c payload s
          = ((sent lib c \<lparr>Success = True, Result = Some (JObject [(''subscribed'', JBool True)]), Error = []\<rparr>)
               \<lparr>incoming := readUntilError (incoming (sent lib c \<lparr>Success = True, Result = Some (JObject [(''subscribed'', JBool True)]), Error = []\<rparr>))\<rparr>,
             cancel s1))
   \<and> (Unmarshal_Request lib payload = (None, req)
        \<and> Method req = ''getDownloadStatus'' \<longrightarrow>
        Handle lib b c payload s
          = (sent lib c \<lparr>Success = True, Result = Some (JObject [(''status'', JString (GetDownloadStatus b s))]), Error = []\<rparr>, s))
   \<and> Response_json \<lparr>Success = True, Result = None, Error = []\<rparr> = JObject [(''success'', JBool True)]
   \<and> Response_json \<lparr>Success = True, Result = Some v, Error = []\<rparr>
        = JObject [(''success'', JBool True), (''result'', v)]"
  apply (intro conjI impI)
  subgoal by (elim conjE, erule (1) Handle_reply_shape)
  subgoal by (elim conjE, erule (3) Handle_configure_ok)
  subgoal by (elim conjE, erule (3) Handle_createVM_ok)
  subgoal by (elim conjE, erule (3) Handle_startVM_ok)
  subgoal by (elim conjE, erule (3) Handle_stopVM_ok)
  subgoal by (elim conjE, erule (2) Handle_isRunning_ok)
  subgoal by (elim conjE, erule (2) Handle_isGuestConnected_ok)
  subgoal by (elim conjE, erule (3) Handle_spawn_ok)
  subgoal by (elim conjE, erule (3) Handle_kill_ok)
  subgoal by (elim conjE, erule (3) Handle_writeStdin_ok)
  subgoal by (elim conjE, erule (3) Handle_isProcessRunning_ok)
  subgoal by (elim conjE, erule (3) Handle_mountPath_ok)
  subgoal by (elim conjE, erule (3) Handle_readFile_ok)
  subgoal by (elim conjE, erule (3) Handle_installSdk_ok)
  subgoal by (elim conjE, erule (3) Handle_addApprovedOauthToken_ok)
  subgoal by (elim conjE, erule (2) Handle_setDebugLogging_ok)
  subgoal by (elim conjE, erule (2) Handle_subscribeEvents_ok)
  subgoal by (elim conjE, erule (1) Handle_getDownloadStatus_ok)
  subgoal by (simp add: Response_json_def)
  subgoal by (simp add: Response_json_def)
  done

text \<open>
  Claim C5: the theorem for the request
  \<^verbatim>\<open>{"method":"configure","params":{"memory":4096,"cpus":2},"id":7}\<close>, for the request
  \<^verbatim>\<open>{"method":"kill","params":{"id":"p"}}\<close> and for an \<open>isRunning\<close> request, on a backend
  that accepts them: the frames written are \<^verbatim>\<open>{"success":true}\<close> twice and
  \<^verbatim>\<open>{"success":true,"result":{"running":false}}\<close>.
\<close>

lemma demo_configure_request:
  \<open>Unmarshal_Request demo_json demo_configure
     = (None, \<lparr>Method = ''configure'', Params = Some (to_bytes_of ''{"memory":4096,"cpus":2}''),
               ID = Some (JNumber 7)\<rparr>)\<close>
  using demo_distinct by (simp add: demo_json_def)

lemma demo_configure_params:
  \<open>Unmarshal_configureParams demo_json (raw (Some (to_bytes_of ''{"memory":4096,"cpus":2}'')))
      = (None, \<lparr>Memory = 4096, CPUs = 2\<rparr>)\<close>
  "Configure demo_backend 4096 2 () = (None, ())"
  by (simp_all add: demo_json_def raw_def demo_backend_def)

lemma demo_kill_ok_request:
  \<open>Unmarshal_Request demo_json demo_kill_p
     = (None, \<lparr>Method = ''kill'', Params = Some (to_bytes_of ''{"id":"p"}''), ID = None\<rparr>)\<close>
  \<open>Unmarshal_processIDParams demo_json (raw (Some (to_bytes_of ''{"id":"p"}'')))
     = (None, \<lparr>pi_ProcessID = ''p''\<rparr>)\<close>
  "Kill demo_backend ''p'' () = (None, ())"
  using demo_distinct by (simp_all add: demo_json_def raw_def to_bytes_of_def demo_backend_def)

lemma demo_isRunning_call:
  \<open>IsRunning demo_backend
     (Name (optionalName demo_json
        \<lparr>Method = ''isRunning'', Params = Some (to_bytes_of ''"x"''), ID = None\<rparr>)) ()
     = ((False, None), ())\<close>
  by (simp add: demo_backend_def)

theorem Handle_success_shape_witness:
  \<open>Handle demo_json demo_backend fresh_conn demo_configure ()
     = (fresh_conn\<lparr>written := [frame (to_bytes_of ''{"success":true}'')], accepts := 999\<rparr>, ())
   \<and> Handle demo_json demo_backend fresh_conn demo_kill_p ()
     = (fresh_conn\<lparr>written := [frame (to_bytes_of ''{"success":true}'')], accepts := 999\<rparr>, ())
   \<and> Handle demo_json demo_backend fresh_conn demo_isRunning ()
     = (fresh_conn\<lparr>written := [frame (to_bytes_of ''{"success":true,"result":{"running":false}}'')],
                   accepts := 999\<rparr>, ())
   \<and> (\<exists>resp. replied demo_json fresh_conn
          (fst (Handle demo_json demo_backend fresh_conn demo_isRunning ())) resp
        \<and> (Success resp \<longrightarrow> successShape ''isRunning'' resp))\<close>
proof -
  note T = Handle_success_shape [where lib = demo_json and b = demo_backend and c = fresh_conn
      and s = "()" and ?s1.0 = "()"]
  have 1: \<open>Handle demo_json demo_backend fresh_conn demo_configure ()
     = (fresh_conn\<lparr>written := [frame (to_bytes_of ''{"success":true}'')], accepts := 999\<rparr>, ())\<close>
    using T [where payload = demo_configure and pc = "\<lparr>Memory = 4096, CPUs = 2\<rparr>"
        and req = \<open>\<lparr>Method = ''configure'', Params = Some (to_bytes_of ''{"memory":4096,"cpus":2}''),
               ID = Some (JNumber 7)\<rparr>\<close>]
      demo_configure_params
    by (simp add: demo_configure_request sent_fresh)
  have 2: \<open>Handle demo_json demo_backend fresh_conn demo_kill_p ()
     = (fresh_conn\<lparr>written := [frame (to_bytes_of ''{"success":true}'')], accepts := 999\<rparr>, ())\<close>
    using T [where payload = demo_kill_p and pp = "\<lparr>pi_ProcessID = ''p''\<rparr>"
        and req = \<open>\<lparr>Method = ''kill'', Params = Some (to_bytes_of ''{"id":"p"}''), ID = None\<rparr>\<close>]
      demo_kill_ok_request
    by (simp add: sent_fresh)
  have 3: \<open>Handle demo_json demo_backend fresh_conn demo_isRunning ()
     = (fresh_conn\<lparr>written := [frame (to_bytes_of ''{"success":true,"result":{"running":false}}'')],
                   accepts := 999\<rparr>, ())\<close>
    using T [where payload = demo_isRunning and running = False
        and req = \<open>\<lparr>Method = ''isRunning'', Params = Some (to_bytes_of ''"x"''), ID = None\<rparr>\<close>]
      demo_isRunning_call
    by (simp add: demo_requests(4) sent_fresh)
  have 4: \<open>\<exists>resp. replied demo_json fresh_conn
          (fst (Handle demo_json demo_backend fresh_conn demo_isRunning ())) resp
        \<and> (Success resp \<longrightarrow> successShape ''isRunning'' resp)\<close>
    using T [where payload = demo_isRunning
        and req = \<open>\<lparr>Method = ''isRunning'', Params = Some (to_bytes_of ''"x"''), ID = None\<rparr>\<close>]
    by (simp add: demo_requests(4) methods_def) blast
  show ?thesis
    using 1 2 3 4 by blast
qed

text \<open>
  Claim C5 fails as stated for the operations with a null result: the successful
  \<open>configure\<close> above is answered with the frame \<^verbatim>\<open>{"success":true}\<close>, in which no \<open>result\<close>
  member is present.
\<close>

theorem Handle_configure_omits_result:
  \<open>Handle demo_json demo_backend fresh_conn demo_configure ()
     = (fresh_conn\<lparr>written := [frame (to_bytes_of ''{"success":true}'')], accepts := 999\<rparr>, ())\<close>
proof -
  have \<open>Handle demo_json demo_backend fresh_conn demo_configure ()
      = (sent demo_json fresh_conn \<lparr>Success = True, Result = None, Error = []\<rparr>, ())\<close>
    using Handle_configure_ok [of demo_json demo_configure
        \<open>\<lparr>Method = ''configure'', Params = Some (to_bytes_of ''{"memory":4096,"cpus":2}''),
               ID = Some (JNumber 7)\<rparr>\<close> "\<lparr>Memory = 4096, CPUs = 2\<rparr>" demo_backend "()" "()"
        fresh_conn] demo_configure_request demo_configure_params
    by simp
  then show ?thesis
    by (simp add: sent_fresh Response_json_def)
qed

section \<open>The signal of kill\<close>

lemma mapSignal_empty: "mapSignal h [] = SIGTERM"
  by (simp add: mapSignal_def ToUpper_def TrimPrefix_def)

lemma mapSignal_unrecognized:
  "ToUpper (UpperCase h) (TrimPrefix (ToUpper (UpperCase h) name) ''SIG'')
      \<notin> set [''KILL'', ''INT'', ''QUIT'', ''HUP'', ''USR1'', ''USR2''] \<Longrightarrow>
   mapSignal h name = SIGTERM"
  by (simp add: mapSignal_def Let_def)

text \<open>
  Names are upper-cased rune by rune: with U+017F in place of the first letter,
  \<open>sigkill\<close> is still the name of \<open>SIGKILL\<close>, and a name outside ASCII that is not
  recognized is mapped to \<open>SIGTERM\<close> like any other.
\<close>

lemma mapSignal_long_s: "mapSignal demo_host (CHR 0xC5 # CHR 0xBF # ''igkill'') = SIGKILL"
  by code_simp

lemma ToUpper_e_acute:
  "ToUpper (UpperCase demo_host) (TrimPrefix (ToUpper (UpperCase demo_host) [CHR 0xC3, CHR 0xA9]) ''SIG'')
     = [CHR 0xC3, CHR 0x89]"
  by code_simp

lemma kill_known_group:
  "lookup pt processID = Some lp \<Longrightarrow> Process (cmd lp) = Some pid \<Longrightarrow> Getpgid h pid = Inr pgid \<Longrightarrow>
     kill h pt processID [] = (None, [syscall_Kill (- pgid) SIGTERM])"
  by (simp add: kill_def mapSignal_empty)

lemma kill_known_fallback:
  "lookup pt processID = Some lp \<Longrightarrow> Process (cmd lp) = Some pid \<Longrightarrow> Getpgid h pid = Inl e \<Longrightarrow>
     kill h pt processID [] = (None, [Process_Signal pid SIGTERM])"
  by (simp add: kill_def mapSignal_empty)

lemma kill_unknown:
  "lookup pt processID = None \<Longrightarrow>
     kill h pt processID [] = (Some (''process '' @ processID @ '' not found''), [])"
  by (simp add: kill_def)

lemma kill_delivers_SIGTERM:
  "d \<in> set (snd (kill h pt processID [])) \<Longrightarrow> delivered_signal d = SIGTERM"
  by (auto simp add: kill_def mapSignal_empty Let_def split: option.splits sum.splits)

lemma Handle_kill_native:
  assumes "Unmarshal_Request lib payload = (None, req)" "Method req = ''kill''"
    and "Unmarshal_processIDParams lib (raw (Params req)) = (None, p)"
  shows "snd (Handle lib (b\<lparr>Kill := native_Kill h\<rparr>) c payload (pt, log))
       = (pt, log @ snd (kill h pt (pi_ProcessID p) []))"
  using assms
  by (simp add: Handle_def handleKill_def native_Kill_def split: prod.splits option.splits)

lemma Handle_kill_native_invalid:
  assumes "Unmarshal_Request lib payload = (None, req)" "Method req = ''kill''"
    and "fst (Unmarshal_processIDParams lib (raw (Params req))) \<noteq> None"
  shows "snd (Handle lib (b\<lparr>Kill := native_Kill h\<rparr>) c payload (pt, log)) = (pt, log)"
  using assms
  by (auto simp add: Handle_def handleKill_def split: prod.splits option.splits)

text \<open>
  Claim C10, as the code has it. \<open>mapSignal\<close> sends the empty name, and every name that
  after upper-casing, removal of a \<open>SIG\<close> prefix and upper-casing again is none of \<open>KILL\<close>,
  \<open>INT\<close>, \<open>QUIT\<close>, \<open>HUP\<close>, \<open>USR1\<close>, \<open>USR2\<close>, to \<open>SIGTERM\<close>. The params struct of \<open>kill\<close> has the id
  as its only field, and a \<open>kill\<close> request handled over the native backend sends exactly
  what the supervisor's \<open>kill\<close> sends for that id and the empty signal name (nothing when
  the params do not decode). Every signal so sent is \<open>SIGTERM\<close>: to the process group, by
  \<^verbatim>\<open>syscall.Kill\<close> with the negated group id, when the group of the pid is found, and by
  \<^verbatim>\<open>Process.Signal\<close> to the process alone when it is not; for an unknown id nothing is
  sent and the call fails.
\<close>

theorem kill_signal_is_SIGTERM:
  "mapSignal h [] = SIGTERM
   \<and> (ToUpper (UpperCase h) (TrimPrefix (ToUpper (UpperCase h) name) ''SIG'')
         \<notin> set [''KILL'', ''INT'', ''QUIT'', ''HUP'', ''USR1'', ''USR2''] \<longrightarrow>
        mapSignal h name = SIGTERM)
   \<and> p = \<lparr>pi_ProcessID = pi_ProcessID p\<rparr>
   \<and> (Unmarshal_Request lib payload = (None, req) \<and> Method req = ''kill''
        \<and> Unmarshal_processIDParams lib (raw (Params req)) = (None, p) \<longrightarrow>
        snd (Handle lib (b\<lparr>Kill := native_Kill h\<rparr>) c payload (pt, log))
          = (pt, log @ snd (kill h pt (pi_ProcessID p) [])))
   \<and> (Unmarshal_Request lib payload = (None, req) \<and> Method req = ''kill''
        \<and> fst (Unmarshal_processIDParams lib (raw (Params req))) \<noteq> None \<longrightarrow>
        snd (Handle lib (b\<lparr>Kill := native_Kill h\<rparr>) c payload (pt, log)) = (pt, log))
   \<and> (\<forall>d \<in> set (snd (kill h pt processID [])). delivered_signal d = SIGTERM)
   \<and> (lookup pt processID = Some lp \<and> Process (cmd lp) = Some pid \<and> Getpgid h pid = Inr pgid \<longrightarrow>
        kill h pt processID [] = (None, [syscall_Kill (- pgid) SIGTERM]))
   \<and> (lookup pt processID = Some lp \<and> Process (cmd lp) = Some pid \<and> Getpgid h pid = Inl e \<longrightarrow>
        kill h pt processID [] = (None, [Process_Signal pid SIGTERM]))
   \<and> (lookup pt processID = None \<longrightarrow>
        kill h pt processID [] = (Some (''process '' @ processID @ '' not found''), []))"
  apply (intro conjI impI ballI)
  subgoal by (rule mapSignal_empty)
  subgoal by (erule mapSignal_unrecognized)
  subgoal by simp
  subgoal by (elim conjE, erule (2) Handle_kill_native)
  subgoal by (elim conjE, erule (2) Handle_kill_native_invalid)
  subgoal by (erule kill_delivers_SIGTERM)
  subgoal by (elim conjE, erule (2) kill_known_group)
  subgoal by (elim conjE, erule (2) kill_known_fallback)
  subgoal by (erule kill_unknown)
  done

text \<open>
  Claim C10: the theorem for the name \<open>bogus\<close> and for the name that consists of the
  letter U+00E9, for two \<open>kill\<close> requests to the native backend (params with the id \<open>p\<close>,
  and params that do not decode), and for \<open>kill\<close> on a running process, on a process
  whose group cannot be found and on an unknown id.
\<close>

lemma demo_kill_p_request:
  \<open>Unmarshal_Request demo_json demo_kill_p
     = (None, \<lparr>Method = ''kill'', Params = Some (to_bytes_of ''{"id":"p"}''), ID = None\<rparr>)\<close>
  \<open>Unmarshal_processIDParams demo_json (raw (Some (to_bytes_of ''{"id":"p"}'')))
     = (None, \<lparr>pi_ProcessID = ''p''\<rparr>)\<close>
  \<open>fst (Unmarshal_processIDParams demo_json (raw (Some (to_bytes_of ''"x"'')))) \<noteq> None\<close>
  using demo_distinct by (simp_all add: demo_json_def raw_def to_bytes_of_def)

theorem kill_signal_is_SIGTERM_witness:
  "mapSignal demo_host ''bogus'' = SIGTERM
   \<and> mapSignal demo_host [CHR 0xC3, CHR 0xA9] = SIGTERM
   \<and> snd (Handle demo_json (demo_backend\<lparr>Kill := native_Kill demo_host\<rparr>) fresh_conn demo_kill_p
          (demo_tracker, []))
       = (demo_tracker, [syscall_Kill (- 4242) SIGTERM])
   \<and> snd (Handle demo_json (demo_backend\<lparr>Kill := native_Kill demo_host\<rparr>) fresh_conn demo_kill
          (demo_tracker, []))
       = (demo_tracker, [])
   \<and> map delivered_signal (snd (kill demo_host demo_tracker ''p'' [])) = [SIGTERM]
   \<and> kill demo_host_gone demo_tracker ''p'' [] = (None, [Process_Signal 4242 SIGTERM])
   \<and> kill demo_host demo_tracker ''q'' [] = (Some ''process q not found'', [])"
proof -
  have l: "lookup demo_tracker ''p'' = Some demo_lp" "Process (cmd demo_lp) = Some 4242"
    "Getpgid demo_host_gone 4242 = Inl ''no such process''" "Getpgid demo_host 4242 = Inr 4242"
    "lookup demo_tracker ''q'' = None"
    by (simp_all add: lookup_def demo_tracker_def demo_lp_def demo_host_gone_def demo_host_def)
  have u: "ToUpper (UpperCase demo_host) (TrimPrefix (ToUpper (UpperCase demo_host) ''bogus'') ''SIG'')
      = ''BOGUS''"
    by (simp add: ToUpper_def TrimPrefix_def upper_char_def)
  have 1: "mapSignal demo_host ''bogus'' = SIGTERM"
    using kill_signal_is_SIGTERM [where h = demo_host and name = "''bogus''"] u by simp
  have ea: "mapSignal demo_host [CHR 0xC3, CHR 0xA9] = SIGTERM"
    using kill_signal_is_SIGTERM [where h = demo_host and name = "[CHR 0xC3, CHR 0xA9]"]
      ToUpper_e_acute
    by simp
  have g: "kill demo_host demo_tracker ''p'' [] = (None, [syscall_Kill (- 4242) SIGTERM])"
    using kill_signal_is_SIGTERM [where h = demo_host and pt = demo_tracker and processID = "''p''"
        and lp = demo_lp and pid = 4242 and pgid = 4242] l
    by simp
  have 2: "snd (Handle demo_json (demo_backend\<lparr>Kill := native_Kill demo_host\<rparr>) fresh_conn demo_kill_p
          (demo_tracker, []))
       = (demo_tracker, [syscall_Kill (- 4242) SIGTERM])"
    using kill_signal_is_SIGTERM [where p = "\<lparr>pi_ProcessID = ''p''\<rparr>" and lib = demo_json
        and payload = demo_kill_p
        and req = \<open>\<lparr>Method = ''kill'', Params = Some (to_bytes_of ''{"id":"p"}''), ID = None\<rparr>\<close>
        and b = demo_backend and h = demo_host and c = fresh_conn and pt = demo_tracker
        and log = "[]"] demo_kill_p_request(1,2) g
    by simp
  have 3: "snd (Handle demo_json (demo_backend\<lparr>Kill := native_Kill demo_host\<rparr>) fresh_conn demo_kill
          (demo_tracker, []))
       = (demo_tracker, [])"
    using kill_signal_is_SIGTERM [where lib = demo_json and payload = demo_kill
        and req = \<open>\<lparr>Method = ''kill'', Params = Some (to_bytes_of ''"x"''), ID = None\<rparr>\<close>
        and b = demo_backend and h = demo_host and c = fresh_conn and pt = demo_tracker
        and log = "[]"] demo_requests(3) demo_kill_p_request(3)
    by simp
  have 4: "map delivered_signal (snd (kill demo_host demo_tracker ''p'' [])) = [SIGTERM]"
    using g by simp
  have 5: "kill demo_host_gone demo_tracker ''p'' [] = (None, [Process_Signal 4242 SIGTERM])"
    using kill_signal_is_SIGTERM [where h = demo_host_gone and pt = demo_tracker
        and processID = "''p''" and lp = demo_lp and pid = 4242 and e = "''no such process''"] l
    by simp
  have 6: "kill demo_host demo_tracker ''q'' [] = (Some ''process q not found'', [])"
    using kill_signal_is_SIGTERM [where h = demo_host and pt = demo_tracker and processID = "''q''"] l
    by simp
  show ?thesis
    using 1 ea 2 3 4 5 6 by simp
qed

text \<open>
  Claim C10 fails as stated in its last part: when the process group of the pid cannot
  be found, \<open>SIGTERM\<close> is handed to \<^verbatim>\<open>Process.Signal\<close> for the process itself, and nothing
  is sent to its group.
\<close>

theorem kill_falls_back_to_process:
  "lookup demo_tracker ''p'' = Some demo_lp
   \<and> Process (cmd demo_lp) = Some 4242
   \<and> Getpgid demo_host_gone 4242 = Inl ''no such process''
   \<and> kill demo_host_gone demo_tracker ''p'' [] = (None, [Process_Signal 4242 SIGTERM])
   \<and> snd (native_Kill demo_host_gone ''p'' (demo_tracker, [])) = (demo_tracker, [Process_Signal 4242 SIGTERM])"
proof -
  have l: "lookup demo_tracker ''p'' = Some demo_lp" "Process (cmd demo_lp) = Some 4242"
    "Getpgid demo_host_gone 4242 = Inl ''no such process''"
    by (simp_all add: lookup_def demo_tracker_def demo_lp_def demo_host_gone_def)
  have k: "kill demo_host_gone demo_tracker ''p'' [] = (None, [Process_Signal 4242 SIGTERM])"
    by (rule kill_known_fallback [OF l])
  show ?thesis
    using l k by (simp add: native_Kill_def)
qed

end
